theory Spec2Isabelle
  imports Main "HOL-Library.AList"
begin

section \<open>Errors\<close>

text \<open>
  One type for every error value the modelled code returns. The first group are the
  storage-layer sentinels (\<^verbatim>\<open>errVolumeNotFound\<close>, \<^verbatim>\<open>io.EOF\<close>, ...), the second group the
  object-layer error structs, the third group errors that only carry a message
  (\<^verbatim>\<open>fmt.Errorf\<close>) and errors of the remote API. A Go run-time panic is the value
  \<open>GoPanic\<close>.
\<close>

datatype error =
    errVolumeNotFound
  | errVolumeExists
  | errVolumeNotEmpty
  | errFileNotFound
  | errFileAccessDenied
  | errCorruptedFormat
  | errInvalidArgument
  | errUnexpected
  | errReadBlock
  | errDiskFull
  | errFaultyDisk
  | errIsNotRegular
  | ioEOF
  | ioErrClosedPipe
  | OperationTimedOut
  | BucketNotFound string
  | BucketNameInvalid string
  | BucketExists string
  | BucketNotEmpty string
  | BucketAlreadyOwnedByYou string
  | BucketAlreadyExists string
  | ObjectNotFound string string
  | ObjectNameInvalid string string
  | ObjectAlreadyExists string string
  | PrefixAccessDenied string string
  | InvalidUploadID string
  | InvalidETag
  | InvalidRange int int int
  | IncompleteBody
  | StorageFull
  | PartTooSmall int int string
  | PlainError string
  | GoogleAPIError "(string \<times> string) list"
  | GoPanic string

section \<open>GCS gateway: completing an emulated multipart upload\<close>

subsection \<open>Constants and names (gateway-gcs.go)\<close>

text \<open>Modelled from the spec: \<^verbatim>\<open>minio.GatewayMinioSysTmp\<close> is declared outside the given
  sources; the spec calls it the \<^verbatim>\<open>sys.tmp/\<close> prefix.\<close>

definition GatewayMinioSysTmp :: string where
  "GatewayMinioSysTmp = ''minio.sys.tmp/''"

definition gcsMinioMultipartPathV1 :: string where
  "gcsMinioMultipartPathV1 = GatewayMinioSysTmp @ ''multipart/v1''"

definition gcsMinioMultipartMeta :: string where
  "gcsMinioMultipartMeta = ''gcs.json''"

definition gcsMinioMultipartMetaCurrentVersion :: string where
  "gcsMinioMultipartMetaCurrentVersion = ''1''"

definition gcsMaxComponents :: nat where
  "gcsMaxComponents = 32"

definition errGCSFormat :: error where
  "errGCSFormat = PlainError ''Unknown format''"

definition MiByte :: int where
  "MiByte = 1048576"

text \<open>Decimal printing, as \<^verbatim>\<open>%d\<close> and \<^verbatim>\<open>%05d\<close> of \<^verbatim>\<open>fmt.Sprintf\<close> do it.\<close>

definition digitChar :: "nat \<Rightarrow> char" where
  "digitChar d = char_of (48 + d)"

fun decimalNat :: "nat \<Rightarrow> string" where
  "decimalNat n = (if n < 10 then [digitChar n] else decimalNat (n div 10) @ [digitChar (n mod 10)])"

declare decimalNat.simps [simp del]

definition fmt05d :: "int \<Rightarrow> string" where
  "fmt05d i =
     (if i < 0
      then (let ds = decimalNat (nat (- i)) in CHR ''-'' # replicate (4 - length ds) CHR ''0'' @ ds)
      else (let ds = decimalNat (nat i) in replicate (5 - length ds) CHR ''0'' @ ds))"

definition gcsMultipartMetaName :: "string \<Rightarrow> string" where
  "gcsMultipartMetaName uploadID =
     gcsMinioMultipartPathV1 @ ''/'' @ uploadID @ ''/'' @ gcsMinioMultipartMeta"

definition gcsMultipartDataName :: "string \<Rightarrow> int \<Rightarrow> string \<Rightarrow> string" where
  "gcsMultipartDataName uploadID partNumber etag =
     gcsMinioMultipartPathV1 @ ''/'' @ uploadID @ ''/'' @ fmt05d partNumber @ ''.'' @ etag"

definition gcsMultipartComposeName :: "string \<Rightarrow> int \<Rightarrow> string" where
  "gcsMultipartComposeName uploadID composeNumber =
     GatewayMinioSysTmp @ ''/tmp/'' @ uploadID @ ''/composed-object-'' @ fmt05d composeNumber"

subsection \<open>gcsToObjectError\<close>

text \<open>
  \<^verbatim>\<open>gcsToObjectError(err, params...)\<close> with \<open>params\<close> as a list. The code first compares
  \<^verbatim>\<open>err.Error()\<close> with the two messages of the storage client; the only errors of the
  model whose message can be one of them are the message-only errors. An error that is
  not a \<^verbatim>\<open>*googleapi.Error\<close> is returned as it is.
\<close>

definition paramBucket :: "string list \<Rightarrow> string" where
  "paramBucket params = (if length params \<ge> 1 then params ! 0 else [])"

definition paramObject :: "string list \<Rightarrow> string" where
  "paramObject params = (if length params = 2 then params ! 1 else [])"

definition paramUploadID :: "string list \<Rightarrow> string" where
  "paramUploadID params = (if length params = 3 then params ! 2 else [])"

definition gcsReasonToError :: "string \<Rightarrow> string \<Rightarrow> string \<Rightarrow> string \<Rightarrow> error" where
  "gcsReasonToError reason message bucket object =
     (if reason = ''required'' \<or> reason = ''keyInvalid'' \<or> reason = ''forbidden''
        then PrefixAccessDenied bucket object
      else if reason = ''invalid'' then BucketNameInvalid bucket
      else if reason = ''notFound''
        then (if object \<noteq> [] then ObjectNotFound bucket object else BucketNotFound bucket)
      else if reason = ''conflict''
        then (if message = ''You already own this bucket. Please select another name.''
                then BucketAlreadyOwnedByYou bucket
              else if message = ''Sorry, that name is not available. Please try a different one.''
                then BucketAlreadyExists bucket
              else BucketNotEmpty bucket)
      else PlainError (''Unsupported error reason: '' @ reason))"

fun gcsToObjectError :: "error \<Rightarrow> string list \<Rightarrow> error" where
  "gcsToObjectError (PlainError msg) params =
     (if msg = ''storage: bucket doesn't exist'' then BucketNotFound (paramBucket params)
      else if msg = ''storage: object doesn't exist''
        then (if paramUploadID params \<noteq> [] then InvalidUploadID (paramUploadID params)
              else ObjectNotFound (paramBucket params) (paramObject params))
      else PlainError msg)"
| "gcsToObjectError (GoogleAPIError []) params = GoogleAPIError []"
| "gcsToObjectError (GoogleAPIError ((reason, message) # es)) params =
     gcsReasonToError reason message (paramBucket params) (paramObject params)"
| "gcsToObjectError err params = err"

subsection \<open>Go strings and maps\<close>

text \<open>\<^verbatim>\<open>strings.HasPrefix\<close> and \<^verbatim>\<open>strings.HasSuffix\<close> (the code's \<^verbatim>\<open>hasPrefix\<close> and
  \<^verbatim>\<open>hasSuffix\<close> are these on every platform but Windows).\<close>

definition hasPrefix :: "string \<Rightarrow> string \<Rightarrow> bool" where
  "hasPrefix s p = (take (length p) s = p)"

definition hasSuffix :: "string \<Rightarrow> string \<Rightarrow> bool" where
  "hasSuffix s p = (length p \<le> length s \<and> drop (length s - length p) s = p)"

text \<open>A Go \<^verbatim>\<open>map[string]string\<close>: \<open>None\<close> is the nil map, which can be read (as
  empty) but not assigned to; \<open>Some al\<close> is an allocated map with the entries of \<open>al\<close>.\<close>

type_synonym gomap = "(string \<times> string) list option"

definition mapGet :: "gomap \<Rightarrow> string \<Rightarrow> string option" where
  "mapGet m k = (case m of None \<Rightarrow> None | Some al \<Rightarrow> map_of al k)"

definition mapIndex :: "gomap \<Rightarrow> string \<Rightarrow> string" where
  "mapIndex m k = (case mapGet m k of None \<Rightarrow> [] | Some v \<Rightarrow> v)"

definition mapSet :: "gomap \<Rightarrow> string \<Rightarrow> string \<Rightarrow> error + gomap" where
  "mapSet m k v =
     (case m of None \<Rightarrow> Inl (GoPanic ''assignment to entry in nil map'')
      | Some al \<Rightarrow> Inr (Some (AList.update k v al)))"

definition mapEntries :: "gomap \<Rightarrow> (string \<times> string) list" where
  "mapEntries m = (case m of None \<Rightarrow> [] | Some al \<Rightarrow> al)"

subsection \<open>Object information\<close>

record PartInfo =
  piPartNumber :: int
  piETag :: string
  piSize :: int

record ObjectInfo =
  oiBucket :: string
  oiName :: string
  oiSize :: int
  oiIsDir :: bool
  oiETag :: string
  oiContentType :: string
  oiContentEncoding :: string
  oiUserDefined :: gomap
  oiParts :: "PartInfo list"
  metadataOnly :: bool

definition emptyObjectInfo :: ObjectInfo where
  "emptyObjectInfo = \<lparr> oiBucket = [], oiName = [], oiSize = 0, oiIsDir = False, oiETag = [],
     oiContentType = [], oiContentEncoding = [], oiUserDefined = None, oiParts = [],
     metadataOnly = False \<rparr>"

record CompletePart =
  cpPartNumber :: int
  cpETag :: string

subsection \<open>The remote store\<close>

record gcsMultipartMetaV1 =
  mmVersion :: string
  mmBucket :: string
  mmObject :: string

text \<open>The body of a remote object is either the JSON document of a \<^verbatim>\<open>gcsMultipartMetaV1\<close>
  (what \<^verbatim>\<open>NewMultipartUpload\<close> encodes), or bytes that do not decode to one.\<close>

datatype gcsBody = Bytes string | MetaJSON gcsMultipartMetaV1

record ObjectAttrs =
  attrBucket :: string
  attrName :: string
  attrSize :: int
  attrContentType :: string
  attrContentEncoding :: string
  attrCacheControl :: string
  attrContentDisposition :: string
  attrContentLanguage :: string
  attrMetadata :: "(string \<times> string) list"
  attrCRC32C :: nat

record gcsObject =
  objAttrs :: ObjectAttrs
  objBody :: gcsBody

type_synonym gcsStore = "((string \<times> string) \<times> gcsObject) list"

datatype gcsOp = OpAttrs | OpNewReader | OpCompose | OpList

text \<open>What the remote service and the libraries outside the given sources decide:
  whether a request fails for a reason of its own (\<open>gcsFault\<close>, per request kind, bucket
  and object name), the checksum the service computes, and \<^verbatim>\<open>minio.ToS3ETag\<close>.\<close>

record gcsEnv =
  gcsFault :: "gcsOp \<Rightarrow> string \<Rightarrow> string \<Rightarrow> error option"
  crc32c :: "string \<Rightarrow> nat"
  ToS3ETag :: "string \<Rightarrow> string"

definition errObjectNotExist :: error where
  "errObjectNotExist = PlainError ''storage: object doesn't exist''"

definition gcsAttrs :: "gcsEnv \<Rightarrow> gcsStore \<Rightarrow> string \<Rightarrow> string \<Rightarrow> error + ObjectAttrs" where
  "gcsAttrs env st bucket name =
     (case gcsFault env OpAttrs bucket name of
        Some e \<Rightarrow> Inl e
      | None \<Rightarrow> (case map_of st (bucket, name) of
                  None \<Rightarrow> Inl errObjectNotExist
                | Some ob \<Rightarrow> Inr (objAttrs ob)))"

definition gcsNewReader :: "gcsEnv \<Rightarrow> gcsStore \<Rightarrow> string \<Rightarrow> string \<Rightarrow> error + gcsBody" where
  "gcsNewReader env st bucket name =
     (case gcsFault env OpNewReader bucket name of
        Some e \<Rightarrow> Inl e
      | None \<Rightarrow> (case map_of st (bucket, name) of
                  None \<Rightarrow> Inl errObjectNotExist
                | Some ob \<Rightarrow> Inr (objBody ob)))"

text \<open>\<^verbatim>\<open>json.NewDecoder(r).Decode(&multipartMeta)\<close>: an empty body is \<^verbatim>\<open>io.EOF\<close>, other
  bytes are a syntax error.\<close>

definition decodeMultipartMeta :: "gcsBody \<Rightarrow> error + gcsMultipartMetaV1" where
  "decodeMultipartMeta b =
     (case b of
        MetaJSON m \<Rightarrow> Inr m
      | Bytes bs \<Rightarrow> (if bs = [] then Inl ioEOF else Inl (PlainError ''invalid character'')))"

definition encodeMultipartMeta :: "gcsMultipartMetaV1 \<Rightarrow> string" where
  "encodeMultipartMeta m =
     ''{\"version\":\"'' @ mmVersion m @ ''\",\"bucket\":\"'' @ mmBucket m
       @ ''\",\"object\":\"'' @ mmObject m @ ''\"}''"

definition bodyBytes :: "gcsBody \<Rightarrow> string" where
  "bodyBytes b = (case b of Bytes bs \<Rightarrow> bs | MetaJSON m \<Rightarrow> encodeMultipartMeta m)"

text \<open>\<^verbatim>\<open>dst.ComposerFrom(srcs...).Run(ctx)\<close> with the attributes set on the composer: the
  service concatenates the sources into the destination, or fails.\<close>

fun lookupAll :: "gcsStore \<Rightarrow> string \<Rightarrow> string list \<Rightarrow> gcsObject list option" where
  "lookupAll st bucket [] = Some []"
| "lookupAll st bucket (n # ns) =
     (case map_of st (bucket, n) of
        None \<Rightarrow> None
      | Some ob \<Rightarrow> (case lookupAll st bucket ns of None \<Rightarrow> None | Some obs \<Rightarrow> Some (ob # obs)))"

definition composerRun ::
  "gcsEnv \<Rightarrow> gcsStore \<Rightarrow> string \<Rightarrow> string \<Rightarrow> string list \<Rightarrow> ObjectAttrs \<Rightarrow> (error + ObjectAttrs) \<times> gcsStore" where
  "composerRun env st bucket dst srcs composer =
     (case gcsFault env OpCompose bucket dst of
        Some e \<Rightarrow> (Inl e, st)
      | None \<Rightarrow>
         (case lookupAll st bucket srcs of
            None \<Rightarrow> (Inl (GoogleAPIError [(''notFound'', ''Not Found'')]), st)
          | Some obs \<Rightarrow>
             (let bytes = concat (map (bodyBytes \<circ> objBody) obs);
                  attrs = composer \<lparr> attrBucket := bucket, attrName := dst,
                            attrSize := sum_list (map (attrSize \<circ> objAttrs) obs),
                            attrCRC32C := crc32c env bytes \<rparr>
              in (Inr attrs,
                  AList.update (bucket, dst) \<lparr> objAttrs = attrs, objBody = Bytes bytes \<rparr> st))))"

definition emptyAttrs :: ObjectAttrs where
  "emptyAttrs = \<lparr> attrBucket = [], attrName = [], attrSize = 0, attrContentType = [],
     attrContentEncoding = [], attrCacheControl = [], attrContentDisposition = [],
     attrContentLanguage = [], attrMetadata = [], attrCRC32C = 0 \<rparr>"

subsection \<open>fromGCSAttrsToObjectInfo\<close>

definition setIfNonEmpty :: "string \<Rightarrow> string \<Rightarrow> (string \<times> string) list \<Rightarrow> (string \<times> string) list" where
  "setIfNonEmpty k v al = (if v \<noteq> [] then AList.update k v al else al)"

definition fromGCSAttrsToObjectInfo :: "gcsEnv \<Rightarrow> ObjectAttrs \<Rightarrow> ObjectInfo" where
  "fromGCSAttrsToObjectInfo env attrs =
     (let metadata =
            setIfNonEmpty ''content-language'' (attrContentLanguage attrs)
             (setIfNonEmpty ''content-disposition'' (attrContentDisposition attrs)
               (setIfNonEmpty ''cache-control'' (attrCacheControl attrs)
                 (setIfNonEmpty ''content-encoding'' (attrContentEncoding attrs)
                   (setIfNonEmpty ''content-type'' (attrContentType attrs)
                     (attrMetadata attrs)))))
      in emptyObjectInfo \<lparr> oiName := attrName attrs, oiBucket := attrBucket attrs,
           oiSize := attrSize attrs,
           oiETag := ToS3ETag env (decimalNat (attrCRC32C attrs)),
           oiUserDefined := Some metadata,
           oiContentType := attrContentType attrs,
           oiContentEncoding := attrContentEncoding attrs \<rparr>)"

subsection \<open>cleanupMultipartUpload\<close>

text \<open>Every object of the bucket under \<^verbatim>\<open><multipart path>/<uploadID>/\<close> is deleted; the
  result of each delete is ignored by the code. A failure of the listing is returned.\<close>

definition cleanupMultipartUpload ::
  "gcsEnv \<Rightarrow> gcsStore \<Rightarrow> string \<Rightarrow> string \<Rightarrow> string \<Rightarrow> error option \<times> gcsStore" where
  "cleanupMultipartUpload env st bucket key uploadID =
     (let pre = gcsMinioMultipartPathV1 @ ''/'' @ uploadID @ ''/'' in
      case gcsFault env OpList bucket pre of
        Some err \<Rightarrow> (Some (gcsToObjectError err [bucket, key]), st)
      | None \<Rightarrow> (None, filter (\<lambda>((b, n), ob). \<not> (b = bucket \<and> hasPrefix n pre)) st))"

subsection \<open>CompleteMultipartUpload\<close>

text \<open>The first loop: the attributes of every supplied part are fetched, in order; the
  first failure ends the call.\<close>

fun fetchPartSizes ::
  "gcsEnv \<Rightarrow> gcsStore \<Rightarrow> string \<Rightarrow> string \<Rightarrow> string \<Rightarrow> CompletePart list \<Rightarrow> error + int list" where
  "fetchPartSizes env st bucket key uploadID [] = Inr []"
| "fetchPartSizes env st bucket key uploadID (p # ps) =
     (case gcsAttrs env st bucket (gcsMultipartDataName uploadID (cpPartNumber p) (cpETag p)) of
        Inl pErr \<Rightarrow> Inl (gcsToObjectError pErr [bucket, key, uploadID])
      | Inr partAttr \<Rightarrow>
         (case fetchPartSizes env st bucket key uploadID ps of
            Inl e \<Rightarrow> Inl e
          | Inr sizes \<Rightarrow> Inr (attrSize partAttr # sizes)))"

text \<open>The second loop, over \<^verbatim>\<open>partSizes[:len(partSizes)-1]\<close>, reading \<^verbatim>\<open>uploadedParts[i]\<close>
  at the same index.\<close>

fun checkPartSizes :: "CompletePart list \<Rightarrow> int list \<Rightarrow> error option" where
  "checkPartSizes ps [] = None"
| "checkPartSizes [] (sz # sizes) = Some (GoPanic ''index out of range'')"
| "checkPartSizes (p # ps) (sz # sizes) =
     (if sz < 5 * MiByte then Some (PartTooSmall (cpPartNumber p) sz (cpETag p))
      else checkPartSizes ps sizes)"

definition composeCountOf :: "nat \<Rightarrow> nat" where
  "composeCountOf n = (n + gcsMaxComponents - 1) div gcsMaxComponents"

text \<open>The loop that creates \<^verbatim>\<open>composed-object-i\<close> from the next 32 parts, for the indices
  in \<open>is\<close>; it returns the names of the composed objects.\<close>

fun composeTiers ::
  "gcsEnv \<Rightarrow> gcsStore \<Rightarrow> string \<Rightarrow> string \<Rightarrow> string \<Rightarrow> ObjectAttrs \<Rightarrow> string list \<Rightarrow> nat list
     \<Rightarrow> (error + string list) \<times> gcsStore" where
  "composeTiers env st bucket key uploadID partZeroAttrs parts [] = (Inr [], st)"
| "composeTiers env st bucket key uploadID partZeroAttrs parts (i # is) =
     (let name = gcsMultipartComposeName uploadID (int i);
          start = i * gcsMaxComponents;
          end' = (if start + gcsMaxComponents > length parts then length parts
                  else start + gcsMaxComponents);
          composer = emptyAttrs \<lparr> attrContentType := attrContentType partZeroAttrs,
                       attrMetadata := attrMetadata partZeroAttrs \<rparr>
      in case composerRun env st bucket name (take (end' - start) (drop start parts)) composer of
           (Inl err, st') \<Rightarrow> (Inl (gcsToObjectError err [bucket, key]), st')
         | (Inr a, st') \<Rightarrow>
            (case composeTiers env st' bucket key uploadID partZeroAttrs parts is of
               (Inl e, st'') \<Rightarrow> (Inl e, st'')
             | (Inr names, st'') \<Rightarrow> (Inr (name # names), st'')))"

definition composeFinal ::
  "gcsEnv \<Rightarrow> gcsStore \<Rightarrow> string \<Rightarrow> string \<Rightarrow> string \<Rightarrow> ObjectAttrs \<Rightarrow> string list
     \<Rightarrow> (error + ObjectInfo) \<times> gcsStore" where
  "composeFinal env st bucket key uploadID partZeroAttrs parts =
     (let composer = emptyAttrs \<lparr> attrContentType := attrContentType partZeroAttrs,
                       attrContentEncoding := attrContentEncoding partZeroAttrs,
                       attrCacheControl := attrCacheControl partZeroAttrs,
                       attrContentDisposition := attrContentDisposition partZeroAttrs,
                       attrContentLanguage := attrContentLanguage partZeroAttrs,
                       attrMetadata := attrMetadata partZeroAttrs \<rparr>
      in case composerRun env st bucket key parts composer of
           (Inl err, st') \<Rightarrow> (Inl (gcsToObjectError err [bucket, key]), st')
         | (Inr attrs, st') \<Rightarrow>
            (case cleanupMultipartUpload env st' bucket key uploadID of
               (Some err, st'') \<Rightarrow> (Inl (gcsToObjectError err [bucket, key]), st'')
             | (None, st'') \<Rightarrow> (Inr (fromGCSAttrsToObjectInfo env attrs), st'')))"

definition composeAll ::
  "gcsEnv \<Rightarrow> gcsStore \<Rightarrow> string \<Rightarrow> string \<Rightarrow> string \<Rightarrow> ObjectAttrs \<Rightarrow> string list
     \<Rightarrow> (error + ObjectInfo) \<times> gcsStore" where
  "composeAll env st bucket key uploadID partZeroAttrs parts =
     (let composeCount = composeCountOf (length parts) in
      if composeCount > 1
      then (case composeTiers env st bucket key uploadID partZeroAttrs parts [0 ..< composeCount] of
              (Inl e, st') \<Rightarrow> (Inl e, st')
            | (Inr composeParts, st') \<Rightarrow>
                composeFinal env st' bucket key uploadID partZeroAttrs composeParts)
      else composeFinal env st bucket key uploadID partZeroAttrs parts)"

definition CompleteMultipartUpload ::
  "gcsEnv \<Rightarrow> gcsStore \<Rightarrow> string \<Rightarrow> string \<Rightarrow> string \<Rightarrow> CompletePart list
     \<Rightarrow> (error + ObjectInfo) \<times> gcsStore" where
  "CompleteMultipartUpload env st bucket key uploadID uploadedParts =
     (let meta = gcsMultipartMetaName uploadID in
      case gcsAttrs env st bucket meta of
        Inl err \<Rightarrow> (Inl (gcsToObjectError err [bucket, key, uploadID]), st)
      | Inr partZeroAttrs \<Rightarrow>
     (case gcsNewReader env st bucket meta of
        Inl err \<Rightarrow> (Inl (gcsToObjectError err [bucket, key]), st)
      | Inr r \<Rightarrow>
     (case decodeMultipartMeta r of
        Inl err \<Rightarrow> (Inl (gcsToObjectError err [bucket, key]), st)
      | Inr multipartMeta \<Rightarrow>
      if mmVersion multipartMeta \<noteq> gcsMinioMultipartMetaCurrentVersion
        then (Inl (gcsToObjectError errGCSFormat [bucket, key]), st)
      else if mmBucket multipartMeta \<noteq> bucket \<or> mmObject multipartMeta \<noteq> key
        then (Inl (gcsToObjectError (InvalidUploadID uploadID) [bucket, key]), st)
      else
     (case fetchPartSizes env st bucket key uploadID uploadedParts of
        Inl err \<Rightarrow> (Inl err, st)
      | Inr partSizes \<Rightarrow>
      if partSizes = [] then (Inl (GoPanic ''slice bounds out of range''), st)
      else
     (case checkPartSizes uploadedParts (butlast partSizes) of
        Some err \<Rightarrow> (Inl err, st)
      | None \<Rightarrow>
          composeAll env st bucket key uploadID partZeroAttrs
            (map (\<lambda>p. gcsMultipartDataName uploadID (cpPartNumber p) (cpETag p)) uploadedParts))))))"

section \<open>FS backend (fs-v1.go)\<close>

subsection \<open>Paths\<close>

text \<open>
  Paths are strings. \<^verbatim>\<open>path.Clean\<close>, \<^verbatim>\<open>path.Join\<close>, \<^verbatim>\<open>path.Dir\<close> and \<^verbatim>\<open>path.Ext\<close> are
  those of Go's \<^verbatim>\<open>path\<close> package. \<open>splitOn c s\<close> is \<^verbatim>\<open>strings.Split(s, c)\<close>.
\<close>

type_synonym path = string

fun splitOn :: "char \<Rightarrow> string \<Rightarrow> string list" where
  "splitOn c [] = [[]]"
| "splitOn c (x # xs) =
     (if x = c then [] # splitOn c xs
      else (case splitOn c xs of [] \<Rightarrow> [[x]] | w # ws \<Rightarrow> (x # w) # ws))"

fun joinWith :: "string \<Rightarrow> string list \<Rightarrow> string" where
  "joinWith sep [] = []"
| "joinWith sep [e] = e"
| "joinWith sep (e # es) = e @ sep @ joinWith sep es"

text \<open>The elements of a cleaned path: \<open>out\<close> holds, last first, the elements kept so
  far; empty elements and \<open>.\<close> are dropped, \<open>..\<close> removes the element before it, is
  dropped at the root and is kept at the start of a relative path.\<close>

fun cleanElems :: "bool \<Rightarrow> string list \<Rightarrow> string list \<Rightarrow> string list" where
  "cleanElems rooted out [] = rev out"
| "cleanElems rooted out (e # es) =
     (if e = [] \<or> e = ''.'' then cleanElems rooted out es
      else if e = ''..'' then
        (case out of
           [] \<Rightarrow> (if rooted then cleanElems rooted [] es else cleanElems rooted [e] es)
         | tp # out' \<Rightarrow> (if tp = ''..'' then cleanElems rooted (e # out) es
                           else cleanElems rooted out' es))
      else cleanElems rooted (e # out) es)"

definition pathClean :: "path \<Rightarrow> path" where
  "pathClean p =
     (let rooted = (p \<noteq> [] \<and> hd p = CHR ''/'');
          body = joinWith ''/'' (cleanElems rooted [] (splitOn CHR ''/'' p))
      in if rooted then CHR ''/'' # body else if body = [] then ''.'' else body)"

definition pathJoinGo :: "string list \<Rightarrow> path" where
  "pathJoinGo elem =
     (let es = filter (\<lambda>e. e \<noteq> []) elem in if es = [] then [] else pathClean (joinWith ''/'' es))"

text \<open>\<^verbatim>\<open>path.Dir\<close>: everything up to and including the final slash, cleaned.\<close>

fun dirPart :: "string \<Rightarrow> string" where
  "dirPart [] = []"
| "dirPart (c # cs) =
     (if CHR ''/'' \<in> set cs then c # dirPart cs else if c = CHR ''/'' then [c] else [])"

definition pathDir :: "path \<Rightarrow> path" where
  "pathDir p = pathClean (dirPart p)"

text \<open>\<^verbatim>\<open>path.Ext\<close>: the suffix from the final dot of the final element, scanning from the
  end of the string up to the first slash.\<close>

fun extRev :: "string \<Rightarrow> string \<Rightarrow> string" where
  "extRev acc [] = []"
| "extRev acc (c # cs) =
     (if c = CHR ''/'' then [] else if c = CHR ''.'' then c # acc else extRev (c # acc) cs)"

definition pathExt :: "path \<Rightarrow> string" where
  "pathExt p = extRev [] (rev p)"

definition slashSeparator :: string where
  "slashSeparator = ''/''"

text \<open>Modelled from the spec: \<^verbatim>\<open>pathJoin\<close> is defined outside the given sources; the spec's
  on-disk layout joins the elements with \<open>/\<close>. As in the code base, it is \<^verbatim>\<open>path.Join\<close>
  that keeps the trailing slash of the last element.\<close>

definition pathJoin :: "string list \<Rightarrow> path" where
  "pathJoin elem =
     (let trailingSlash = (if elem \<noteq> [] \<and> hasSuffix (last elem) slashSeparator then ''/'' else [])
      in pathJoinGo elem @ trailingSlash)"

text \<open>\<^verbatim>\<open>strings.ToLower\<close> maps every Unicode letter to its lower case; its tables are
  outside the given sources, and it is a parameter of the environment (\<open>strToLower\<close>).
  On the ASCII letters it is \<open>asciiToLower\<close>. \<^verbatim>\<open>strings.TrimPrefix\<close> follows.\<close>

definition toLowerChar :: "char \<Rightarrow> char" where
  "toLowerChar c =
     (let n = of_char c :: nat in if 65 \<le> n \<and> n \<le> 90 then char_of (n + 32) else c)"

definition asciiToLower :: "string \<Rightarrow> string" where
  "asciiToLower s = map toLowerChar s"

definition trimPrefix :: "string \<Rightarrow> string \<Rightarrow> string" where
  "trimPrefix s p = (if hasPrefix s p then drop (length p) s else s)"

subsection \<open>Constants\<close>

text \<open>Modelled from the spec: the names of the reserved directories and of the sidecar,
  and \<^verbatim>\<open>maxObjectList\<close>, are declared outside the given sources; the spec gives the
  on-disk layout \<^verbatim>\<open>.minio.sys/buckets/<bucket>/<key>/fs.json\<close>, \<^verbatim>\<open>.minio.sys/tmp/<serverUUID>/\<close>
  and the listing limit 1000. \<^verbatim>\<open>defaultEtag\<close> is declared in fs-v1.go.\<close>

definition defaultEtag :: string where
  "defaultEtag = ''00000000000000000000000000000000-1''"

definition minioMetaBucket :: string where
  "minioMetaBucket = ''.minio.sys''"

definition bucketMetaPrefix :: string where
  "bucketMetaPrefix = ''buckets''"

definition minioMetaTmpBucket :: string where
  "minioMetaTmpBucket = minioMetaBucket @ ''/tmp''"

definition fsMetaJSONFile :: string where
  "fsMetaJSONFile = ''fs.json''"

definition fsMetaVersion :: string where
  "fsMetaVersion = ''1.0.1''"

definition maxObjectList :: int where
  "maxObjectList = 1000"

definition readSizeV1 :: int where
  "readSizeV1 = 1 * MiByte"

subsection \<open>Facts about paths\<close>

text \<open>\<^verbatim>\<open>path.Dir\<close> of a path is the root, the current directory, or a shorter path: the
  recursion of \<^verbatim>\<open>parentDirIsObject\<close> over \<^verbatim>\<open>path.Dir\<close> ends. The weight of a list of path
  elements counts each element and its separator.\<close>

definition weight :: "string list \<Rightarrow> nat" where
  "weight es = sum_list (map (\<lambda>e. Suc (length e)) es)"

lemma weight_simps [simp]: "weight [] = 0" "weight (e # es) = Suc (length e) + weight es"
  "weight (xs @ ys) = weight xs + weight ys"
  by (simp_all add: weight_def)

lemma weight_rev [simp]: "weight (rev xs) = weight xs"
  by (induction xs) auto

lemma cleanElems_weight:
  "weight (cleanElems rooted out es) + count_list es [] \<le> weight out + weight es"
proof (induction rooted out es rule: cleanElems.induct)
  case (1 rooted out)
  then show ?case by simp
next
  case (2 rooted out e es)
  then show ?case
    by (auto split: list.splits)
qed

lemma length_joinWith: "es \<noteq> [] \<Longrightarrow> Suc (length (joinWith ''/'' es)) = weight es"
  by (induction "''/''" es rule: joinWith.induct) auto

lemma splitOn_nonempty [simp]: "splitOn c s \<noteq> []"
  by (induction s) (auto split: list.splits)

lemma weight_splitOn: "weight (splitOn c s) = Suc (length s)"
  by (induction s) (auto split: list.splits)

lemma splitOn_snoc: "splitOn c (s @ [c]) = splitOn c s @ [[]]"
  by (induction s) (auto split: list.splits)

lemma count_splitOn_last: "1 \<le> count_list (splitOn c (s @ [c])) []"
  by (simp add: splitOn_snoc)

lemma count_splitOn_both: "2 \<le> count_list (splitOn c (c # s @ [c])) []"
  by (simp add: splitOn_snoc)

lemma pathClean_shorter:
  assumes "d \<noteq> []" "last d = CHR ''/''"
  shows "pathClean d = ''/'' \<or> pathClean d = ''.'' \<or> length (pathClean d) < length d"
proof -
  let ?es = "splitOn CHR ''/'' d"
  from assms obtain s where d: "d = s @ ''/''" by (metis append_butlast_last_id)
  show ?thesis
  proof (cases "hd d = CHR ''/''")
    case True
    let ?R = "cleanElems True [] ?es"
    have "2 \<le> count_list ?es []"
    proof (cases s)
      case Nil
      then show ?thesis using d by simp
    next
      case (Cons a s')
      with True d have "d = CHR ''/'' # s' @ ''/''" by simp
      then show ?thesis using count_splitOn_both[of "CHR ''/''" s'] by simp
    qed
    with cleanElems_weight[of True "[]" ?es]
    have w: "weight ?R + 2 \<le> Suc (length d)" by (simp add: weight_splitOn)
    show ?thesis
    proof (cases "?R = []")
      case R: True
      then show ?thesis using True assms by (simp add: pathClean_def)
    next
      case R: False
      from length_joinWith[OF R] w have "length (joinWith ''/'' ?R) + 2 \<le> length d" by simp
      then show ?thesis using True assms by (simp add: pathClean_def Let_def)
    qed
  next
    case False
    let ?R = "cleanElems False [] ?es"
    have "1 \<le> count_list ?es []"
      using d count_splitOn_last[of "CHR ''/''" s] by simp
    with cleanElems_weight[of False "[]" ?es]
    have w: "weight ?R + 1 \<le> Suc (length d)" by (simp add: weight_splitOn)
    show ?thesis
    proof (cases "joinWith ''/'' ?R = []")
      case True
      then show ?thesis using False assms by (simp add: pathClean_def)
    next
      case J: False
      then have R: "?R \<noteq> []" by auto
      from length_joinWith[OF R] w have "length (joinWith ''/'' ?R) + 1 \<le> length d" by simp
      then show ?thesis using False J assms by (simp add: pathClean_def Let_def)
    qed
  qed
qed

lemma dirPart_Nil: "dirPart p = [] \<longleftrightarrow> CHR ''/'' \<notin> set p"
  by (induction p) auto

lemma dirPart_cases: "dirPart p = [] \<or> (last (dirPart p) = CHR ''/'' \<and> length (dirPart p) \<le> length p)"
  by (induction p) (auto simp: dirPart_Nil)

lemma pathDir_shorter:
  "pathDir p = ''/'' \<or> pathDir p = ''.'' \<or> length (pathDir p) < length p"
proof (cases "dirPart p = []")
  case True
  then show ?thesis by (simp add: pathDir_def pathClean_def)
next
  case False
  with dirPart_cases[of p] have l: "last (dirPart p) = CHR ''/''" "length (dirPart p) \<le> length p" by auto
  from pathClean_shorter[OF False l(1)] l(2) show ?thesis by (auto simp: pathDir_def)
qed

subsection \<open>The file system and the events of a call\<close>

record fsMetaV1 =
  fmVersion :: string
  fmFormat :: string
  fmMeta :: gomap
  fmParts :: "PartInfo list"

text \<open>A regular file holds bytes, or the JSON document of a sidecar. Bytes never parse as
  a sidecar: empty bytes are the empty \<^verbatim>\<open>fs.json\<close> a failed write leaves behind.\<close>

datatype fcontent = Data string | FsJSON fsMetaV1

record FileInfo =
  fiSize :: int
  fiIsDir :: bool

record walkResult =
  wrEntry :: string
  wrErr :: "error option"
  wrEnd :: bool

record listParams =
  lpBucket :: string
  lpRecursive :: bool
  lpMarker :: string
  lpPrefix :: string
  lpHeal :: bool

datatype fsPrim =
    StatVolume | Mkdir | MkdirAll | RemoveDir | RemoveAll | DeleteBucketMetadata
  | StatDir | StatFile | IsDir | IsFile | ReadDirN
  | PoolCreate | PoolWrite | PoolOpen | PoolClose | MetaRead | MetaWrite
  | CreateFile | RemoveFile | RenameFile | RemoveMeta | DeleteFile | OpenFile
  | TreeWalk

text \<open>What a call does, in order: the namespace locks it acquires and releases, and the
  file-system primitives it applies, each with the path it is applied to.\<close>

datatype event =
    EvLock string string
  | EvRLock string string
  | EvUnlock string string
  | EvRUnlock string string
  | EvFs fsPrim path

record fsState =
  fsFiles :: "(path \<times> fcontent) list"
  fsDirs :: "path list"
  fsListPool :: "(listParams \<times> walkResult list) list"
  fsTrace :: "event list"

text \<open>The receiver \<^verbatim>\<open>fs *FSObjects\<close>: the fields that are fixed after initialisation.\<close>

record FSObjects =
  fsPath :: string
  metaJSONFile :: string
  fsUUID :: string

datatype lockMode = ReadLock | WriteLock

text \<open>The failures of the disk itself, as the storage layer reports them.\<close>

datatype diskFault = DiskFull | FaultyDisk | AccessDenied

definition faultErr :: "diskFault \<Rightarrow> error" where
  "faultErr f = (case f of DiskFull \<Rightarrow> errDiskFull | FaultyDisk \<Rightarrow> errFaultyDisk
                 | AccessDenied \<Rightarrow> errFileAccessDenied)"

text \<open>
  What is decided outside the given sources. The first argument of \<open>fault\<close>,
  \<open>lockTimesOut\<close>, \<open>partialWrite\<close>, \<open>GenETag\<close> and \<open>mustGetUUID\<close> is the number of events so
  far, so that the same request can have different outcomes at different times.
  \<^item> \<open>fault\<close>: a primitive fails for a reason of the disk (no space, an I/O error, no
    permission), whatever the files and directories of the state are;
  \<^item> \<open>partialWrite\<close>: what a failed \<^verbatim>\<open>fsCreateFile\<close> leaves behind, no file or the first
    bytes of the stream;
  \<^item> \<open>lockTimesOut\<close>: the namespace lock is held elsewhere for longer than the timeout;
  \<^item> \<open>bucketNameRules\<close>: the rules for a bucket name other than its length;
  \<^item> the argument checks \<^verbatim>\<open>checkPutObjectArgs\<close>, \<^verbatim>\<open>checkGetObjArgs\<close>, \<^verbatim>\<open>checkDelObjArgs\<close>,
    \<^verbatim>\<open>checkListObjsArgs\<close>;
  \<^item> \<open>strToLower\<close>: \<^verbatim>\<open>strings.ToLower\<close> of the Go library;
  \<^item> \<^verbatim>\<open>isCompressed\<close>, \<^verbatim>\<open>getDecompressedSize\<close>, \<^verbatim>\<open>GenETag\<close>, \<^verbatim>\<open>mustGetUUID\<close>, the table
    \<^verbatim>\<open>mimedb.DB\<close>, the MD5 sum in hexadecimal, the flag \<^verbatim>\<open>globalWORMEnabled\<close>, the
    JSON encoding of a sidecar (after its opening brace);
  \<^item> \<open>startTreeWalk\<close>: the results the tree walker sends for a listing.
\<close>

record fsEnv =
  fault :: "nat \<Rightarrow> fsPrim \<Rightarrow> path \<Rightarrow> diskFault option"
  partialWrite :: "nat \<Rightarrow> nat option"
  lockTimesOut :: "nat \<Rightarrow> lockMode \<Rightarrow> string \<Rightarrow> string \<Rightarrow> bool"
  bucketNameRules :: "string \<Rightarrow> bool"
  checkPutObjectArgs :: "fsState \<Rightarrow> string \<Rightarrow> string \<Rightarrow> int \<Rightarrow> error option"
  checkGetObjArgs :: "string \<Rightarrow> string \<Rightarrow> error option"
  checkDelObjArgs :: "string \<Rightarrow> string \<Rightarrow> error option"
  checkListObjsArgs :: "fsState \<Rightarrow> string \<Rightarrow> string \<Rightarrow> string \<Rightarrow> string \<Rightarrow> error option"
  isCompressed :: "gomap \<Rightarrow> bool"
  getDecompressedSize :: "ObjectInfo \<Rightarrow> int"
  GenETag :: "nat \<Rightarrow> string"
  mustGetUUID :: "nat \<Rightarrow> string"
  mimeDB :: "string \<Rightarrow> string option"
  strToLower :: "string \<Rightarrow> string"
  md5hex :: "string \<Rightarrow> string"
  globalWORMEnabled :: bool
  encodeFsJSON :: "fsMetaV1 \<Rightarrow> string"
  startTreeWalk :: "fsState \<Rightarrow> listParams \<Rightarrow> walkResult list"

text \<open>Modelled from the spec: \<^verbatim>\<open>IsValidBucketName\<close> is outside the given sources. The spec's
  rule for a bucket name is "3 to 63 characters, lowercase, DNS-safe, not starting with
  reserved prefixes". The length is written out; the other rules are the parameter
  \<open>bucketNameRules\<close>.\<close>

definition IsValidBucketName :: "fsEnv \<Rightarrow> string \<Rightarrow> bool" where
  "IsValidBucketName env bucket =
     (3 \<le> length bucket \<and> length bucket \<le> 63 \<and> bucketNameRules env bucket)"

definition now :: "fsState \<Rightarrow> nat" where
  "now s = length (fsTrace s)"

definition logEv :: "event \<Rightarrow> fsState \<Rightarrow> fsState" where
  "logEv e s = s \<lparr> fsTrace := fsTrace s @ [e] \<rparr>"

definition faultAt :: "fsEnv \<Rightarrow> fsState \<Rightarrow> fsPrim \<Rightarrow> path \<Rightarrow> error option" where
  "faultAt env s p x = map_option faultErr (fault env (now s) p x)"

subsection \<open>Namespace locks\<close>

text \<open>Modelled from the spec: the lock manager is outside the given sources. Acquiring
  fails with \<^verbatim>\<open>OperationTimedOut\<close> after the timeout; an acquisition and a release are
  recorded as events.\<close>

definition GetLock :: "fsEnv \<Rightarrow> fsState \<Rightarrow> string \<Rightarrow> string \<Rightarrow> error + fsState" where
  "GetLock env s bucket object =
     (if lockTimesOut env (now s) WriteLock bucket object then Inl OperationTimedOut
      else Inr (logEv (EvLock bucket object) s))"

definition GetRLock :: "fsEnv \<Rightarrow> fsState \<Rightarrow> string \<Rightarrow> string \<Rightarrow> error + fsState" where
  "GetRLock env s bucket object =
     (if lockTimesOut env (now s) ReadLock bucket object then Inl OperationTimedOut
      else Inr (logEv (EvRLock bucket object) s))"

definition Unlock :: "fsState \<Rightarrow> string \<Rightarrow> string \<Rightarrow> fsState" where
  "Unlock s bucket object = logEv (EvUnlock bucket object) s"

definition RUnlock :: "fsState \<Rightarrow> string \<Rightarrow> string \<Rightarrow> fsState" where
  "RUnlock s bucket object = logEv (EvRUnlock bucket object) s"

subsection \<open>Error mapping\<close>

text \<open>Modelled from the spec: \<^verbatim>\<open>toObjectErr\<close> is outside the given sources. The spec's error
  mapping: a missing bucket directory is \<^verbatim>\<open>BucketNotFound\<close>, a missing object
  \<^verbatim>\<open>NoSuchKey\<close> (\<^verbatim>\<open>ObjectNotFound\<close>), no access \<^verbatim>\<open>AccessDenied\<close>, no space \<^verbatim>\<open>StorageFull\<close>;
  an existing or non-empty bucket directory are the bucket errors of these names. The
  bucket is the first parameter, the object the second; every other error is returned
  as it is.\<close>

definition toObjectErr :: "error \<Rightarrow> string list \<Rightarrow> error" where
  "toObjectErr err params =
     (if err = errVolumeNotFound \<and> length params \<ge> 1 then BucketNotFound (params ! 0)
      else if err = errVolumeNotEmpty \<and> length params \<ge> 1 then BucketNotEmpty (params ! 0)
      else if err = errVolumeExists \<and> length params \<ge> 1 then BucketExists (params ! 0)
      else if err = errDiskFull then StorageFull
      else if err = errFileAccessDenied \<and> length params \<ge> 2
        then PrefixAccessDenied (params ! 0) (params ! 1)
      else if err = errFileNotFound \<and> length params \<ge> 2
        then ObjectNotFound (params ! 0) (params ! 1)
      else err)"

subsection \<open>File-system primitives\<close>

text \<open>
  Modelled from the spec: the primitives of this subsection (\<^verbatim>\<open>fsStatVolume\<close>, \<^verbatim>\<open>fsMkdir\<close>,
  \<^verbatim>\<open>fsStatFile\<close>, \<^verbatim>\<open>fsCreateFile\<close>, \<^verbatim>\<open>fsRenameFile\<close>, \<^verbatim>\<open>fsRemoveFile\<close>, the I/O pool
  \<^verbatim>\<open>fs.rwPool\<close>, the sidecar's \<^verbatim>\<open>ReadFrom\<close> and \<^verbatim>\<open>WriteTo\<close>, ...) are outside the given
  sources. Each records its event, fails when the disk does (\<open>faultAt\<close>) and otherwise
  does what the spec says of it on the files and directories of the state: stat and
  open report a missing path, create and write put the content in place, rename moves
  it atomically, remove deletes it. The removals whose result the callers ignore
  (\<^verbatim>\<open>fsRemoveFile\<close>, \<^verbatim>\<open>fsRemoveMeta\<close>) remove the file if it is there.
\<close>

definition stripSlash :: "path \<Rightarrow> path" where
  "stripSlash p = (if length p > 1 \<and> last p = CHR ''/'' then butlast p else p)"

definition isDirAt :: "fsState \<Rightarrow> path \<Rightarrow> bool" where
  "isDirAt s p = (stripSlash p \<in> set (fsDirs s))"

definition fileAt :: "fsState \<Rightarrow> path \<Rightarrow> fcontent option" where
  "fileAt s p = map_of (fsFiles s) p"

definition under :: "path \<Rightarrow> path \<Rightarrow> bool" where
  "under d p = (p \<noteq> stripSlash d @ ''/'' \<and> hasPrefix p (stripSlash d @ ''/''))"

definition entriesUnder :: "fsState \<Rightarrow> path \<Rightarrow> path list" where
  "entriesUnder s d = filter (under d) (map fst (fsFiles s) @ fsDirs s)"

fun parentsAcc :: "string \<Rightarrow> string \<Rightarrow> path list" where
  "parentsAcc acc [] = []"
| "parentsAcc acc (c # cs) =
     (if c = CHR ''/'' \<and> acc \<noteq> [] then [rev acc] else []) @ parentsAcc (c # acc) cs"

definition parentDirs :: "path \<Rightarrow> path list" where
  "parentDirs p = parentsAcc [] p"

definition putFile :: "path \<Rightarrow> fcontent \<Rightarrow> fsState \<Rightarrow> fsState" where
  "putFile p c s = s \<lparr> fsFiles := AList.update p c (fsFiles s) \<rparr>"

definition dropFile :: "path \<Rightarrow> fsState \<Rightarrow> fsState" where
  "dropFile p s = s \<lparr> fsFiles := AList.delete p (fsFiles s) \<rparr>"

definition addDirs :: "path list \<Rightarrow> fsState \<Rightarrow> fsState" where
  "addDirs ds s = s \<lparr> fsDirs := List.union (fsDirs s) ds \<rparr>"

definition contentBytes :: "fsEnv \<Rightarrow> fcontent \<Rightarrow> string" where
  "contentBytes env c = (case c of Data bs \<Rightarrow> bs | FsJSON m \<Rightarrow> CHR ''{'' # encodeFsJSON env m)"

definition dirInfo :: FileInfo where
  "dirInfo = \<lparr> fiSize = 0, fiIsDir = True \<rparr>"

definition fileInfo :: "fsEnv \<Rightarrow> fcontent \<Rightarrow> FileInfo" where
  "fileInfo env c = \<lparr> fiSize = int (length (contentBytes env c)), fiIsDir = False \<rparr>"

definition fsStatVolume :: "fsEnv \<Rightarrow> fsState \<Rightarrow> path \<Rightarrow> (error + FileInfo) \<times> fsState" where
  "fsStatVolume env s volume =
     (let s' = logEv (EvFs StatVolume volume) s in
      case faultAt env s StatVolume volume of
        Some e \<Rightarrow> (Inl e, s')
      | None \<Rightarrow> if isDirAt s volume then (Inr dirInfo, s') else (Inl errVolumeNotFound, s'))"

definition fsMkdir :: "fsEnv \<Rightarrow> fsState \<Rightarrow> path \<Rightarrow> error option \<times> fsState" where
  "fsMkdir env s dirPath =
     (let s' = logEv (EvFs Mkdir dirPath) s in
      case faultAt env s Mkdir dirPath of
        Some e \<Rightarrow> (Some e, s')
      | None \<Rightarrow> if isDirAt s dirPath then (Some errVolumeExists, s')
                else (None, addDirs [stripSlash dirPath] s'))"

definition fsRemoveDir :: "fsEnv \<Rightarrow> fsState \<Rightarrow> path \<Rightarrow> error option \<times> fsState" where
  "fsRemoveDir env s dirPath =
     (let s' = logEv (EvFs RemoveDir dirPath) s in
      case faultAt env s RemoveDir dirPath of
        Some e \<Rightarrow> (Some e, s')
      | None \<Rightarrow> if \<not> isDirAt s dirPath then (Some errVolumeNotFound, s')
                else if entriesUnder s dirPath \<noteq> [] then (Some errVolumeNotEmpty, s')
                else (None, s' \<lparr> fsDirs := removeAll (stripSlash dirPath) (fsDirs s') \<rparr>))"

definition fsRemoveAll :: "fsEnv \<Rightarrow> fsState \<Rightarrow> path \<Rightarrow> error option \<times> fsState" where
  "fsRemoveAll env s dirPath =
     (let s' = logEv (EvFs RemoveAll dirPath) s in
      case faultAt env s RemoveAll dirPath of
        Some e \<Rightarrow> (Some e, s')
      | None \<Rightarrow>
         (None, s' \<lparr> fsFiles := filter (\<lambda>(p, c). \<not> under dirPath p \<and> p \<noteq> stripSlash dirPath)
                                  (fsFiles s'),
                      fsDirs := filter (\<lambda>p. \<not> under dirPath p \<and> p \<noteq> stripSlash dirPath)
                                  (fsDirs s') \<rparr>))"

definition mkdirAll :: "fsEnv \<Rightarrow> fsState \<Rightarrow> path \<Rightarrow> error option \<times> fsState" where
  "mkdirAll env s dirPath =
     (let s' = logEv (EvFs MkdirAll dirPath) s in
      case faultAt env s MkdirAll dirPath of
        Some e \<Rightarrow> (Some e, s')
      | None \<Rightarrow> (None, addDirs (parentDirs (stripSlash dirPath) @ [stripSlash dirPath]) s'))"

definition fsStatDir :: "fsEnv \<Rightarrow> fsState \<Rightarrow> path \<Rightarrow> (error + FileInfo) \<times> fsState" where
  "fsStatDir env s statDir =
     (let s' = logEv (EvFs StatDir statDir) s in
      case faultAt env s StatDir statDir of
        Some e \<Rightarrow> (Inl e, s')
      | None \<Rightarrow> if isDirAt s statDir then (Inr dirInfo, s')
                else if fileAt s statDir \<noteq> None then (Inl errFileAccessDenied, s')
                else (Inl errFileNotFound, s'))"

definition fsStatFile :: "fsEnv \<Rightarrow> fsState \<Rightarrow> path \<Rightarrow> (error + FileInfo) \<times> fsState" where
  "fsStatFile env s statFile =
     (let s' = logEv (EvFs StatFile statFile) s in
      case faultAt env s StatFile statFile of
        Some e \<Rightarrow> (Inl e, s')
      | None \<Rightarrow> (case fileAt s statFile of
                   Some c \<Rightarrow> (Inr (fileInfo env c), s')
                 | None \<Rightarrow> if isDirAt s statFile then (Inl errFileAccessDenied, s')
                           else (Inl errFileNotFound, s')))"

definition fsIsDir :: "fsEnv \<Rightarrow> fsState \<Rightarrow> path \<Rightarrow> bool \<times> fsState" where
  "fsIsDir env s dirPath =
     (let s' = logEv (EvFs IsDir dirPath) s in
      case faultAt env s IsDir dirPath of
        Some e \<Rightarrow> (False, s')
      | None \<Rightarrow> (isDirAt s dirPath, s'))"

definition fsIsFile :: "fsEnv \<Rightarrow> fsState \<Rightarrow> path \<Rightarrow> bool \<times> fsState" where
  "fsIsFile env s filePath =
     (let s' = logEv (EvFs IsFile filePath) s in
      case faultAt env s IsFile filePath of
        Some e \<Rightarrow> (False, s')
      | None \<Rightarrow> (fileAt s filePath \<noteq> None, s'))"

definition readDirN :: "fsEnv \<Rightarrow> fsState \<Rightarrow> path \<Rightarrow> nat \<Rightarrow> (error + path list) \<times> fsState" where
  "readDirN env s dirPath n =
     (let s' = logEv (EvFs ReadDirN dirPath) s in
      case faultAt env s ReadDirN dirPath of
        Some e \<Rightarrow> (Inl e, s')
      | None \<Rightarrow> if isDirAt s dirPath then (Inr (take n (entriesUnder s dirPath)), s')
                else (Inl errFileNotFound, s'))"

text \<open>The I/O pool: \<^verbatim>\<open>Create\<close> makes the parent directories and the file if it is not
  there, \<^verbatim>\<open>Write\<close> and \<^verbatim>\<open>Open\<close> need the file. The handle is the path.\<close>

definition rwPoolCreate :: "fsEnv \<Rightarrow> fsState \<Rightarrow> path \<Rightarrow> (error + path) \<times> fsState" where
  "rwPoolCreate env s p =
     (let s' = logEv (EvFs PoolCreate p) s in
      case faultAt env s PoolCreate p of
        Some e \<Rightarrow> (Inl e, s')
      | None \<Rightarrow> (case fileAt s p of
                   Some c \<Rightarrow> (Inr p, addDirs (parentDirs p) s')
                 | None \<Rightarrow> (Inr p, putFile p (Data []) (addDirs (parentDirs p) s'))))"

definition rwPoolWrite :: "fsEnv \<Rightarrow> fsState \<Rightarrow> path \<Rightarrow> (error + path) \<times> fsState" where
  "rwPoolWrite env s p =
     (let s' = logEv (EvFs PoolWrite p) s in
      case faultAt env s PoolWrite p of
        Some e \<Rightarrow> (Inl e, s')
      | None \<Rightarrow> (case fileAt s p of
                   Some c \<Rightarrow> (Inr p, s')
                 | None \<Rightarrow> (Inl errFileNotFound, s')))"

definition rwPoolOpen :: "fsEnv \<Rightarrow> fsState \<Rightarrow> path \<Rightarrow> (error + path) \<times> fsState" where
  "rwPoolOpen env s p =
     (let s' = logEv (EvFs PoolOpen p) s in
      case faultAt env s PoolOpen p of
        Some e \<Rightarrow> (Inl e, s')
      | None \<Rightarrow> (case fileAt s p of
                   Some c \<Rightarrow> (Inr p, s')
                 | None \<Rightarrow> (Inl errFileNotFound, s')))"

definition rwPoolClose :: "fsState \<Rightarrow> path \<Rightarrow> fsState" where
  "rwPoolClose s p = logEv (EvFs PoolClose p) s"

subsection \<open>The sidecar\<close>

text \<open>Modelled from the spec: \<^verbatim>\<open>newFSMetaV1\<close>, \<^verbatim>\<open>isFSMetaValid\<close>, \<^verbatim>\<open>ReadFrom\<close>, \<^verbatim>\<open>WriteTo\<close> and
  \<^verbatim>\<open>ToObjectInfo\<close> are outside the given sources. Emitters write the current version; the
  parser rejects an unknown version with \<^verbatim>\<open>CorruptedFormat\<close>, an empty file is \<^verbatim>\<open>io.EOF\<close>;
  \<^verbatim>\<open>ToObjectInfo\<close> composes the object information from the sidecar and the stat: the
  etag is the one of the sidecar and the default etag when there is none, the content
  type is the one of the sidecar and \<^verbatim>\<open>application/octet-stream\<close> when there is none (a
  \<^verbatim>\<open>HEAD\<close> after a \<^verbatim>\<open>PUT\<close> without metadata returns it, and a directory object has the
  default etag).\<close>

definition newFSMetaV1 :: fsMetaV1 where
  "newFSMetaV1 = \<lparr> fmVersion = fsMetaVersion, fmFormat = ''fs'', fmMeta = None, fmParts = [] \<rparr>"

definition zeroFSMetaV1 :: fsMetaV1 where
  "zeroFSMetaV1 = \<lparr> fmVersion = [], fmFormat = [], fmMeta = None, fmParts = [] \<rparr>"

definition isFSMetaValid :: "string \<Rightarrow> bool" where
  "isFSMetaValid version = (version = fsMetaVersion)"

definition ReadFrom :: "fsEnv \<Rightarrow> fsState \<Rightarrow> fsMetaV1 \<Rightarrow> path \<Rightarrow> (error + fsMetaV1) \<times> fsState" where
  "ReadFrom env s m lk =
     (let s' = logEv (EvFs MetaRead lk) s in
      case faultAt env s MetaRead lk of
        Some e \<Rightarrow> (Inl e, s')
      | None \<Rightarrow>
         (case fileAt s lk of
            None \<Rightarrow> (Inl errFileNotFound, s')
          | Some (Data bs) \<Rightarrow> (if bs = [] then (Inl ioEOF, s') else (Inl errCorruptedFormat, s'))
          | Some (FsJSON d) \<Rightarrow>
              (if \<not> isFSMetaValid (fmVersion d) then (Inl errCorruptedFormat, s')
               else (Inr (m \<lparr> fmVersion := fmVersion d, fmParts := fmParts d,
                               fmMeta := Some (mapEntries (fmMeta d)) \<rparr>), s'))))"

definition WriteTo :: "fsEnv \<Rightarrow> fsState \<Rightarrow> fsMetaV1 \<Rightarrow> path \<Rightarrow> error option \<times> fsState" where
  "WriteTo env s m lk =
     (let s' = logEv (EvFs MetaWrite lk) s in
      case faultAt env s MetaWrite lk of
        Some e \<Rightarrow> (Some e, s')
      | None \<Rightarrow> (None, putFile lk (FsJSON m) s'))"

definition ToObjectInfo :: "fsMetaV1 \<Rightarrow> string \<Rightarrow> string \<Rightarrow> FileInfo \<Rightarrow> ObjectInfo" where
  "ToObjectInfo m bucket object fi =
     emptyObjectInfo \<lparr> oiBucket := bucket, oiName := object,
       oiSize := (if fiIsDir fi then 0 else fiSize fi), oiIsDir := fiIsDir fi,
       oiETag := (case mapGet (fmMeta m) ''etag'' of None \<Rightarrow> defaultEtag | Some e \<Rightarrow> e),
       oiContentType := (case mapGet (fmMeta m) ''content-type'' of
                           None \<Rightarrow> ''application/octet-stream'' | Some ct \<Rightarrow> ct),
       oiContentEncoding := mapIndex (fmMeta m) ''content-encoding'',
       oiUserDefined := Some (AList.delete ''etag'' (mapEntries (fmMeta m))),
       oiParts := fmParts m \<rparr>"

subsection \<open>Reading and writing data files\<close>

text \<open>The request body: its declared size and the bytes the stream delivers.\<close>

record hashReader =
  hrSize :: int
  hrBytes :: string

definition fsCreateFile ::
  "fsEnv \<Rightarrow> fsState \<Rightarrow> path \<Rightarrow> hashReader \<Rightarrow> int \<Rightarrow> (error + int) \<times> fsState" where
  "fsCreateFile env s filePath reader fallocSize =
     (let s' = logEv (EvFs CreateFile filePath) s in
      case faultAt env s CreateFile filePath of
        Some e \<Rightarrow>
          (case partialWrite env (now s) of
             None \<Rightarrow> (Inl e, s')
           | Some k \<Rightarrow> (Inl e, putFile filePath (Data (take k (hrBytes reader))) s'))
      | None \<Rightarrow> (Inr (int (length (hrBytes reader))), putFile filePath (Data (hrBytes reader)) s'))"

definition fsRemoveFile :: "fsState \<Rightarrow> path \<Rightarrow> fsState" where
  "fsRemoveFile s filePath = dropFile filePath (logEv (EvFs RemoveFile filePath) s)"

definition fsRemoveMeta :: "fsState \<Rightarrow> path \<Rightarrow> path \<Rightarrow> path \<Rightarrow> fsState" where
  "fsRemoveMeta s basePath deletePath tmpDir =
     dropFile deletePath (logEv (EvFs RemoveMeta deletePath) s)"

definition fsRenameFile :: "fsEnv \<Rightarrow> fsState \<Rightarrow> path \<Rightarrow> path \<Rightarrow> error option \<times> fsState" where
  "fsRenameFile env s sourcePath destPath =
     (let s' = logEv (EvFs RenameFile destPath) s in
      case faultAt env s RenameFile destPath of
        Some e \<Rightarrow> (Some e, s')
      | None \<Rightarrow> (case fileAt s sourcePath of
                   None \<Rightarrow> (Some errFileNotFound, s')
                 | Some c \<Rightarrow> (None, putFile destPath c (dropFile sourcePath s'))))"

definition fsDeleteFile :: "fsEnv \<Rightarrow> fsState \<Rightarrow> path \<Rightarrow> path \<Rightarrow> error option \<times> fsState" where
  "fsDeleteFile env s basePath deletePath =
     (let s' = logEv (EvFs DeleteFile deletePath) s in
      case faultAt env s DeleteFile deletePath of
        Some e \<Rightarrow> (Some e, s')
      | None \<Rightarrow> (case fileAt s deletePath of
                   None \<Rightarrow> (Some errFileNotFound, s')
                 | Some c \<Rightarrow> (None, dropFile deletePath s')))"

text \<open>\<^verbatim>\<open>fsOpenFile(path, offset)\<close>: the bytes from \<open>offset\<close> on, and the size of the file.\<close>

definition fsOpenFile ::
  "fsEnv \<Rightarrow> fsState \<Rightarrow> path \<Rightarrow> int \<Rightarrow> (error + string \<times> int) \<times> fsState" where
  "fsOpenFile env s readPath offset =
     (let s' = logEv (EvFs OpenFile readPath) s in
      case faultAt env s OpenFile readPath of
        Some e \<Rightarrow> (Inl e, s')
      | None \<Rightarrow> (case fileAt s readPath of
                   None \<Rightarrow> if isDirAt s readPath then (Inl errIsNotRegular, s')
                           else (Inl errFileNotFound, s')
                 | Some c \<Rightarrow> (Inr (drop (nat offset) (contentBytes env c),
                                    int (length (contentBytes env c))), s')))"

subsection \<open>Bucket operations\<close>

definition getBucketDir :: "FSObjects \<Rightarrow> string \<Rightarrow> error + path" where
  "getBucketDir fs bucket =
     (if bucket = [] \<or> bucket = ''.'' \<or> bucket = ''..'' then Inl errVolumeNotFound
      else Inr (pathJoin [fsPath fs, bucket]))"

definition statBucketDir ::
  "FSObjects \<Rightarrow> fsEnv \<Rightarrow> fsState \<Rightarrow> string \<Rightarrow> (error + FileInfo) \<times> fsState" where
  "statBucketDir fs env s bucket =
     (case getBucketDir fs bucket of
        Inl err \<Rightarrow> (Inl err, s)
      | Inr bucketDir \<Rightarrow>
         (case fsStatVolume env s bucketDir of
            (Inl err, s') \<Rightarrow> (Inl err, s')
          | (Inr st, s') \<Rightarrow> (Inr st, s')))"

definition MakeBucketWithLocation ::
  "FSObjects \<Rightarrow> fsEnv \<Rightarrow> fsState \<Rightarrow> string \<Rightarrow> string \<Rightarrow> error option \<times> fsState" where
  "MakeBucketWithLocation fs env s bucket location =
     (case GetLock env s bucket [] of
        Inl err \<Rightarrow> (Some err, s)
      | Inr s1 \<Rightarrow>
         (let (r, s2) =
            (if \<not> IsValidBucketName env bucket then (Some (BucketNameInvalid bucket), s1)
             else case getBucketDir fs bucket of
                    Inl err \<Rightarrow> (Some (toObjectErr err [bucket]), s1)
                  | Inr bucketDir \<Rightarrow>
                     (case fsMkdir env s1 bucketDir of
                        (Some err, s') \<Rightarrow> (Some (toObjectErr err [bucket]), s')
                      | (None, s') \<Rightarrow> (None, s')))
          in (r, Unlock s2 bucket [])))"

record BucketInfo =
  biName :: string

definition GetBucketInfo ::
  "FSObjects \<Rightarrow> fsEnv \<Rightarrow> fsState \<Rightarrow> string \<Rightarrow> (error + BucketInfo) \<times> fsState" where
  "GetBucketInfo fs env s bucket =
     (case GetRLock env s bucket [] of
        Inl e \<Rightarrow> (Inl e, s)
      | Inr s1 \<Rightarrow>
         (let (r, s2) =
            (case statBucketDir fs env s1 bucket of
               (Inl err, s') \<Rightarrow> (Inl (toObjectErr err [bucket]), s')
             | (Inr st, s') \<Rightarrow> (Inr \<lparr> biName = bucket \<rparr>, s'))
          in (r, RUnlock s2 bucket [])))"

text \<open>\<^verbatim>\<open>deleteBucketMetadata\<close> is outside the given sources and returns nothing; only its
  call is recorded.\<close>

definition DeleteBucket ::
  "FSObjects \<Rightarrow> fsEnv \<Rightarrow> fsState \<Rightarrow> string \<Rightarrow> error option \<times> fsState" where
  "DeleteBucket fs env s bucket =
     (case GetLock env s bucket [] of
        Inl err \<Rightarrow> (Some err, s)
      | Inr s1 \<Rightarrow>
         (let (r, s2) =
            (case getBucketDir fs bucket of
               Inl err \<Rightarrow> (Some (toObjectErr err [bucket]), s1)
             | Inr bucketDir \<Rightarrow>
                (case fsRemoveDir env s1 bucketDir of
                   (Some err, s') \<Rightarrow> (Some (toObjectErr err [bucket]), s')
                 | (None, s') \<Rightarrow>
                    (let minioMetadataBucketDir =
                           pathJoin [fsPath fs, minioMetaBucket, bucketMetaPrefix, bucket]
                     in case fsRemoveAll env s' minioMetadataBucketDir of
                          (Some err, s'') \<Rightarrow> (Some (toObjectErr err [bucket]), s'')
                        | (None, s'') \<Rightarrow>
                            (None, logEv (EvFs DeleteBucketMetadata minioMetadataBucketDir) s''))))
          in (r, Unlock s2 bucket [])))"

subsection \<open>parentDirIsObject\<close>

function isParentDirObject ::
  "FSObjects \<Rightarrow> fsEnv \<Rightarrow> string \<Rightarrow> fsState \<Rightarrow> string \<Rightarrow> bool \<times> fsState" where
  "isParentDirObject fs env bucket s p =
     (if p = ''.'' \<or> p = ''/'' then (False, s)
      else (let (isFile, s') = fsIsFile env s (pathJoin [fsPath fs, bucket, p])
            in if isFile then (True, s')
               else isParentDirObject fs env bucket s' (pathDir p)))"
  by pat_completeness auto
termination
  by (relation "measure (\<lambda>(fs, env, bucket, s, p).
                   if p = ''.'' \<or> p = ''/'' then 0 else Suc (length p))")
     (use pathDir_shorter in auto)

declare isParentDirObject.simps [simp del]

definition parentDirIsObject ::
  "FSObjects \<Rightarrow> fsEnv \<Rightarrow> fsState \<Rightarrow> string \<Rightarrow> string \<Rightarrow> bool \<times> fsState" where
  "parentDirIsObject fs env s bucket parent = isParentDirObject fs env bucket s parent"

subsection \<open>PutObject\<close>

text \<open>Modelled from the spec: the package-level \<^verbatim>\<open>isObjectDir(object, size)\<close> is outside the
  given sources; the spec's step is "key ends with \<open>/\<close> and size is 0".\<close>

definition isObjectDir :: "string \<Rightarrow> int \<Rightarrow> bool" where
  "isObjectDir object sz = (sz = 0 \<and> hasSuffix object slashSeparator)"

definition isErr :: "'e + 'a \<Rightarrow> bool" where
  "isErr r = (case r of Inl e \<Rightarrow> True | Inr v \<Rightarrow> False)"

text \<open>The branch of \<^verbatim>\<open>putObject\<close> for a directory object.\<close>

definition putObjectDir ::
  "FSObjects \<Rightarrow> fsEnv \<Rightarrow> fsState \<Rightarrow> string \<Rightarrow> string \<Rightarrow> fsMetaV1 \<Rightarrow> (error + ObjectInfo) \<times> fsState" where
  "putObjectDir fs env s bucket object fsMeta =
     (case parentDirIsObject fs env s bucket (pathDir object) of
        (True, s1) \<Rightarrow> (Inl (toObjectErr errFileAccessDenied [bucket, object]), s1)
      | (False, s1) \<Rightarrow>
         (case mkdirAll env s1 (pathJoin [fsPath fs, bucket, object]) of
            (Some err, s2) \<Rightarrow> (Inl (toObjectErr err [bucket, object]), s2)
          | (None, s2) \<Rightarrow>
             (case fsStatDir env s2 (pathJoin [fsPath fs, bucket, object]) of
                (Inl err, s3) \<Rightarrow> (Inl (toObjectErr err [bucket, object]), s3)
              | (Inr fi, s3) \<Rightarrow> (Inr (ToObjectInfo fsMeta bucket object fi), s3))))"

text \<open>The end of \<^verbatim>\<open>putObject\<close>, from the WORM check on: the rename of the temporary file
  to the object's path, the write of the sidecar (\<open>wlk\<close> is its handle; none for the
  reserved meta bucket), the final stat.\<close>

definition putObjectCommit ::
  "FSObjects \<Rightarrow> fsEnv \<Rightarrow> fsState \<Rightarrow> string \<Rightarrow> string \<Rightarrow> fsMetaV1 \<Rightarrow> path option \<Rightarrow> path
     \<Rightarrow> (error + ObjectInfo) \<times> fsState" where
  "putObjectCommit fs env s bucket object fsMeta wlk fsTmpObjPath =
     (let fsNSObjPath = pathJoin [fsPath fs, bucket, object];
          (exists, s1) =
             (if globalWORMEnabled env
              then (case fsStatFile env s fsNSObjPath of
                      (Inl err, s') \<Rightarrow> (False, s')
                    | (Inr fi, s') \<Rightarrow> (True, s'))
              else (False, s))
      in if exists then (Inl (ObjectAlreadyExists bucket object), s1)
         else
          (case fsRenameFile env s1 fsTmpObjPath fsNSObjPath of
             (Some err, s2) \<Rightarrow> (Inl (toObjectErr err [bucket, object]), s2)
           | (None, s2) \<Rightarrow>
              (case (if bucket \<noteq> minioMetaBucket
                     then (case wlk of
                             None \<Rightarrow> (Some (GoPanic ''nil pointer dereference''), s2)
                           | Some lk \<Rightarrow> WriteTo env s2 fsMeta lk)
                     else (None, s2)) of
                 (Some err, s3) \<Rightarrow> (Inl (toObjectErr err [bucket, object]), s3)
               | (None, s3) \<Rightarrow>
                  (case fsStatFile env s3 (pathJoin [fsPath fs, bucket, object]) of
                     (Inl err, s4) \<Rightarrow> (Inl (toObjectErr err [bucket, object]), s4)
                   | (Inr fi, s4) \<Rightarrow> (Inr (ToObjectInfo fsMeta bucket object fi), s4)))))"

text \<open>The middle of \<^verbatim>\<open>putObject\<close>, from \<^verbatim>\<open>tempObj := mustGetUUID()\<close> on: the stream is
  written to the temporary file, which is removed on each of the two early errors and,
  by the deferred call registered after them, when the rest returns.\<close>

definition putObjectBody ::
  "FSObjects \<Rightarrow> fsEnv \<Rightarrow> fsState \<Rightarrow> string \<Rightarrow> string \<Rightarrow> hashReader \<Rightarrow> fsMetaV1 \<Rightarrow> path option
     \<Rightarrow> (error + ObjectInfo) \<times> fsState" where
  "putObjectBody fs env s bucket object data fsMeta wlk =
     (let tempObj = mustGetUUID env (now s);
          fsTmpObjPath = pathJoin [fsPath fs, minioMetaTmpBucket, fsUUID fs, tempObj]
      in case fsCreateFile env s fsTmpObjPath data (hrSize data) of
           (Inl err, s1) \<Rightarrow>
             (Inl (toObjectErr err [bucket, object]), fsRemoveFile s1 fsTmpObjPath)
         | (Inr bytesWritten, s1) \<Rightarrow>
             (case mapSet (fmMeta fsMeta) ''etag'' (md5hex env (hrBytes data)) of
                Inl panic \<Rightarrow> (Inl panic, s1)
              | Inr meta' \<Rightarrow>
                 (let fsMeta' = fsMeta \<lparr> fmMeta := meta' \<rparr> in
                  if \<not> isCompressed env (fmMeta fsMeta') \<and> bytesWritten < hrSize data
                  then (Inl IncompleteBody, fsRemoveFile s1 fsTmpObjPath)
                  else (let (r, s2) = putObjectCommit fs env s1 bucket object fsMeta' wlk
                                        fsTmpObjPath
                        in (r, fsRemoveFile s2 fsTmpObjPath)))))"

definition putObject ::
  "FSObjects \<Rightarrow> fsEnv \<Rightarrow> fsState \<Rightarrow> string \<Rightarrow> string \<Rightarrow> hashReader \<Rightarrow> gomap
     \<Rightarrow> (error + ObjectInfo) \<times> fsState" where
  "putObject fs env s bucket object data metadata =
     (let meta = Some (mapEntries metadata) in
      case statBucketDir fs env s bucket of
        (Inl err, s1) \<Rightarrow> (Inl (toObjectErr err [bucket]), s1)
      | (Inr st, s1) \<Rightarrow>
         (let fsMeta = newFSMetaV1 \<lparr> fmMeta := meta \<rparr> in
          if isObjectDir object (hrSize data) then putObjectDir fs env s1 bucket object fsMeta
          else
           (case checkPutObjectArgs env s1 bucket object (hrSize data) of
              Some err \<Rightarrow> (Inl err, s1)
            | None \<Rightarrow>
               (case parentDirIsObject fs env s1 bucket (pathDir object) of
                  (True, s2) \<Rightarrow> (Inl (toObjectErr errFileAccessDenied [bucket, object]), s2)
                | (False, s2) \<Rightarrow>
                   if hrSize data < 0 then (Inl errInvalidArgument, s2)
                   else if bucket \<noteq> minioMetaBucket
                   then
                    (let bucketMetaDir = pathJoin [fsPath fs, minioMetaBucket, bucketMetaPrefix];
                         fsMetaPath = pathJoin [bucketMetaDir, bucket, object, metaJSONFile fs]
                     in case rwPoolCreate env s2 fsMetaPath of
                          (Inl err, s3) \<Rightarrow> (Inl (toObjectErr err [bucket, object]), s3)
                        | (Inr wlk, s3) \<Rightarrow>
                           (let (r, s4) = putObjectBody fs env s3 bucket object data fsMeta
                                            (Some wlk);
                                tmpDir = pathJoin [fsPath fs, minioMetaTmpBucket, fsUUID fs];
                                s5 = (if isErr r
                                      then fsRemoveMeta s4 bucketMetaDir fsMetaPath tmpDir
                                      else s4)
                            in (r, rwPoolClose s5 wlk)))
                   else putObjectBody fs env s2 bucket object data fsMeta None))))"

definition PutObject ::
  "FSObjects \<Rightarrow> fsEnv \<Rightarrow> fsState \<Rightarrow> string \<Rightarrow> string \<Rightarrow> hashReader \<Rightarrow> gomap
     \<Rightarrow> (error + ObjectInfo) \<times> fsState" where
  "PutObject fs env s bucket object data metadata =
     (case checkPutObjectArgs env s bucket object (hrSize data) of
        Some err \<Rightarrow> (Inl err, s)
      | None \<Rightarrow>
         (case GetLock env s bucket object of
            Inl err \<Rightarrow> (Inl err, s)
          | Inr s1 \<Rightarrow>
             (let (r, s2) = putObject fs env s1 bucket object data metadata
              in (r, Unlock s2 bucket object))))"

subsection \<open>Reading an object\<close>

text \<open>The method \<^verbatim>\<open>fs.isObjectDir(bucket, prefix)\<close>.\<close>

definition FSObjects_isObjectDir ::
  "FSObjects \<Rightarrow> fsEnv \<Rightarrow> fsState \<Rightarrow> string \<Rightarrow> string \<Rightarrow> bool \<times> fsState" where
  "FSObjects_isObjectDir fs env s bucket pre =
     (case readDirN env s (pathJoin [fsPath fs, bucket, pre]) 1 of
        (Inl err, s') \<Rightarrow> (False, s')
      | (Inr entries, s') \<Rightarrow> (length entries = 0, s'))"

text \<open>\<^verbatim>\<open>getObjectETag\<close>. The bytes of the sidecar are parsed for the version and the
  metadata; \<^verbatim>\<open>extractETag\<close> is the entry \<open>etag\<close>.\<close>

definition etagOfContent :: "fsEnv \<Rightarrow> fcontent \<Rightarrow> string \<Rightarrow> string \<Rightarrow> error + string" where
  "etagOfContent env c bucket entry =
     (if length (contentBytes env c) = 0 then Inr []
      else (case c of
              Data bs \<Rightarrow> Inl (toObjectErr errCorruptedFormat [bucket, entry])
            | FsJSON d \<Rightarrow>
               (if \<not> isFSMetaValid (fmVersion d)
                then Inl (toObjectErr errCorruptedFormat [bucket, entry])
                else Inr (mapIndex (fmMeta d) ''etag''))))"

definition getObjectETag ::
  "FSObjects \<Rightarrow> fsEnv \<Rightarrow> fsState \<Rightarrow> string \<Rightarrow> string \<Rightarrow> bool \<Rightarrow> (error + string) \<times> fsState" where
  "getObjectETag fs env s bucket entry lock =
     (let fsMetaPath = pathJoin [fsPath fs, minioMetaBucket, bucketMetaPrefix, bucket, entry,
                                 metaJSONFile fs]
      in if lock
         then (case rwPoolOpen env s fsMetaPath of
                 (Inl err, s1) \<Rightarrow>
                   (if err \<noteq> errFileNotFound then (Inl (toObjectErr err [bucket, entry]), s1)
                    else (Inr [], s1))
               | (Inr rlk, s1) \<Rightarrow>
                   (case fileAt s1 rlk of
                      None \<Rightarrow> (Inl (toObjectErr errFileNotFound [bucket, entry]),
                                rwPoolClose s1 fsMetaPath)
                    | Some c \<Rightarrow> (etagOfContent env c bucket entry, rwPoolClose s1 fsMetaPath)))
         else (case fsOpenFile env s fsMetaPath 0 of
                 (Inl err, s1) \<Rightarrow> (Inl (toObjectErr err [bucket, entry]), s1)
               | (Inr (reader, sz), s1) \<Rightarrow>
                   (case fileAt s1 fsMetaPath of
                      None \<Rightarrow> (Inl (toObjectErr errFileNotFound [bucket, entry]), s1)
                    | Some c \<Rightarrow> (etagOfContent env c bucket entry, s1))))"

text \<open>\<^verbatim>\<open>getObject\<close>. The writer is an argument of the call: \<open>hasWriter\<close> says that it is
  not nil, and what is written to it is returned with the error. The end of the
  function, after the sidecar was opened, is \<open>getObjectData\<close>.\<close>

definition getObjectData ::
  "FSObjects \<Rightarrow> fsEnv \<Rightarrow> fsState \<Rightarrow> string \<Rightarrow> string \<Rightarrow> int \<Rightarrow> int \<Rightarrow> string \<Rightarrow> bool
     \<Rightarrow> (error option \<times> string) \<times> fsState" where
  "getObjectData fs env s bucket object offset len etag lock =
     (let (etagErr, s1) =
            (if etag \<noteq> [] \<and> etag \<noteq> defaultEtag
             then (case getObjectETag fs env s bucket object lock of
                     (Inl perr, s') \<Rightarrow> (Some (toObjectErr perr [bucket, object]), s')
                   | (Inr objEtag, s') \<Rightarrow>
                       (if objEtag \<noteq> etag
                        then (Some (toObjectErr InvalidETag [bucket, object]), s')
                        else (None, s')))
             else (None, s))
      in case etagErr of
           Some err \<Rightarrow> ((Some err, []), s1)
         | None \<Rightarrow>
            (case fsOpenFile env s1 (pathJoin [fsPath fs, bucket, object]) offset of
               (Inl err, s2) \<Rightarrow> ((Some (toObjectErr err [bucket, object]), []), s2)
             | (Inr (reader, sz), s2) \<Rightarrow>
                (let len' = (if len < 0 then sz - offset else len) in
                 if offset > sz \<or> offset + len' > sz
                 then ((Some (InvalidRange offset len' sz), []), s2)
                 else ((None, take (nat len') reader), s2))))"

definition getObject ::
  "FSObjects \<Rightarrow> fsEnv \<Rightarrow> fsState \<Rightarrow> string \<Rightarrow> string \<Rightarrow> int \<Rightarrow> int \<Rightarrow> bool \<Rightarrow> string \<Rightarrow> bool
     \<Rightarrow> (error option \<times> string) \<times> fsState" where
  "getObject fs env s bucket object offset len hasWriter etag lock =
     (case statBucketDir fs env s bucket of
        (Inl err, s1) \<Rightarrow> ((Some (toObjectErr err [bucket]), []), s1)
      | (Inr st, s1) \<Rightarrow>
         if offset < 0 then ((Some (toObjectErr errUnexpected [bucket, object]), []), s1)
         else if \<not> hasWriter then ((Some (toObjectErr errUnexpected [bucket, object]), []), s1)
         else if hasSuffix object slashSeparator then ((None, []), s1)
         else if bucket \<noteq> minioMetaBucket \<and> lock
         then (let fsMetaPath = pathJoin [fsPath fs, minioMetaBucket, bucketMetaPrefix, bucket,
                                          object, metaJSONFile fs]
               in case rwPoolOpen env s1 fsMetaPath of
                    (Inl err, s2) \<Rightarrow>
                      (if err \<noteq> errFileNotFound
                       then ((Some (toObjectErr err [bucket, object]), []), s2)
                       else (let (r, s3) = getObjectData fs env s2 bucket object offset len etag lock
                             in (r, rwPoolClose s3 fsMetaPath)))
                  | (Inr rlk, s2) \<Rightarrow>
                      (let (r, s3) = getObjectData fs env s2 bucket object offset len etag lock
                       in (r, rwPoolClose s3 fsMetaPath)))
         else getObjectData fs env s1 bucket object offset len etag lock)"

subsection \<open>Object information\<close>

text \<open>The content type of \<^verbatim>\<open>createFsJSON\<close> and \<^verbatim>\<open>defaultFsJSON\<close>: none for a name without
  extension, else the entry of the table for the lower-case extension, else
  \<^verbatim>\<open>application/octet-stream\<close>.\<close>

definition withContentType :: "fsEnv \<Rightarrow> string \<Rightarrow> (string \<times> string) list \<Rightarrow> (string \<times> string) list" where
  "withContentType env object meta =
     (let objectExt = pathExt object in
      if objectExt \<noteq> []
      then (case mimeDB env (strToLower env (trimPrefix objectExt ''.'')) of
              Some contentType \<Rightarrow> AList.update ''content-type'' contentType meta
            | None \<Rightarrow> AList.update ''content-type'' ''application/octet-stream'' meta)
      else meta)"

definition createFsJSON ::
  "FSObjects \<Rightarrow> fsEnv \<Rightarrow> fsState \<Rightarrow> string \<Rightarrow> path \<Rightarrow> error option \<times> fsState" where
  "createFsJSON fs env s object fsMetaPath =
     (let fsMeta = newFSMetaV1
            \<lparr> fmMeta := Some (withContentType env object [(''etag'', GenETag env (now s))]) \<rparr>
      in case rwPoolCreate env s fsMetaPath of
           (Inr wlk, s1) \<Rightarrow>
             (case WriteTo env s1 fsMeta wlk of
                (err, s2) \<Rightarrow> (err, rwPoolClose s2 wlk))
         | (Inl werr, s1) \<Rightarrow> (Some werr, s1))"

definition defaultFsJSON :: "fsEnv \<Rightarrow> string \<Rightarrow> fsMetaV1" where
  "defaultFsJSON env object =
     newFSMetaV1 \<lparr> fmMeta := Some (withContentType env object [(''etag'', defaultEtag)]) \<rparr>"

definition getObjectInfo ::
  "FSObjects \<Rightarrow> fsEnv \<Rightarrow> fsState \<Rightarrow> string \<Rightarrow> string \<Rightarrow> (error + ObjectInfo) \<times> fsState" where
  "getObjectInfo fs env s bucket object =
     (if hasSuffix object slashSeparator
      then (case fsIsDir env s (pathJoin [fsPath fs, bucket, object]) of
              (False, s1) \<Rightarrow> (Inl errFileNotFound, s1)
            | (True, s1) \<Rightarrow>
               (case fsStatDir env s1 (pathJoin [fsPath fs, bucket, object]) of
                  (Inl err, s2) \<Rightarrow> (Inl err, s2)
                | (Inr fi, s2) \<Rightarrow> (Inr (ToObjectInfo zeroFSMetaV1 bucket object fi), s2)))
      else
       (let fsMetaPath = pathJoin [fsPath fs, minioMetaBucket, bucketMetaPrefix, bucket, object,
                                   metaJSONFile fs];
            (r, s3) =
              (case rwPoolOpen env s fsMetaPath of
                 (Inr rlk, s1) \<Rightarrow>
                   (case ReadFrom env s1 zeroFSMetaV1 rlk of
                      (Inl rerr, s2) \<Rightarrow> (Inl rerr, rwPoolClose s2 fsMetaPath)
                    | (Inr fsMeta, s2) \<Rightarrow> (Inr fsMeta, rwPoolClose s2 fsMetaPath))
               | (Inl err, s1) \<Rightarrow>
                   (if err = errFileNotFound then (Inr (defaultFsJSON env object), s1)
                    else (Inl err, s1)))
        in case r of
             Inl err \<Rightarrow> (Inl err, s3)
           | Inr fsMeta \<Rightarrow>
              (case fsStatFile env s3 (pathJoin [fsPath fs, bucket, object]) of
                 (Inl err, s4) \<Rightarrow> (Inl err, s4)
               | (Inr fi, s4) \<Rightarrow> (Inr (ToObjectInfo fsMeta bucket object fi), s4))))"

definition getObjectInfoWithLock ::
  "FSObjects \<Rightarrow> fsEnv \<Rightarrow> fsState \<Rightarrow> string \<Rightarrow> string \<Rightarrow> (error + ObjectInfo) \<times> fsState" where
  "getObjectInfoWithLock fs env s bucket object =
     (case GetRLock env s bucket object of
        Inl err \<Rightarrow> (Inl err, s)
      | Inr s1 \<Rightarrow>
         (let (r, s5) =
            (case checkGetObjArgs env bucket object of
               Some err \<Rightarrow> (Inl err, s1)
             | None \<Rightarrow>
                (case statBucketDir fs env s1 bucket of
                   (Inl err, s2) \<Rightarrow> (Inl (toObjectErr err [bucket]), s2)
                 | (Inr st, s2) \<Rightarrow>
                    (let (notDir, s3) =
                           (if hasSuffix object slashSeparator
                            then (case FSObjects_isObjectDir fs env s2 bucket object of
                                    (isDir, s') \<Rightarrow> (\<not> isDir, s'))
                            else (False, s2))
                     in if notDir then (Inl errFileNotFound, s3)
                        else getObjectInfo fs env s3 bucket object)))
          in (r, RUnlock s5 bucket object)))"

definition GetObjectInfo ::
  "FSObjects \<Rightarrow> fsEnv \<Rightarrow> fsState \<Rightarrow> string \<Rightarrow> string \<Rightarrow> (error + ObjectInfo) \<times> fsState" where
  "GetObjectInfo fs env s bucket object =
     (case getObjectInfoWithLock fs env s bucket object of
        (Inr oi, s1) \<Rightarrow> (Inr oi, s1)
      | (Inl err, s1) \<Rightarrow>
         (if err = errCorruptedFormat \<or> err = ioEOF
          then (case GetLock env s1 bucket object of
                  Inl err' \<Rightarrow> (Inl (toObjectErr err' [bucket, object]), s1)
                | Inr s2 \<Rightarrow>
                   (let fsMetaPath = pathJoin [fsPath fs, minioMetaBucket, bucketMetaPrefix,
                                               bucket, object, metaJSONFile fs]
                    in case createFsJSON fs env s2 object fsMetaPath of
                         (Some err', s3) \<Rightarrow>
                           (Inl (toObjectErr err' [bucket, object]), Unlock s3 bucket object)
                       | (None, s3) \<Rightarrow>
                           (case getObjectInfoWithLock fs env (Unlock s3 bucket object) bucket
                                   object of
                              (Inl err', s4) \<Rightarrow> (Inl (toObjectErr err' [bucket, object]), s4)
                            | (Inr oi, s4) \<Rightarrow> (Inr oi, s4))))
          else (Inl (toObjectErr err [bucket, object]), s1)))"

subsection \<open>GetObject\<close>

text \<open>The loop of \<^verbatim>\<open>compressSizeModified\<close> over \<^verbatim>\<open>objInfo.Parts\<close>, which reads
  \<^verbatim>\<open>modObjInfo.Parts[i]\<close> at the same index.\<close>

fun partSizesDiffer :: "PartInfo list \<Rightarrow> PartInfo list \<Rightarrow> error + bool" where
  "partSizesDiffer [] mods = Inr False"
| "partSizesDiffer (p # ps) [] = Inl (GoPanic ''index out of range'')"
| "partSizesDiffer (p # ps) (m # ms) =
     (if piSize p \<noteq> piSize m then Inr True else partSizesDiffer ps ms)"

definition compressSizeModified :: "fsEnv \<Rightarrow> ObjectInfo \<Rightarrow> ObjectInfo \<Rightarrow> error + bool" where
  "compressSizeModified env objInfo modObjInfo =
     (if length (oiParts objInfo) = 0 \<and> length (oiParts modObjInfo) = 0
      then (let objDecompressedSize = getDecompressedSize env objInfo;
                modDecompressedSize = getDecompressedSize env modObjInfo
            in Inr ((objDecompressedSize > 0 \<or> modDecompressedSize > 0)
                    \<and> objDecompressedSize \<noteq> modDecompressedSize))
      else if length (oiParts objInfo) > 0 \<and> length (oiParts modObjInfo) > 0
      then partSizesDiffer (oiParts objInfo) (oiParts modObjInfo)
      else Inr True)"

definition GetObject ::
  "FSObjects \<Rightarrow> fsEnv \<Rightarrow> fsState \<Rightarrow> string \<Rightarrow> string \<Rightarrow> int \<Rightarrow> int \<Rightarrow> bool \<Rightarrow> string \<Rightarrow> ObjectInfo
     \<Rightarrow> (error option \<times> string) \<times> fsState" where
  "GetObject fs env s bucket object offset len hasWriter etag objInfo =
     (case checkGetObjArgs env bucket object of
        Some err \<Rightarrow> ((Some err, []), s)
      | None \<Rightarrow>
         (case GetRLock env s bucket object of
            Inl err \<Rightarrow> ((Some err, []), s)
          | Inr s1 \<Rightarrow>
             (let (r, s4) =
                (if \<not> isCompressed env (oiUserDefined objInfo)
                 then getObject fs env s1 bucket object offset len hasWriter etag True
                 else (case getObjectInfo fs env s1 bucket object of
                         (Inl err, s2) \<Rightarrow> ((Some err, []), s2)
                       | (Inr modObjInfo, s2) \<Rightarrow>
                          (case compressSizeModified env objInfo modObjInfo of
                             Inl panic \<Rightarrow> ((Some panic, []), s2)
                           | Inr True \<Rightarrow> ((Some (toObjectErr errReadBlock []), []), s2)
                           | Inr False \<Rightarrow>
                               getObject fs env s2 bucket object offset len hasWriter etag True)))
              in (r, RUnlock s4 bucket object))))"

subsection \<open>CopyObject\<close>

text \<open>
  \<open>srcInfo\<close> carries the user metadata, the etag, the size and the flag
  \<^verbatim>\<open>metadataOnly\<close>; \<open>hasWriter\<close> says that \<^verbatim>\<open>srcInfo.Writer\<close> is not nil. The code reads the
  source in a goroutine that writes to a pipe, and runs \<^verbatim>\<open>putObject\<close> on the pipe's
  reader: here the read runs first and its output is the stream of the write, of
  declared size \<^verbatim>\<open>srcInfo.Size\<close>. \<^verbatim>\<open>isStringEqual\<close> is equality (it ignores case on
  Windows only).

  With a nil \<^verbatim>\<open>srcInfo.Writer\<close> the call panics. On the metadata-only branch it is
  \<^verbatim>\<open>defer srcInfo.Writer.Close()\<close> that panics, where it is deferred, and the unlocks
  deferred before it run. On the other branch the goroutine panics when it closes the
  writer, after \<^verbatim>\<open>getObject\<close> has refused the nil writer: this ends the process, and the
  deferred unlocks of the caller do not run.
\<close>

definition copyMetadataOnly ::
  "FSObjects \<Rightarrow> fsEnv \<Rightarrow> fsState \<Rightarrow> string \<Rightarrow> string \<Rightarrow> ObjectInfo \<Rightarrow> (error + ObjectInfo) \<times> fsState" where
  "copyMetadataOnly fs env s srcBucket srcObject srcInfo =
     (let fsMetaPath = pathJoin [fsPath fs, minioMetaBucket, bucketMetaPrefix, srcBucket,
                                 srcObject, metaJSONFile fs]
      in case rwPoolWrite env s fsMetaPath of
           (Inl err, s1) \<Rightarrow> (Inl (toObjectErr err [srcBucket, srcObject]), s1)
         | (Inr wlk, s1) \<Rightarrow>
            (let (r, s5) =
               (case ReadFrom env s1 newFSMetaV1 wlk of
                  (Inl err, s2) \<Rightarrow> (Inl (toObjectErr err [srcBucket, srcObject]), s2)
                | (Inr fsMeta0, s2) \<Rightarrow>
                   (case mapSet (oiUserDefined srcInfo) ''etag'' (oiETag srcInfo) of
                      Inl panic \<Rightarrow> (Inl panic, s2)
                    | Inr meta \<Rightarrow>
                       (let fsMeta = fsMeta0 \<lparr> fmMeta := meta \<rparr> in
                        case WriteTo env s2 fsMeta wlk of
                          (Some err, s3) \<Rightarrow> (Inl (toObjectErr err [srcBucket, srcObject]), s3)
                        | (None, s3) \<Rightarrow>
                           (case fsStatFile env s3 (pathJoin [fsPath fs, srcBucket, srcObject]) of
                              (Inl err, s4) \<Rightarrow>
                                (Inl (toObjectErr err [srcBucket, srcObject]), s4)
                            | (Inr fi, s4) \<Rightarrow>
                                (Inr (ToObjectInfo fsMeta srcBucket srcObject fi), s4)))))
             in (r, rwPoolClose s5 wlk)))"

definition copyData ::
  "FSObjects \<Rightarrow> fsEnv \<Rightarrow> fsState \<Rightarrow> string \<Rightarrow> string \<Rightarrow> string \<Rightarrow> string \<Rightarrow> ObjectInfo \<Rightarrow> bool
     \<Rightarrow> bool \<Rightarrow> (error + ObjectInfo) \<times> fsState" where
  "copyData fs env s srcBucket srcObject dstBucket dstObject srcInfo hasWriter cpSrcDstSame =
     (case getObject fs env s srcBucket srcObject 0 (oiSize srcInfo) hasWriter (oiETag srcInfo)
             (\<not> cpSrcDstSame) of
        ((gerr, out), s1) \<Rightarrow>
          (case putObject fs env s1 dstBucket dstObject
                  \<lparr> hrSize = oiSize srcInfo, hrBytes = out \<rparr> (oiUserDefined srcInfo) of
             (Inl err, s2) \<Rightarrow> (Inl (toObjectErr err [dstBucket, dstObject]), s2)
           | (Inr objInfo, s2) \<Rightarrow> (Inr objInfo, s2)))"

text \<open>The deferred unlocks of \<^verbatim>\<open>CopyObject\<close>, in the order in which they run.\<close>

definition copyUnlock ::
  "bool \<Rightarrow> string \<Rightarrow> string \<Rightarrow> string \<Rightarrow> string \<Rightarrow> fsState \<Rightarrow> fsState" where
  "copyUnlock cpSrcDstSame srcBucket srcObject dstBucket dstObject s =
     Unlock (if \<not> cpSrcDstSame then RUnlock s srcBucket srcObject else s) dstBucket dstObject"

definition CopyObject ::
  "FSObjects \<Rightarrow> fsEnv \<Rightarrow> fsState \<Rightarrow> string \<Rightarrow> string \<Rightarrow> string \<Rightarrow> string \<Rightarrow> ObjectInfo \<Rightarrow> bool
     \<Rightarrow> (error + ObjectInfo) \<times> fsState" where
  "CopyObject fs env s srcBucket srcObject dstBucket dstObject srcInfo hasWriter =
     (let cpSrcDstSame = (pathJoin [srcBucket, srcObject] = pathJoin [dstBucket, dstObject]) in
      case GetLock env s dstBucket dstObject of
        Inl err \<Rightarrow> (Inl err, s)
      | Inr s1 \<Rightarrow>
         (case (if \<not> cpSrcDstSame then GetRLock env s1 srcBucket srcObject else Inr s1) of
            Inl err \<Rightarrow> (Inl err, Unlock s1 dstBucket dstObject)
          | Inr s2 \<Rightarrow>
             (case statBucketDir fs env s2 srcBucket of
                (Inl err, s3) \<Rightarrow>
                  (Inl (toObjectErr err [srcBucket]),
                   copyUnlock cpSrcDstSame srcBucket srcObject dstBucket dstObject s3)
              | (Inr st, s3) \<Rightarrow>
                 if cpSrcDstSame \<and> metadataOnly srcInfo
                 then (if \<not> hasWriter
                       then (Inl (GoPanic ''nil pointer dereference''),
                             copyUnlock cpSrcDstSame srcBucket srcObject dstBucket dstObject s3)
                       else (let (r, s4) = copyMetadataOnly fs env s3 srcBucket srcObject srcInfo
                             in (r, copyUnlock cpSrcDstSame srcBucket srcObject dstBucket
                                      dstObject s4)))
                 else if \<not> hasWriter
                 then (Inl (GoPanic ''nil pointer dereference''),
                       snd (getObject fs env s3 srcBucket srcObject 0 (oiSize srcInfo) hasWriter
                              (oiETag srcInfo) (\<not> cpSrcDstSame)))
                 else (let (r, s4) = copyData fs env s3 srcBucket srcObject dstBucket dstObject
                                       srcInfo hasWriter cpSrcDstSame
                       in (r, copyUnlock cpSrcDstSame srcBucket srcObject dstBucket dstObject
                                s4)))))"

subsection \<open>DeleteObject\<close>

text \<open>The two deletions of \<^verbatim>\<open>DeleteObject\<close>: the data file, then the sidecar, whose
  absence is tolerated.\<close>

definition deleteObjectFiles ::
  "FSObjects \<Rightarrow> fsEnv \<Rightarrow> fsState \<Rightarrow> string \<Rightarrow> string \<Rightarrow> path \<Rightarrow> path \<Rightarrow> error option \<times> fsState" where
  "deleteObjectFiles fs env s bucket object minioMetaBucketDir fsMetaPath =
     (case fsDeleteFile env s (pathJoin [fsPath fs, bucket]) (pathJoin [fsPath fs, bucket, object]) of
        (Some err, s1) \<Rightarrow> (Some (toObjectErr err [bucket, object]), s1)
      | (None, s1) \<Rightarrow>
         (if bucket \<noteq> minioMetaBucket
          then (case fsDeleteFile env s1 minioMetaBucketDir fsMetaPath of
                  (Some err, s2) \<Rightarrow>
                    (if err \<noteq> errFileNotFound then (Some (toObjectErr err [bucket, object]), s2)
                     else (None, s2))
                | (None, s2) \<Rightarrow> (None, s2))
          else (None, s1)))"

definition DeleteObject ::
  "FSObjects \<Rightarrow> fsEnv \<Rightarrow> fsState \<Rightarrow> string \<Rightarrow> string \<Rightarrow> error option \<times> fsState" where
  "DeleteObject fs env s bucket object =
     (case GetLock env s bucket object of
        Inl err \<Rightarrow> (Some err, s)
      | Inr s1 \<Rightarrow>
         (let (r, s5) =
            (case checkDelObjArgs env bucket object of
               Some err \<Rightarrow> (Some err, s1)
             | None \<Rightarrow>
                (case statBucketDir fs env s1 bucket of
                   (Inl err, s2) \<Rightarrow> (Some (toObjectErr err [bucket]), s2)
                 | (Inr st, s2) \<Rightarrow>
                    (let minioMetaBucketDir = pathJoin [fsPath fs, minioMetaBucket];
                         fsMetaPath = pathJoin [minioMetaBucketDir, bucketMetaPrefix, bucket,
                                                object, metaJSONFile fs]
                     in if bucket \<noteq> minioMetaBucket
                        then (case rwPoolWrite env s2 fsMetaPath of
                                (Inr rwlk, s3) \<Rightarrow>
                                  (let (r', s4) = deleteObjectFiles fs env s3 bucket object
                                                    minioMetaBucketDir fsMetaPath
                                   in (r', rwPoolClose s4 rwlk))
                              | (Inl lerr, s3) \<Rightarrow>
                                  (if lerr \<noteq> errFileNotFound
                                   then (Some (toObjectErr lerr [bucket, object]), s3)
                                   else deleteObjectFiles fs env s3 bucket object
                                          minioMetaBucketDir fsMetaPath))
                        else deleteObjectFiles fs env s2 bucket object minioMetaBucketDir
                               fsMetaPath)))
          in (r, Unlock s5 bucket object)))"

subsection \<open>ListObjects\<close>

record ListObjectsInfo =
  IsTruncated :: bool
  NextMarker :: string
  Objects :: "ObjectInfo list"
  Prefixes :: "string list"

definition emptyListObjectsInfo :: ListObjectsInfo where
  "emptyListObjectsInfo = \<lparr> IsTruncated = False, NextMarker = [], Objects = [], Prefixes = [] \<rparr>"

text \<open>Modelled from the spec: the walker pool is outside the given sources. A parked
  walker is the list of the results it has still to send; the newest parked walker of
  a key is claimed first.\<close>

fun poolRelease ::
  "(listParams \<times> walkResult list) list \<Rightarrow> listParams
     \<Rightarrow> walkResult list option \<times> (listParams \<times> walkResult list) list" where
  "poolRelease [] params = (None, [])"
| "poolRelease ((k, ch) # pool) params =
     (if k = params then (Some ch, pool)
      else (case poolRelease pool params of (r, pool') \<Rightarrow> (r, (k, ch) # pool')))"

definition poolSet ::
  "(listParams \<times> walkResult list) list \<Rightarrow> listParams \<Rightarrow> walkResult list
     \<Rightarrow> (listParams \<times> walkResult list) list" where
  "poolSet pool params ch = (params, ch) # pool"

definition entryToObjectInfo ::
  "FSObjects \<Rightarrow> fsEnv \<Rightarrow> fsState \<Rightarrow> string \<Rightarrow> string \<Rightarrow> (error + ObjectInfo) \<times> fsState" where
  "entryToObjectInfo fs env s bucket entry =
     (case GetRLock env s bucket entry of
        Inl err \<Rightarrow> (Inl err, s)
      | Inr s1 \<Rightarrow>
         (let (r, s2) = getObjectInfo fs env s1 bucket entry
          in (r, RUnlock s2 bucket entry)))"

text \<open>The listing loop \<^verbatim>\<open>for i := 0; i < maxKeys; { ... }\<close> with \<open>n\<close> the keys still to
  list and \<open>ch\<close> the results the channel has still to deliver (a closed channel is the
  empty list). \<open>Inl\<close> is a return from inside the loop, with the error returned;
  \<open>Inr\<close> is the end of the loop with the objects listed, whether the end of the walk
  was reached, and the rest of the channel.\<close>

fun listLoop ::
  "FSObjects \<Rightarrow> fsEnv \<Rightarrow> fsState \<Rightarrow> string \<Rightarrow> string \<Rightarrow> nat \<Rightarrow> walkResult list \<Rightarrow> ObjectInfo list
     \<Rightarrow> (error option + ObjectInfo list \<times> bool \<times> walkResult list) \<times> fsState" where
  "listLoop fs env s bucket pre n [] objInfos =
     (if n = 0 then (Inr (objInfos, False, []), s) else (Inr (objInfos, True, []), s))"
| "listLoop fs env s bucket pre n (walkResult # ch) objInfos =
     (if n = 0 then (Inr (objInfos, False, walkResult # ch), s)
      else (case wrErr walkResult of
              Some err \<Rightarrow>
                (if err = errFileNotFound then (Inl None, s)
                 else (Inl (Some (toObjectErr err [bucket, pre])), s))
            | None \<Rightarrow>
               (case entryToObjectInfo fs env s bucket (wrEntry walkResult) of
                  (Inl err, s') \<Rightarrow> (Inl None, s')
                | (Inr objInfo, s') \<Rightarrow>
                    (if wrEnd walkResult then (Inr (objInfos @ [objInfo], True, ch), s')
                     else listLoop fs env s' bucket pre (n - 1) ch (objInfos @ [objInfo])))))"

text \<open>The last loop of \<^verbatim>\<open>ListObjects\<close>, which sorts the listed entries into objects and
  prefixes.\<close>

fun fillResult :: "string \<Rightarrow> ObjectInfo list \<Rightarrow> ListObjectsInfo \<Rightarrow> ListObjectsInfo" where
  "fillResult delimiter [] result = result"
| "fillResult delimiter (objInfo # objInfos) result =
     (let result1 = result \<lparr> NextMarker := oiName objInfo \<rparr> in
      if oiIsDir objInfo \<and> delimiter = slashSeparator
      then fillResult delimiter objInfos (result1 \<lparr> Prefixes := Prefixes result1 @ [oiName objInfo] \<rparr>)
      else fillResult delimiter objInfos (result1 \<lparr> Objects := Objects result1 @ [objInfo] \<rparr>))"

text \<open>The results that a listing reads: those of the newest walker parked under the
  parameters of the listing, which is taken from the pool, or those of a new walk.\<close>

definition claimWalker ::
  "FSObjects \<Rightarrow> fsEnv \<Rightarrow> fsState \<Rightarrow> listParams \<Rightarrow> walkResult list \<times> fsState" where
  "claimWalker fs env s params =
     (case poolRelease (fsListPool s) params of
        (Some ch, pool') \<Rightarrow> (ch, s \<lparr> fsListPool := pool' \<rparr>)
      | (None, pool') \<Rightarrow>
          (startTreeWalk env s params,
           logEv (EvFs TreeWalk (pathJoin [fsPath fs, lpBucket params])) s))"

text \<open>The part of \<^verbatim>\<open>ListObjects\<close> after the overflow check, with \<open>maxKeys\<close> as it is
  then.\<close>

definition listWalk ::
  "FSObjects \<Rightarrow> fsEnv \<Rightarrow> fsState \<Rightarrow> string \<Rightarrow> string \<Rightarrow> string \<Rightarrow> string \<Rightarrow> int
     \<Rightarrow> (ListObjectsInfo \<times> error option) \<times> fsState" where
  "listWalk fs env s bucket pre marker delimiter maxKeys =
     (let recursive = (delimiter \<noteq> slashSeparator);
          heal = False;
          params = \<lparr> lpBucket = bucket, lpRecursive = recursive, lpMarker = marker,
                     lpPrefix = pre, lpHeal = heal \<rparr>;
          (walkResultCh, s1) = claimWalker fs env s params
      in case listLoop fs env s1 bucket pre (nat maxKeys) walkResultCh [] of
           (Inl err, s2) \<Rightarrow> ((emptyListObjectsInfo, err), s2)
         | (Inr (objInfos, eof, rest), s2) \<Rightarrow>
            (let nextMarker = (if objInfos = [] then [] else oiName (last objInfos));
                 params' = params \<lparr> lpMarker := nextMarker \<rparr>;
                 s3 = (if \<not> eof then s2 \<lparr> fsListPool := poolSet (fsListPool s2) params' rest \<rparr>
                       else s2);
                 result = fillResult delimiter objInfos
                            (emptyListObjectsInfo \<lparr> IsTruncated := \<not> eof \<rparr>)
             in ((result, None), s3)))"

text \<open>\<^verbatim>\<open>ListObjects\<close> returns a \<^verbatim>\<open>ListObjectsInfo\<close> and an error; both are kept, as on every
  early return the code returns the zero value \<^verbatim>\<open>loi\<close> with the error or with nil.\<close>

definition ListObjects ::
  "FSObjects \<Rightarrow> fsEnv \<Rightarrow> fsState \<Rightarrow> string \<Rightarrow> string \<Rightarrow> string \<Rightarrow> string \<Rightarrow> int
     \<Rightarrow> (ListObjectsInfo \<times> error option) \<times> fsState" where
  "ListObjects fs env s bucket pre marker delimiter maxKeys =
     (case checkListObjsArgs env s bucket pre marker delimiter of
        Some err \<Rightarrow> ((emptyListObjectsInfo, Some err), s)
      | None \<Rightarrow>
         if marker \<noteq> [] \<and> \<not> hasPrefix marker pre then ((emptyListObjectsInfo, None), s)
         else
          (case statBucketDir fs env s bucket of
             (Inl err, s1) \<Rightarrow> ((emptyListObjectsInfo, Some err), s1)
           | (Inr st, s1) \<Rightarrow>
              if maxKeys = 0 then ((emptyListObjectsInfo, None), s1)
              else if delimiter = slashSeparator \<and> pre = slashSeparator
                then ((emptyListObjectsInfo, None), s1)
              else listWalk fs env s1 bucket pre marker delimiter
                     (if maxKeys < 0 \<or> maxKeys > maxObjectList then maxObjectList else maxKeys)))"

subsection \<open>Observing a call\<close>

text \<open>The events of a call that apply a file-system primitive to a path, and the calls
  that act on no path: the files, the directories and the walker pool are as before,
  and the trace has gained lock events only.\<close>

fun isFsEv :: "event \<Rightarrow> bool" where
  "isFsEv (EvFs p x) = True"
| "isFsEv e = False"

definition untouched :: "fsState \<Rightarrow> fsState \<Rightarrow> bool" where
  "untouched s s' =
     (fsFiles s' = fsFiles s \<and> fsDirs s' = fsDirs s \<and> fsListPool s' = fsListPool s
      \<and> filter isFsEv (fsTrace s') = filter isFsEv (fsTrace s))"

text \<open>The events a call has added to the trace.\<close>

definition newEvents :: "fsState \<Rightarrow> fsState \<Rightarrow> event list" where
  "newEvents s s' = drop (length (fsTrace s)) (fsTrace s')"

text \<open>The lock events of the trace of a state, in order.\<close>

definition locks :: "fsState \<Rightarrow> event list" where
  "locks s = filter (\<lambda>e. \<not> isFsEv e) (fsTrace s)"

text \<open>The keys of the namespace locks a trace acquires, in order.\<close>

fun acquiredKey :: "event \<Rightarrow> (string \<times> string) list" where
  "acquiredKey (EvLock b ob) = [(b, ob)]"
| "acquiredKey (EvRLock b ob) = [(b, ob)]"
| "acquiredKey e = []"

definition acquisitions :: "event list \<Rightarrow> (string \<times> string) list" where
  "acquisitions tr = concat (map acquiredKey tr)"

text \<open>The paths of an object's sidecar and data file, as every operation computes them.\<close>

definition sidecarPath :: "FSObjects \<Rightarrow> string \<Rightarrow> string \<Rightarrow> path" where
  "sidecarPath fs bucket object =
     pathJoin [fsPath fs, minioMetaBucket, bucketMetaPrefix, bucket, object, metaJSONFile fs]"

definition dataPath :: "FSObjects \<Rightarrow> string \<Rightarrow> string \<Rightarrow> path" where
  "dataPath fs bucket object = pathJoin [fsPath fs, bucket, object]"




text \<open>A result of the walker that names a file of the bucket that has no sidecar: the
  listing resolves it to the information of the file, with the defaults.\<close>

definition plainEntry :: "FSObjects \<Rightarrow> fsState \<Rightarrow> string \<Rightarrow> walkResult \<Rightarrow> bool" where
  "plainEntry fs s bucket w =
     (wrErr w = None \<and> \<not> hasSuffix (wrEntry w) slashSeparator
      \<and> fileAt s (dataPath fs bucket (wrEntry w)) \<noteq> None
      \<and> fileAt s (sidecarPath fs bucket (wrEntry w)) = None)"
section \<open>Configuration validator\<close>

text \<open>
  Modelled from the spec: the validator (\<^verbatim>\<open>getValidConfig\<close> and the \<^verbatim>\<open>Validate\<close> methods it
  applies) is outside the given sources, which hold only its test
  \<^verbatim>\<open>TestValidateConfig\<close>. The definitions of this section follow the spec's rules for
  the validator, in the order the spec gives them, the first failure deciding:
  well-formed JSON without duplicate keys at any level; \<open>version\<close> equal to the current
  schema version; \<open>browser\<close>, if present, \<open>on\<close> or \<open>off\<close>, and \<open>on\<close> when absent; a credential
  with non-empty \<open>accessKey\<close> and \<open>secretKey\<close>; \<open>region\<close> defaulting to \<open>us-east-1\<close> when
  absent; every configured notification target valid.

  A document is a JSON value; \<open>None\<close> stands for a text that is not well-formed JSON. An
  object is the list of its members in the order of the text, so that a duplicate key
  can be written down. The current schema version and the formats a target accepts are
  parameters.
\<close>

datatype json =
    JNull
  | JBool bool
  | JNum int
  | JStr string
  | JArr "json list"
  | JObj "(string \<times> json) list"

datatype configError =
    ErrMalformedJSON
  | ErrDuplicateKey
  | ErrVersionMismatch
  | ErrInvalidBrowser
  | ErrInvalidCredential
  | ErrInvalidTarget

record serverConfig =
  cfgVersion :: string
  cfgRegion :: string
  cfgBrowser :: string
  cfgAccessKey :: string
  cfgSecretKey :: string

definition globalMinioDefaultRegion :: string where
  "globalMinioDefaultRegion = ''us-east-1''"

primrec noDuplicateKeys :: "json \<Rightarrow> bool"
  and noDuplicateKeysList :: "json list \<Rightarrow> bool"
  and noDuplicateKeysMembers :: "(string \<times> json) list \<Rightarrow> bool"
  and noDuplicateKeysMember :: "string \<times> json \<Rightarrow> bool" where
  "noDuplicateKeys JNull = True"
| "noDuplicateKeys (JBool b) = True"
| "noDuplicateKeys (JNum n) = True"
| "noDuplicateKeys (JStr s) = True"
| "noDuplicateKeys (JArr xs) = noDuplicateKeysList xs"
| "noDuplicateKeys (JObj kvs) = (distinct (map fst kvs) \<and> noDuplicateKeysMembers kvs)"
| "noDuplicateKeysList [] = True"
| "noDuplicateKeysList (x # xs) = (noDuplicateKeys x \<and> noDuplicateKeysList xs)"
| "noDuplicateKeysMembers [] = True"
| "noDuplicateKeysMembers (kv # kvs) = (noDuplicateKeysMember kv \<and> noDuplicateKeysMembers kvs)"
| "noDuplicateKeysMember (k, v) = noDuplicateKeys v"

definition member :: "json \<Rightarrow> string \<Rightarrow> json option" where
  "member doc k = (case doc of JObj kvs \<Rightarrow> map_of kvs k | _ \<Rightarrow> None)"

text \<open>A field is empty when it is absent, null, the empty string or the empty array.\<close>

definition emptyField :: "json \<Rightarrow> string \<Rightarrow> bool" where
  "emptyField doc k =
     (case member doc k of
        None \<Rightarrow> True
      | Some JNull \<Rightarrow> True
      | Some (JStr s) \<Rightarrow> s = []
      | Some (JArr xs) \<Rightarrow> xs = []
      | Some v \<Rightarrow> False)"

text \<open>The required fields of an enabled target, by kind, as the spec lists them.\<close>

definition requiredFields :: "string \<Rightarrow> string list" where
  "requiredFields kind =
     (if kind = ''amqp'' then [''url'']
      else if kind = ''nats'' then [''address'']
      else if kind = ''elasticsearch'' then [''url'', ''index'']
      else if kind = ''redis'' then [''address'', ''key'']
      else if kind = ''postgresql'' then [''host'']
      else if kind = ''mysql'' then [''host'']
      else if kind = ''kafka'' then [''brokers'']
      else if kind = ''webhook'' then [''endpoint'']
      else if kind = ''mqtt'' then [''broker'', ''topic'']
      else if kind = ''nsq'' then [''nsqdAddress'', ''topic'']
      else [])"

definition validateTarget :: "(string \<Rightarrow> string list) \<Rightarrow> string \<Rightarrow> json \<Rightarrow> bool" where
  "validateTarget acceptedFormats kind target =
     ((member target ''enable'' = Some (JBool True)
         \<longrightarrow> list_all (\<lambda>f. \<not> emptyField target f) (requiredFields kind))
      \<and> (case member target ''format'' of
            None \<Rightarrow> True
          | Some (JStr f) \<Rightarrow> f \<in> set (acceptedFormats kind)
          | Some v \<Rightarrow> False))"

definition validateKind :: "(string \<Rightarrow> string list) \<Rightarrow> string \<times> json \<Rightarrow> bool" where
  "validateKind acceptedFormats kt =
     (case snd kt of
        JObj targets \<Rightarrow> list_all (\<lambda>idt. validateTarget acceptedFormats (fst kt) (snd idt)) targets
      | v \<Rightarrow> False)"

definition validateNotify :: "(string \<Rightarrow> string list) \<Rightarrow> json \<Rightarrow> bool" where
  "validateNotify acceptedFormats doc =
     (case member doc ''notify'' of
        None \<Rightarrow> True
      | Some (JObj kinds) \<Rightarrow> list_all (validateKind acceptedFormats) kinds
      | Some v \<Rightarrow> False)"

definition validBrowser :: "json \<Rightarrow> bool" where
  "validBrowser doc =
     (case member doc ''browser'' of
        None \<Rightarrow> True
      | Some (JStr b) \<Rightarrow> b = ''on'' \<or> b = ''off''
      | Some v \<Rightarrow> False)"

definition browserOf :: "json \<Rightarrow> string" where
  "browserOf doc = (case member doc ''browser'' of Some (JStr b) \<Rightarrow> b | _ \<Rightarrow> ''on'')"

definition regionOf :: "json \<Rightarrow> string" where
  "regionOf doc =
     (case member doc ''region'' of Some (JStr r) \<Rightarrow> r | _ \<Rightarrow> globalMinioDefaultRegion)"

definition stringField :: "json \<Rightarrow> string \<Rightarrow> string" where
  "stringField doc k = (case member doc k of Some (JStr s) \<Rightarrow> s | _ \<Rightarrow> [])"

definition validCredential :: "json \<Rightarrow> bool" where
  "validCredential doc =
     (case member doc ''credential'' of
        Some (JObj cred) \<Rightarrow>
          stringField (JObj cred) ''accessKey'' \<noteq> [] \<and> stringField (JObj cred) ''secretKey'' \<noteq> []
      | _ \<Rightarrow> False)"

definition validateConfig ::
  "string \<Rightarrow> (string \<Rightarrow> string list) \<Rightarrow> json option \<Rightarrow> configError + serverConfig" where
  "validateConfig serverConfigVersion acceptedFormats text =
     (case text of
        None \<Rightarrow> Inl ErrMalformedJSON
      | Some doc \<Rightarrow>
         if \<not> noDuplicateKeys doc then Inl ErrDuplicateKey
         else if member doc ''version'' \<noteq> Some (JStr serverConfigVersion) then Inl ErrVersionMismatch
         else if \<not> validBrowser doc then Inl ErrInvalidBrowser
         else if \<not> validCredential doc then Inl ErrInvalidCredential
         else if \<not> validateNotify acceptedFormats doc then Inl ErrInvalidTarget
         else Inr \<lparr> cfgVersion = serverConfigVersion, cfgRegion = regionOf doc,
                    cfgBrowser = browserOf doc,
                    cfgAccessKey = (case member doc ''credential'' of
                                      Some cred \<Rightarrow> stringField cred ''accessKey'' | None \<Rightarrow> []),
                    cfgSecretKey = (case member doc ''credential'' of
                                      Some cred \<Rightarrow> stringField cred ''secretKey'' | None \<Rightarrow> []) \<rparr>)"

text \<open>Removing a member from an object.\<close>

definition without :: "string \<Rightarrow> json \<Rightarrow> json" where
  "without k doc = (case doc of JObj kvs \<Rightarrow> JObj (filter (\<lambda>kv. fst kv \<noteq> k) kvs) | v \<Rightarrow> v)"

section \<open>Example states\<close>

text \<open>Concrete stores and environments at which the theorems below are instantiated.\<close>

subsection \<open>The remote store\<close>

definition quietGcsEnv :: gcsEnv where
  "quietGcsEnv = \<lparr> gcsFault = (\<lambda>op b n. None), crc32c = (\<lambda>bs. 0), ToS3ETag = (\<lambda>s. s) \<rparr>"

definition exSidecar :: "string \<Rightarrow> string \<Rightarrow> string \<Rightarrow> gcsObject" where
  "exSidecar v b k =
     \<lparr> objAttrs = emptyAttrs, objBody = MetaJSON \<lparr> mmVersion = v, mmBucket = b, mmObject = k \<rparr> \<rparr>"

definition exPart :: "int \<Rightarrow> gcsObject" where
  "exPart n = \<lparr> objAttrs = emptyAttrs \<lparr> attrSize := n \<rparr>, objBody = Bytes [] \<rparr>"

definition exParts :: "CompletePart list" where
  "exParts = [\<lparr> cpPartNumber = 1, cpETag = ''e1'' \<rparr>, \<lparr> cpPartNumber = 2, cpETag = ''e2'' \<rparr>]"

text \<open>An upload \<open>u\<close> for bucket \<open>b\<close> and key \<open>k\<close>: a sidecar of version \<open>v\<close> recording
  bucket \<open>sb\<close>, and the parts 1 (100 bytes) and, if \<open>withLast\<close>, 2 (7 bytes).\<close>

definition exStore :: "string \<Rightarrow> string \<Rightarrow> bool \<Rightarrow> gcsStore" where
  "exStore v sb withLast =
     [((''b'', gcsMultipartMetaName ''u''), exSidecar v sb ''k''),
      ((''b'', gcsMultipartDataName ''u'' 1 ''e1''), exPart 100)]
     @ (if withLast then [((''b'', gcsMultipartDataName ''u'' 2 ''e2''), exPart 7)] else [])"

subsection \<open>The file system\<close>

text \<open>An export \<open>/export\<close> with the bucket \<open>b\<close>; an environment in which nothing fails,
  every argument check passes, nothing is compressed and WORM is off.\<close>

definition exFS :: FSObjects where
  "exFS = \<lparr> fsPath = ''/export'', metaJSONFile = fsMetaJSONFile, fsUUID = ''uuid'' \<rparr>"

definition quietEnv :: fsEnv where
  "quietEnv = \<lparr> fault = (\<lambda>t p x. None), partialWrite = (\<lambda>t. None),
     lockTimesOut = (\<lambda>t m b ob. False), bucketNameRules = (\<lambda>b. True),
     checkPutObjectArgs = (\<lambda>s b ob n. None), checkGetObjArgs = (\<lambda>b ob. None),
     checkDelObjArgs = (\<lambda>b ob. None), checkListObjsArgs = (\<lambda>s b p m d. None),
     isCompressed = (\<lambda>m. False), getDecompressedSize = (\<lambda>oi. 0),
     GenETag = (\<lambda>t. ''9b2cf535f27731c974343645a3985328-1''), mustGetUUID = (\<lambda>t. ''tmp1''),
     mimeDB = (\<lambda>ext. if ext = ''txt'' then Some ''text/plain'' else None),
     strToLower = asciiToLower,
     md5hex = (\<lambda>bs. ''49f68a5c8493ec2c0bf489821c21fc3b''), globalWORMEnabled = False,
     encodeFsJSON = (\<lambda>m. ''}''), startTreeWalk = (\<lambda>s p. []) \<rparr>"

definition exState :: "(path \<times> fcontent) list \<Rightarrow> fsState" where
  "exState fls = \<lparr> fsFiles = fls, fsDirs = [''/export'', ''/export/b''], fsListPool = [],
     fsTrace = [] \<rparr>"

definition exData :: hashReader where
  "exData = \<lparr> hrSize = 2, hrBytes = ''hi'' \<rparr>"

subsection \<open>Configuration documents\<close>

text \<open>The cases 2 to 10 of \<^verbatim>\<open>TestValidateConfig\<close> as JSON values, \<open>v\<close> the current version.\<close>

definition exCredential :: "string \<Rightarrow> json" where
  "exCredential secret = JObj [(''accessKey'', JStr ''minio''), (''secretKey'', JStr secret)]"

definition exConfig :: "string \<Rightarrow> nat \<Rightarrow> json" where
  "exConfig v n =
     (if n = 2 then JObj []
      else if n = 3 then JObj [(''version'', JStr ''10'')]
      else if n = 4 then JObj [(''version'', JStr v), (''browser'', JStr ''foo'')]
      else if n = 5 then JObj [(''version'', JStr v), (''browser'', JStr ''on'')]
      else if n = 6 then JObj [(''version'', JStr v), (''browser'', JStr ''on''),
                               (''credential'', exCredential [])]
      else if n = 7 then JObj [(''version'', JStr v), (''browser'', JStr ''on''),
                               (''credential'', exCredential ''minio123'')]
      else if n = 8 then JObj [(''version'', JStr v), (''region'', JStr ''us-east-1''),
                               (''credential'', exCredential ''minio123'')]
      else if n = 9 then JObj [(''version'', JStr v), (''browser'', JStr ''on''),
                               (''region'', JStr ''us-east-1''),
                               (''credential'', exCredential ''minio123'')]
      else JObj [(''version'', JStr v), (''browser'', JStr ''on''), (''browser'', JStr ''on''),
                 (''region'', JStr ''us-east-1''), (''credential'', exCredential ''minio123'')])"

definition exFormats :: "string \<Rightarrow> string list" where
  "exFormats kind = [''namespace'', ''access'']"

subsection \<open>An object with its sidecar\<close>

definition exSidecarDoc :: "string \<Rightarrow> fsMetaV1" where
  "exSidecarDoc etag = newFSMetaV1 \<lparr> fmMeta := Some [(''etag'', etag)] \<rparr>"

definition exObjectFiles :: "fcontent \<Rightarrow> (path \<times> fcontent) list" where
  "exObjectFiles sidecar =
     [(''/export/b/hello.txt'', Data ''old''),
      (''/export/.minio.sys/buckets/b/hello.txt/fs.json'', sidecar)]"

definition exSrcInfo :: "string \<Rightarrow> ObjectInfo" where
  "exSrcInfo etag =
     emptyObjectInfo \<lparr> oiETag := etag, oiSize := 3,
       oiUserDefined := Some [(''x-amz-meta-foo'', ''bar'')], metadataOnly := True \<rparr>"

subsection \<open>A disk that fails when a sidecar is written\<close>


subsection \<open>A bucket with three objects, and walkers\<close>

definition exListFiles :: "(path \<times> fcontent) list" where
  "exListFiles = [(''/export/b/a'', Data ''1''), (''/export/b/b'', Data ''22''),
                  (''/export/b/c'', Data ''333'')]"

definition exWalk :: "walkResult list" where
  "exWalk = [\<lparr> wrEntry = ''a'', wrErr = None, wrEnd = False \<rparr>,
             \<lparr> wrEntry = ''b'', wrErr = None, wrEnd = False \<rparr>,
             \<lparr> wrEntry = ''c'', wrErr = None, wrEnd = True \<rparr>]"

definition walkEnv :: "walkResult list \<Rightarrow> fsEnv" where
  "walkEnv ch = quietEnv \<lparr> startTreeWalk := (\<lambda>s p. ch) \<rparr>"

subsection \<open>An argument check that rejects an invalid bucket name\<close>

section \<open>Theorems: GCS gateway\<close>

lemma fetchPartSizes_length:
  "fetchPartSizes env st bucket key uploadID ps = Inr sizes \<Longrightarrow> length sizes = length ps"
  by (induction ps arbitrary: sizes) (auto split: sum.splits)

lemma fetchPartSizes_nth:
  "fetchPartSizes env st bucket key uploadID ps = Inr sizes \<Longrightarrow> i < length ps \<Longrightarrow>
   \<exists>a. gcsAttrs env st bucket
          (gcsMultipartDataName uploadID (cpPartNumber (ps ! i)) (cpETag (ps ! i))) = Inr a
       \<and> sizes ! i = attrSize a"
proof (induction ps arbitrary: sizes i)
  case Nil
  then show ?case by simp
next
  case (Cons p ps)
  then show ?case
    by (cases i) (auto split: sum.splits)
qed

lemma checkPartSizes_small:
  "i < length sizes \<Longrightarrow> length sizes \<le> length ps \<Longrightarrow> sizes ! i < 5 * MiByte \<Longrightarrow>
   \<exists>j\<le>i. checkPartSizes ps sizes =
            Some (PartTooSmall (cpPartNumber (ps ! j)) (sizes ! j) (cpETag (ps ! j)))
        \<and> sizes ! j < 5 * MiByte \<and> (\<forall>k<j. 5 * MiByte \<le> sizes ! k)"
proof (induction ps sizes arbitrary: i rule: checkPartSizes.induct)
  case (1 ps)
  then show ?case by simp
next
  case (2 sz sizes)
  then show ?case by simp
next
  case (3 p ps sz sizes)
  show ?case
  proof (cases "sz < 5 * MiByte")
    case True
    then show ?thesis by (intro exI[of _ 0]) simp
  next
    case False
    with 3 obtain i' where i': "i = Suc i'" by (cases i) auto
    with 3 False have "\<exists>j\<le>i'. checkPartSizes ps sizes =
            Some (PartTooSmall (cpPartNumber (ps ! j)) (sizes ! j) (cpETag (ps ! j)))
        \<and> sizes ! j < 5 * MiByte \<and> (\<forall>k<j. 5 * MiByte \<le> sizes ! k)" by auto
    then obtain j where j: "j \<le> i'"
        "checkPartSizes ps sizes =
            Some (PartTooSmall (cpPartNumber (ps ! j)) (sizes ! j) (cpETag (ps ! j)))"
        "sizes ! j < 5 * MiByte" "\<forall>k<j. 5 * MiByte \<le> sizes ! k" by blast
    show ?thesis
    proof (intro exI[of _ "Suc j"] conjI)
      show "Suc j \<le> i" using j i' by simp
      show "checkPartSizes (p # ps) (sz # sizes) =
          Some (PartTooSmall (cpPartNumber ((p # ps) ! Suc j)) ((sz # sizes) ! Suc j)
                  (cpETag ((p # ps) ! Suc j)))"
        using False j by simp
      show "(sz # sizes) ! Suc j < 5 * MiByte" using j by simp
      show "\<forall>k<Suc j. 5 * MiByte \<le> (sz # sizes) ! k"
        using False j by (auto simp: less_Suc_eq_0_disj)
    qed
  qed
qed

lemmas gcs_eval = CompleteMultipartUpload_def gcsAttrs_def gcsNewReader_def
  decodeMultipartMeta_def quietGcsEnv_def exStore_def exSidecar_def exPart_def exParts_def
  gcsMultipartMetaName_def gcsMultipartDataName_def gcsMinioMultipartPathV1_def
  GatewayMinioSysTmp_def gcsMinioMultipartMeta_def errGCSFormat_def
  gcsMinioMultipartMetaCurrentVersion_def fmt05d_def decimalNat.simps digitChar_def
  errObjectNotExist_def paramUploadID_def paramBucket_def paramObject_def MiByte_def
  emptyAttrs_def

text \<open>
  Claim C6, as the code has it. When the upload's \<^verbatim>\<open>gcs.json\<close> can be read and decoded:
  a version other than \<open>1\<close> ends the call with \<^verbatim>\<open>errGCSFormat\<close> ("Unknown format", which
  \<^verbatim>\<open>gcsToObjectError\<close> leaves as it is), and a recorded bucket or object other than the
  request's ends it with \<^verbatim>\<open>InvalidUploadID\<close>. In both cases the store is unchanged: no
  object is composed.
\<close>

theorem CompleteMultipartUpload_sidecar_mismatch:
  assumes "gcsFault env OpAttrs bucket (gcsMultipartMetaName uploadID) = None"
    and "gcsFault env OpNewReader bucket (gcsMultipartMetaName uploadID) = None"
    and "map_of st (bucket, gcsMultipartMetaName uploadID) = Some ob"
    and "objBody ob = MetaJSON m"
  shows "(mmVersion m \<noteq> gcsMinioMultipartMetaCurrentVersion \<longrightarrow>
            CompleteMultipartUpload env st bucket key uploadID uploadedParts = (Inl errGCSFormat, st))
       \<and> (mmVersion m = gcsMinioMultipartMetaCurrentVersion
            \<and> (mmBucket m \<noteq> bucket \<or> mmObject m \<noteq> key) \<longrightarrow>
            CompleteMultipartUpload env st bucket key uploadID uploadedParts
              = (Inl (InvalidUploadID uploadID), st))"
  using assms
  by (simp add: CompleteMultipartUpload_def gcsAttrs_def gcsNewReader_def decodeMultipartMeta_def
      errGCSFormat_def)

theorem CompleteMultipartUpload_sidecar_mismatch_witness:
  "CompleteMultipartUpload quietGcsEnv (exStore ''2'' ''b'' True) ''b'' ''k'' ''u'' exParts
     = (Inl errGCSFormat, exStore ''2'' ''b'' True)
   \<and> CompleteMultipartUpload quietGcsEnv (exStore ''1'' ''x'' True) ''b'' ''k'' ''u'' exParts
     = (Inl (InvalidUploadID ''u''), exStore ''1'' ''x'' True)"
  using CompleteMultipartUpload_sidecar_mismatch
          [of quietGcsEnv "''b''" "''u''" "exStore ''2'' ''b'' True" "exSidecar ''2'' ''b'' ''k''"
              "\<lparr> mmVersion = ''2'', mmBucket = ''b'', mmObject = ''k'' \<rparr>" "''k''" exParts]
        CompleteMultipartUpload_sidecar_mismatch
          [of quietGcsEnv "''b''" "''u''" "exStore ''1'' ''x'' True" "exSidecar ''1'' ''x'' ''k''"
              "\<lparr> mmVersion = ''1'', mmBucket = ''x'', mmObject = ''k'' \<rparr>" "''k''" exParts]
  by (simp add: quietGcsEnv_def exStore_def exSidecar_def gcsMinioMultipartMetaCurrentVersion_def)

text \<open>
  Claim C6 as stated says \<^verbatim>\<open>InvalidUploadID\<close> for a version other than \<open>1\<close>. With a sidecar
  of version \<open>2\<close> (bucket and key matching) the call returns the message-only error
  "Unknown format".
\<close>

theorem CompleteMultipartUpload_version_counterexample:
  "CompleteMultipartUpload quietGcsEnv (exStore ''2'' ''b'' True) ''b'' ''k'' ''u'' exParts
     = (Inl (PlainError ''Unknown format''), exStore ''2'' ''b'' True)
   \<and> PlainError ''Unknown format'' \<noteq> InvalidUploadID ''u''"
  by (simp add: gcs_eval)

lemma sidecarValid_reaches_parts:
  assumes "gcsFault env OpAttrs bucket (gcsMultipartMetaName uploadID) = None"
    and "gcsFault env OpNewReader bucket (gcsMultipartMetaName uploadID) = None"
    and "map_of st (bucket, gcsMultipartMetaName uploadID) = Some ob"
    and "objBody ob = MetaJSON \<lparr> mmVersion = gcsMinioMultipartMetaCurrentVersion, mmBucket = bucket, mmObject = key \<rparr>"
    and "fetchPartSizes env st bucket key uploadID uploadedParts = Inr sizes"
    and "checkPartSizes uploadedParts (butlast sizes) = Some e"
  shows "CompleteMultipartUpload env st bucket key uploadID uploadedParts = (Inl e, st)"
proof -
  have "sizes \<noteq> []" using assms(6) by (cases sizes) auto
  then show ?thesis using assms
  by (simp add: CompleteMultipartUpload_def gcsAttrs_def gcsNewReader_def decodeMultipartMeta_def)
qed

lemma CompleteMultipartUpload_small_fails:
  assumes "i < length uploadedParts - 1"
    and "map_of st (bucket, gcsMultipartDataName uploadID (cpPartNumber (uploadedParts ! i))
                       (cpETag (uploadedParts ! i))) = Some ob"
    and "attrSize (objAttrs ob) < 5 * MiByte"
  shows "\<exists>e. CompleteMultipartUpload env st bucket key uploadID uploadedParts = (Inl e, st)"
proof (cases "fetchPartSizes env st bucket key uploadID uploadedParts")
  case (Inl e)
  then show ?thesis
    by (auto simp: CompleteMultipartUpload_def Let_def split: sum.splits)
next
  case (Inr sizes)
  have len: "length sizes = length uploadedParts" using Inr by (rule fetchPartSizes_length)
  from assms(1) have i: "i < length uploadedParts" by simp
  from fetchPartSizes_nth[OF Inr i] obtain a where
    a: "gcsAttrs env st bucket (gcsMultipartDataName uploadID (cpPartNumber (uploadedParts ! i))
                       (cpETag (uploadedParts ! i))) = Inr a" "sizes ! i = attrSize a" by blast
  from a(1) assms(2) have "a = objAttrs ob"
    by (auto simp: gcsAttrs_def split: option.splits)
  with a assms(3) have small: "sizes ! i < 5 * MiByte" by simp
  have "i < length (butlast sizes)" using assms(1) len by simp
  moreover have "butlast sizes ! i = sizes ! i" using assms(1) len by (simp add: nth_butlast)
  ultimately obtain e where "checkPartSizes uploadedParts (butlast sizes) = Some e"
    using checkPartSizes_small[of i "butlast sizes" uploadedParts] small len by auto
  moreover have "sizes \<noteq> []" using len assms(1) by auto
  ultimately show ?thesis using Inr
    by (auto simp: CompleteMultipartUpload_def Let_def split: sum.splits)
qed

text \<open>
  Claim C7, as the code has it. Let a supplied part other than the last have a stored
  size below 5 MiB. Then the call fails and leaves the store unchanged (no intermediate
  and no final object is composed). When moreover the sidecar is readable and valid and
  the attributes of every supplied part were fetched, the error is \<^verbatim>\<open>PartTooSmall\<close> (the
  error the API reports as \<^verbatim>\<open>EntityTooSmall\<close>) for the first part below 5 MiB.
\<close>

theorem CompleteMultipartUpload_part_too_small:
  assumes "i < length uploadedParts - 1"
    and "map_of st (bucket, gcsMultipartDataName uploadID (cpPartNumber (uploadedParts ! i))
                       (cpETag (uploadedParts ! i))) = Some ob"
    and "attrSize (objAttrs ob) < 5 * MiByte"
  shows "(\<exists>e. CompleteMultipartUpload env st bucket key uploadID uploadedParts = (Inl e, st))
    \<and> (gcsFault env OpAttrs bucket (gcsMultipartMetaName uploadID) = None
       \<and> gcsFault env OpNewReader bucket (gcsMultipartMetaName uploadID) = None
       \<and> map_of st (bucket, gcsMultipartMetaName uploadID) = Some sc
       \<and> objBody sc = MetaJSON \<lparr> mmVersion = gcsMinioMultipartMetaCurrentVersion,
                                 mmBucket = bucket, mmObject = key \<rparr>
       \<and> fetchPartSizes env st bucket key uploadID uploadedParts = Inr sizes
       \<longrightarrow> (\<exists>j\<le>i. sizes ! j < 5 * MiByte \<and> (\<forall>k<j. 5 * MiByte \<le> sizes ! k)
              \<and> CompleteMultipartUpload env st bucket key uploadID uploadedParts
                 = (Inl (PartTooSmall (cpPartNumber (uploadedParts ! j)) (sizes ! j)
                          (cpETag (uploadedParts ! j))), st)))"
proof (intro conjI impI)
  show "\<exists>e. CompleteMultipartUpload env st bucket key uploadID uploadedParts = (Inl e, st)"
    using assms by (rule CompleteMultipartUpload_small_fails)
next
  assume h: "gcsFault env OpAttrs bucket (gcsMultipartMetaName uploadID) = None
       \<and> gcsFault env OpNewReader bucket (gcsMultipartMetaName uploadID) = None
       \<and> map_of st (bucket, gcsMultipartMetaName uploadID) = Some sc
       \<and> objBody sc = MetaJSON \<lparr> mmVersion = gcsMinioMultipartMetaCurrentVersion,
                                 mmBucket = bucket, mmObject = key \<rparr>
       \<and> fetchPartSizes env st bucket key uploadID uploadedParts = Inr sizes"
  then have fetch: "fetchPartSizes env st bucket key uploadID uploadedParts = Inr sizes" by simp
  have len: "length sizes = length uploadedParts" using fetch by (rule fetchPartSizes_length)
  from assms(1) have i: "i < length uploadedParts" by simp
  from fetchPartSizes_nth[OF fetch i] obtain a where
    a: "gcsAttrs env st bucket (gcsMultipartDataName uploadID (cpPartNumber (uploadedParts ! i))
                       (cpETag (uploadedParts ! i))) = Inr a" "sizes ! i = attrSize a" by blast
  from a(1) assms(2) have "a = objAttrs ob"
    by (auto simp: gcsAttrs_def split: option.splits)
  with a assms(3) have small: "sizes ! i < 5 * MiByte" by simp
  have ib: "i < length (butlast sizes)" using assms(1) len by simp
  have nb: "\<And>k. k \<le> i \<Longrightarrow> butlast sizes ! k = sizes ! k"
    using ib by (simp add: nth_butlast)
  from checkPartSizes_small[of i "butlast sizes" uploadedParts] ib small len nb[of i]
  obtain j where j: "j \<le> i"
     "checkPartSizes uploadedParts (butlast sizes) =
        Some (PartTooSmall (cpPartNumber (uploadedParts ! j)) (butlast sizes ! j) (cpETag (uploadedParts ! j)))"
     "butlast sizes ! j < 5 * MiByte" "\<forall>k<j. 5 * MiByte \<le> butlast sizes ! k"
    by auto
  have "CompleteMultipartUpload env st bucket key uploadID uploadedParts
         = (Inl (PartTooSmall (cpPartNumber (uploadedParts ! j)) (butlast sizes ! j) (cpETag (uploadedParts ! j))), st)"
    using h j(2) by (intro sidecarValid_reaches_parts[where sizes = sizes and ob = sc]) auto
  then show "\<exists>j\<le>i. sizes ! j < 5 * MiByte \<and> (\<forall>k<j. 5 * MiByte \<le> sizes ! k)
              \<and> CompleteMultipartUpload env st bucket key uploadID uploadedParts
                 = (Inl (PartTooSmall (cpPartNumber (uploadedParts ! j)) (sizes ! j)
                          (cpETag (uploadedParts ! j))), st)"
    using j nb by (intro exI[of _ j]) auto
qed

theorem CompleteMultipartUpload_part_too_small_witness:
  "CompleteMultipartUpload quietGcsEnv (exStore ''1'' ''b'' True) ''b'' ''k'' ''u'' exParts
     = (Inl (PartTooSmall 1 100 ''e1''), exStore ''1'' ''b'' True)"
  using CompleteMultipartUpload_part_too_small
          [where i = 0 and uploadedParts = exParts and st = "exStore ''1'' ''b'' True"
             and bucket = "''b''" and uploadID = "''u''" and ob = "exPart 100"
             and env = quietGcsEnv and sc = "exSidecar ''1'' ''b'' ''k''" and key = "''k''"
             and sizes = "[100, 7]"]
  by (simp add: gcs_eval)

text \<open>
  Claim C7 as stated says \<^verbatim>\<open>EntityTooSmall\<close> whenever a part other than the last is below
  5 MiB. The code fetches the attributes of all supplied parts before it looks at any
  size: with part 1 of 100 bytes stored and part 2 never uploaded, the call returns
  \<^verbatim>\<open>InvalidUploadID\<close>.
\<close>

theorem CompleteMultipartUpload_missing_part_counterexample:
  "map_of (exStore ''1'' ''b'' False) (''b'', gcsMultipartDataName ''u'' 1 ''e1'') = Some (exPart 100)
   \<and> attrSize (objAttrs (exPart 100)) < 5 * MiByte
   \<and> CompleteMultipartUpload quietGcsEnv (exStore ''1'' ''b'' False) ''b'' ''k'' ''u'' exParts
     = (Inl (InvalidUploadID ''u''), exStore ''1'' ''b'' False)"
  by (simp add: gcs_eval)

section \<open>Theorems: ListObjects\<close>

lemmas path_eval = pathJoin_def pathJoinGo_def pathClean_def pathDir_def hasSuffix_def
  hasPrefix_def slashSeparator_def minioMetaBucket_def bucketMetaPrefix_def
  minioMetaTmpBucket_def fsMetaJSONFile_def stripSlash_def

lemmas prim_eval = logEv_def now_def faultAt_def isDirAt_def fileAt_def putFile_def
  dropFile_def addDirs_def fsStatVolume_def fsStatFile_def fsStatDir_def fsIsFile_def
  fsIsDir_def rwPoolCreate_def rwPoolWrite_def rwPoolOpen_def rwPoolClose_def ReadFrom_def
  WriteTo_def fsCreateFile_def fsRemoveFile_def fsRemoveMeta_def fsRenameFile_def
  fsDeleteFile_def fsOpenFile_def GetLock_def GetRLock_def Unlock_def RUnlock_def
  getBucketDir_def statBucketDir_def toObjectErr_def

lemmas ex_eval = exFS_def quietEnv_def exState_def exData_def

lemma listLoop_bound:
  "listLoop fs env s bucket pre n ch acc = (Inr (objs, eof, rest), s')
   \<Longrightarrow> length objs \<le> length acc + n"
proof (induction ch arbitrary: s n acc)
  case Nil
  then show ?case by (auto split: if_splits)
next
  case (Cons w ch)
  show ?case
  proof (cases "n = 0")
    case True
    with Cons.prems show ?thesis by simp
  next
    case False
    with Cons.prems show ?thesis
      by (auto split: option.splits if_splits prod.splits sum.splits dest!: Cons.IH)
  qed
qed

lemma fillResult_length:
  "length (Objects (fillResult d ois r)) + length (Prefixes (fillResult d ois r))
     = length ois + length (Objects r) + length (Prefixes r)"
  by (induction ois arbitrary: r) (auto simp: Let_def)

lemma listWalk_bound:
  "length (Objects (fst (fst (listWalk fs env s bucket pre marker delimiter maxKeys))))
     + length (Prefixes (fst (fst (listWalk fs env s bucket pre marker delimiter maxKeys))))
   \<le> nat maxKeys"
proof -
  let ?params = "\<lparr> lpBucket = bucket, lpRecursive = (delimiter \<noteq> slashSeparator),
                    lpMarker = marker, lpPrefix = pre, lpHeal = False \<rparr>"
  obtain ch s1 where rel: "claimWalker fs env s ?params = (ch, s1)"
    by (cases "claimWalker fs env s ?params") auto
  show ?thesis
  proof (cases "listLoop fs env s1 bucket pre (nat maxKeys) ch []")
    case (Pair r s2)
    show ?thesis
    proof (cases r)
      case (Inl e)
      with Pair rel show ?thesis
        by (simp add: listWalk_def Let_def emptyListObjectsInfo_def)
    next
      case (Inr t)
      obtain objs eof rest where t: "t = (objs, eof, rest)" by (cases t) auto
      from listLoop_bound[of fs env s1 bucket pre "nat maxKeys" ch "[]" objs eof rest s2] Pair Inr t
      have "length objs \<le> nat maxKeys" by simp
      with Pair Inr t rel show ?thesis
        by (simp add: listWalk_def Let_def fillResult_length emptyListObjectsInfo_def)
    qed
  qed
qed

lemma ListObjects_cases:
  "fst (fst (ListObjects fs env s bucket pre marker delimiter maxKeys)) = emptyListObjectsInfo
   \<or> (maxKeys \<noteq> 0 \<and> (\<exists>s1. ListObjects fs env s bucket pre marker delimiter maxKeys
          = listWalk fs env s1 bucket pre marker delimiter
              (if maxKeys < 0 \<or> maxKeys > maxObjectList then maxObjectList else maxKeys)))"
  by (auto simp: ListObjects_def split: option.splits prod.splits sum.splits)

lemma ListObjects_bound:
  "length (Objects (fst (fst (ListObjects fs env s bucket pre marker delimiter maxKeys))))
     + length (Prefixes (fst (fst (ListObjects fs env s bucket pre marker delimiter maxKeys))))
   \<le> (if maxKeys < 0 \<or> maxKeys > 1000 then 1000 else nat maxKeys)"
proof -
  from ListObjects_cases[of fs env s bucket pre marker delimiter maxKeys]
  show ?thesis
  proof
    assume "fst (fst (ListObjects fs env s bucket pre marker delimiter maxKeys)) = emptyListObjectsInfo"
    then show ?thesis by (simp add: emptyListObjectsInfo_def)
  next
    assume "maxKeys \<noteq> 0 \<and> (\<exists>s1. ListObjects fs env s bucket pre marker delimiter maxKeys
          = listWalk fs env s1 bucket pre marker delimiter
              (if maxKeys < 0 \<or> maxKeys > maxObjectList then maxObjectList else maxKeys))"
    then obtain s1 where "ListObjects fs env s bucket pre marker delimiter maxKeys
          = listWalk fs env s1 bucket pre marker delimiter
              (if maxKeys < 0 \<or> maxKeys > maxObjectList then maxObjectList else maxKeys)" by blast
    then show ?thesis
      using listWalk_bound[of fs env s1 bucket pre marker delimiter
              "if maxKeys < 0 \<or> maxKeys > maxObjectList then maxObjectList else maxKeys"]
      by (cases "maxKeys < 0 \<or> maxKeys > 1000") (simp_all add: maxObjectList_def)
  qed
qed



section \<open>Theorems: reserved bucket names\<close>

lemma getBucketDir_reserved:
  "bucket = [] \<or> bucket = ''.'' \<or> bucket = ''..'' \<Longrightarrow> getBucketDir fs bucket = Inl errVolumeNotFound"
  by (auto simp: getBucketDir_def)

lemma statBucketDir_reserved:
  "bucket = [] \<or> bucket = ''.'' \<or> bucket = ''..'' \<Longrightarrow>
   statBucketDir fs env s bucket = (Inl errVolumeNotFound, s)"
  by (simp add: statBucketDir_def getBucketDir_reserved)

lemma toObjectErr_volume [simp]: "toObjectErr errVolumeNotFound [bucket] = BucketNotFound bucket"
  by (simp add: toObjectErr_def)

lemma toObjectErr_BucketNotFound [simp]: "toObjectErr (BucketNotFound b) ps = BucketNotFound b"
  by (simp add: toObjectErr_def)

lemma toObjectErr_timeout [simp]: "toObjectErr OperationTimedOut ps = OperationTimedOut"
  by (simp add: toObjectErr_def)

lemma untouched_refl [simp]: "untouched s s"
  by (simp add: untouched_def)

lemma untouched_lock [simp]:
  "untouched s (logEv (EvLock b ob) s')  = untouched s s'"
  "untouched s (logEv (EvRLock b ob) s')  = untouched s s'"
  "untouched s (logEv (EvUnlock b ob) s')  = untouched s s'"
  "untouched s (logEv (EvRUnlock b ob) s')  = untouched s s'"
  by (simp_all add: untouched_def logEv_def)

lemmas lock_defs = GetLock_def GetRLock_def Unlock_def RUnlock_def

lemma MakeBucketWithLocation_reserved:
  assumes "bucket = [] \<or> bucket = ''.'' \<or> bucket = ''..''"
  shows "\<exists>e. fst (MakeBucketWithLocation fs env s bucket location) = Some e
           \<and> untouched s (snd (MakeBucketWithLocation fs env s bucket location))
           \<and> (\<not> lockTimesOut env (now s) WriteLock bucket []
                \<longrightarrow> e = BucketNameInvalid bucket)"
proof -
  from assms have "\<not> IsValidBucketName env bucket"
    by (auto simp: IsValidBucketName_def)
  then show ?thesis
    by (simp add: MakeBucketWithLocation_def lock_defs)
qed

lemma GetBucketInfo_reserved:
  assumes "bucket = [] \<or> bucket = ''.'' \<or> bucket = ''..''"
  shows "\<exists>e. fst (GetBucketInfo fs env s bucket) = Inl e
           \<and> untouched s (snd (GetBucketInfo fs env s bucket))
           \<and> (\<not> lockTimesOut env (now s) ReadLock bucket [] \<longrightarrow> e = BucketNotFound bucket)"
  by (simp add: GetBucketInfo_def lock_defs statBucketDir_reserved[OF assms])

lemma DeleteBucket_reserved:
  assumes "bucket = [] \<or> bucket = ''.'' \<or> bucket = ''..''"
  shows "\<exists>e. fst (DeleteBucket fs env s bucket) = Some e
           \<and> untouched s (snd (DeleteBucket fs env s bucket))
           \<and> (\<not> lockTimesOut env (now s) WriteLock bucket [] \<longrightarrow> e = BucketNotFound bucket)"
  using getBucketDir_reserved[OF assms, of fs]
  by (simp add: DeleteBucket_def lock_defs)

lemma putObject_reserved:
  assumes "bucket = [] \<or> bucket = ''.'' \<or> bucket = ''..''"
  shows "putObject fs env s bucket object data metadata = (Inl (BucketNotFound bucket), s)"
  by (simp add: putObject_def statBucketDir_reserved[OF assms])

lemma PutObject_reserved:
  assumes "bucket = [] \<or> bucket = ''.'' \<or> bucket = ''..''"
  shows "\<exists>e. fst (PutObject fs env s bucket object data metadata) = Inl e
           \<and> untouched s (snd (PutObject fs env s bucket object data metadata))
           \<and> (checkPutObjectArgs env s bucket object (hrSize data) = None
               \<and> \<not> lockTimesOut env (now s) WriteLock bucket object \<longrightarrow> e = BucketNotFound bucket)"
  by (auto simp: PutObject_def lock_defs putObject_reserved[OF assms] split: option.splits)

lemma getObject_reserved:
  assumes "bucket = [] \<or> bucket = ''.'' \<or> bucket = ''..''"
  shows "getObject fs env s bucket object offset len hasWriter etag lock
           = ((Some (BucketNotFound bucket), []), s)"
  by (simp add: getObject_def statBucketDir_reserved[OF assms])

lemma GetObject_reserved:
  assumes "bucket = [] \<or> bucket = ''.'' \<or> bucket = ''..''"
    and "\<not> isCompressed env (oiUserDefined objInfo)"
  shows "\<exists>e. fst (fst (GetObject fs env s bucket object offset len hasWriter etag objInfo)) = Some e
           \<and> snd (fst (GetObject fs env s bucket object offset len hasWriter etag objInfo)) = []
           \<and> untouched s (snd (GetObject fs env s bucket object offset len hasWriter etag objInfo))
           \<and> (checkGetObjArgs env bucket object = None
               \<and> \<not> lockTimesOut env (now s) ReadLock bucket object \<longrightarrow> e = BucketNotFound bucket)"
  using assms(2)
  by (auto simp: GetObject_def lock_defs getObject_reserved[OF assms(1)] split: option.splits)

lemma getObjectInfoWithLock_reserved:
  assumes "bucket = [] \<or> bucket = ''.'' \<or> bucket = ''..''"
  shows "\<exists>e. fst (getObjectInfoWithLock fs env s bucket object) = Inl e
           \<and> untouched s (snd (getObjectInfoWithLock fs env s bucket object))
           \<and> (e = OperationTimedOut \<or> checkGetObjArgs env bucket object = Some e
                \<or> e = BucketNotFound bucket)
           \<and> (checkGetObjArgs env bucket object = None
               \<and> \<not> lockTimesOut env (now s) ReadLock bucket object \<longrightarrow> e = BucketNotFound bucket)"
  by (auto simp: getObjectInfoWithLock_def lock_defs statBucketDir_reserved[OF assms]
      split: option.splits)

lemma GetObjectInfo_reserved:
  assumes "bucket = [] \<or> bucket = ''.'' \<or> bucket = ''..''"
    and "checkGetObjArgs env bucket object \<noteq> Some errCorruptedFormat"
    and "checkGetObjArgs env bucket object \<noteq> Some ioEOF"
  shows "\<exists>e. fst (GetObjectInfo fs env s bucket object) = Inl e
           \<and> untouched s (snd (GetObjectInfo fs env s bucket object))
           \<and> (checkGetObjArgs env bucket object = None
               \<and> \<not> lockTimesOut env (now s) ReadLock bucket object \<longrightarrow> e = BucketNotFound bucket)"
proof -
  from getObjectInfoWithLock_reserved[OF assms(1), of fs env s object]
  obtain e where e: "fst (getObjectInfoWithLock fs env s bucket object) = Inl e"
      "untouched s (snd (getObjectInfoWithLock fs env s bucket object))"
      "e = OperationTimedOut \<or> checkGetObjArgs env bucket object = Some e \<or> e = BucketNotFound bucket"
      "checkGetObjArgs env bucket object = None
               \<and> \<not> lockTimesOut env (now s) ReadLock bucket object \<longrightarrow> e = BucketNotFound bucket"
    by blast
  obtain s1 where s1: "getObjectInfoWithLock fs env s bucket object = (Inl e, s1)"
    using e(1) by (cases "getObjectInfoWithLock fs env s bucket object") auto
  have ne: "e \<noteq> errCorruptedFormat" "e \<noteq> ioEOF" using e(3) assms(2,3) by auto
  have "GetObjectInfo fs env s bucket object = (Inl (toObjectErr e [bucket, object]), s1)"
    using s1 ne by (simp add: GetObjectInfo_def)
  then show ?thesis using e s1 by auto
qed

lemma DeleteObject_reserved:
  assumes "bucket = [] \<or> bucket = ''.'' \<or> bucket = ''..''"
  shows "\<exists>e. fst (DeleteObject fs env s bucket object) = Some e
           \<and> untouched s (snd (DeleteObject fs env s bucket object))
           \<and> (checkDelObjArgs env bucket object = None
               \<and> \<not> lockTimesOut env (now s) WriteLock bucket object \<longrightarrow> e = BucketNotFound bucket)"
  by (auto simp: DeleteObject_def lock_defs statBucketDir_reserved[OF assms] split: option.splits)

lemma ListObjects_reserved:
  assumes "bucket = [] \<or> bucket = ''.'' \<or> bucket = ''..''"
    and "marker = [] \<or> hasPrefix marker pre"
  shows "\<exists>e. ListObjects fs env s bucket pre marker delimiter maxKeys
              = ((emptyListObjectsInfo, Some e), s)
           \<and> (checkListObjsArgs env s bucket pre marker delimiter = None \<longrightarrow> e = errVolumeNotFound)"
  using assms(2)
  by (auto simp: ListObjects_def statBucketDir_reserved[OF assms(1)] split: option.splits)

text \<open>
  Claim C9, as the code has it. Let the bucket name be empty, \<open>.\<close> or \<open>..\<close>. Then
  \<^verbatim>\<open>getBucketDir\<close> returns \<^verbatim>\<open>errVolumeNotFound\<close> and \<^verbatim>\<open>statBucketDir\<close> passes it on without a
  stat; and \<^verbatim>\<open>MakeBucketWithLocation\<close>, \<^verbatim>\<open>GetBucketInfo\<close>, \<^verbatim>\<open>DeleteBucket\<close>, \<^verbatim>\<open>PutObject\<close>,
  \<^verbatim>\<open>DeleteObject\<close>, \<^verbatim>\<open>GetObjectInfo\<close> (when the argument check does not itself report a
  corrupted or empty sidecar), \<^verbatim>\<open>GetObject\<close> for an object that is not marked compressed,
  and \<^verbatim>\<open>ListObjects\<close> with a marker that is empty or starts with the prefix, all fail
  without applying a file-system primitive to any path: files, directories and walker
  pool are unchanged and the trace gains lock events only. When the lock is acquired,
  \<^verbatim>\<open>MakeBucketWithLocation\<close> rejects the name as invalid (\<^verbatim>\<open>BucketNameInvalid\<close>: the name is
  shorter than three characters) before it resolves the directory; the error of the
  other operations is the volume-not-found error (\<^verbatim>\<open>BucketNotFound\<close> through
  \<^verbatim>\<open>toObjectErr\<close>; \<^verbatim>\<open>errVolumeNotFound\<close> itself from \<^verbatim>\<open>ListObjects\<close>) whenever the lock was
  acquired and the argument check passed.
\<close>

theorem reserved_bucket_names_rejected:
  assumes "bucket = [] \<or> bucket = ''.'' \<or> bucket = ''..''"
  shows "getBucketDir fs bucket = Inl errVolumeNotFound
    \<and> statBucketDir fs env s bucket = (Inl errVolumeNotFound, s)
    \<and> (\<exists>e. fst (MakeBucketWithLocation fs env s bucket location) = Some e
           \<and> untouched s (snd (MakeBucketWithLocation fs env s bucket location))
           \<and> (\<not> lockTimesOut env (now s) WriteLock bucket []
                \<longrightarrow> e = BucketNameInvalid bucket))
    \<and> (\<exists>e. fst (GetBucketInfo fs env s bucket) = Inl e
           \<and> untouched s (snd (GetBucketInfo fs env s bucket))
           \<and> (\<not> lockTimesOut env (now s) ReadLock bucket [] \<longrightarrow> e = BucketNotFound bucket))
    \<and> (\<exists>e. fst (DeleteBucket fs env s bucket) = Some e
           \<and> untouched s (snd (DeleteBucket fs env s bucket))
           \<and> (\<not> lockTimesOut env (now s) WriteLock bucket [] \<longrightarrow> e = BucketNotFound bucket))
    \<and> (\<exists>e. fst (PutObject fs env s bucket object data metadata) = Inl e
           \<and> untouched s (snd (PutObject fs env s bucket object data metadata))
           \<and> (checkPutObjectArgs env s bucket object (hrSize data) = None
               \<and> \<not> lockTimesOut env (now s) WriteLock bucket object \<longrightarrow> e = BucketNotFound bucket))
    \<and> (\<exists>e. fst (DeleteObject fs env s bucket object) = Some e
           \<and> untouched s (snd (DeleteObject fs env s bucket object))
           \<and> (checkDelObjArgs env bucket object = None
               \<and> \<not> lockTimesOut env (now s) WriteLock bucket object \<longrightarrow> e = BucketNotFound bucket))
    \<and> (checkGetObjArgs env bucket object \<noteq> Some errCorruptedFormat
         \<and> checkGetObjArgs env bucket object \<noteq> Some ioEOF \<longrightarrow>
        (\<exists>e. fst (GetObjectInfo fs env s bucket object) = Inl e
           \<and> untouched s (snd (GetObjectInfo fs env s bucket object))
           \<and> (checkGetObjArgs env bucket object = None
               \<and> \<not> lockTimesOut env (now s) ReadLock bucket object \<longrightarrow> e = BucketNotFound bucket)))
    \<and> (\<not> isCompressed env (oiUserDefined objInfo) \<longrightarrow>
        (\<exists>e. fst (fst (GetObject fs env s bucket object offset len hasWriter etag objInfo)) = Some e
           \<and> untouched s (snd (GetObject fs env s bucket object offset len hasWriter etag objInfo))
           \<and> (checkGetObjArgs env bucket object = None
               \<and> \<not> lockTimesOut env (now s) ReadLock bucket object \<longrightarrow> e = BucketNotFound bucket)))
    \<and> (marker = [] \<or> hasPrefix marker pre \<longrightarrow>
        (\<exists>e. ListObjects fs env s bucket pre marker delimiter maxKeys
                = ((emptyListObjectsInfo, Some e), s)
           \<and> (checkListObjsArgs env s bucket pre marker delimiter = None
                \<longrightarrow> e = errVolumeNotFound)))"
proof (intro conjI impI)
  show "getBucketDir fs bucket = Inl errVolumeNotFound"
    using assms by (rule getBucketDir_reserved)
  show "statBucketDir fs env s bucket = (Inl errVolumeNotFound, s)"
    using assms by (rule statBucketDir_reserved)
  show "\<exists>e. fst (MakeBucketWithLocation fs env s bucket location) = Some e
           \<and> untouched s (snd (MakeBucketWithLocation fs env s bucket location))
           \<and> (\<not> lockTimesOut env (now s) WriteLock bucket []
                \<longrightarrow> e = BucketNameInvalid bucket)"
    using assms by (rule MakeBucketWithLocation_reserved)
  show "\<exists>e. fst (GetBucketInfo fs env s bucket) = Inl e
           \<and> untouched s (snd (GetBucketInfo fs env s bucket))
           \<and> (\<not> lockTimesOut env (now s) ReadLock bucket [] \<longrightarrow> e = BucketNotFound bucket)"
    using assms by (rule GetBucketInfo_reserved)
  show "\<exists>e. fst (DeleteBucket fs env s bucket) = Some e
           \<and> untouched s (snd (DeleteBucket fs env s bucket))
           \<and> (\<not> lockTimesOut env (now s) WriteLock bucket [] \<longrightarrow> e = BucketNotFound bucket)"
    using assms by (rule DeleteBucket_reserved)
  show "\<exists>e. fst (PutObject fs env s bucket object data metadata) = Inl e
           \<and> untouched s (snd (PutObject fs env s bucket object data metadata))
           \<and> (checkPutObjectArgs env s bucket object (hrSize data) = None
               \<and> \<not> lockTimesOut env (now s) WriteLock bucket object \<longrightarrow> e = BucketNotFound bucket)"
    using assms by (rule PutObject_reserved)
  show "\<exists>e. fst (DeleteObject fs env s bucket object) = Some e
           \<and> untouched s (snd (DeleteObject fs env s bucket object))
           \<and> (checkDelObjArgs env bucket object = None
               \<and> \<not> lockTimesOut env (now s) WriteLock bucket object \<longrightarrow> e = BucketNotFound bucket)"
    using assms by (rule DeleteObject_reserved)
next
  assume "checkGetObjArgs env bucket object \<noteq> Some errCorruptedFormat
         \<and> checkGetObjArgs env bucket object \<noteq> Some ioEOF"
  then show "\<exists>e. fst (GetObjectInfo fs env s bucket object) = Inl e
           \<and> untouched s (snd (GetObjectInfo fs env s bucket object))
           \<and> (checkGetObjArgs env bucket object = None
               \<and> \<not> lockTimesOut env (now s) ReadLock bucket object \<longrightarrow> e = BucketNotFound bucket)"
    using GetObjectInfo_reserved[OF assms] by blast
next
  assume "\<not> isCompressed env (oiUserDefined objInfo)"
  from GetObject_reserved[OF assms this]
  show "\<exists>e. fst (fst (GetObject fs env s bucket object offset len hasWriter etag objInfo)) = Some e
           \<and> untouched s (snd (GetObject fs env s bucket object offset len hasWriter etag objInfo))
           \<and> (checkGetObjArgs env bucket object = None
               \<and> \<not> lockTimesOut env (now s) ReadLock bucket object \<longrightarrow> e = BucketNotFound bucket)"
    by blast
next
  assume "marker = [] \<or> hasPrefix marker pre"
  from ListObjects_reserved[OF assms this]
  show "\<exists>e. ListObjects fs env s bucket pre marker delimiter maxKeys
                = ((emptyListObjectsInfo, Some e), s)
           \<and> (checkListObjsArgs env s bucket pre marker delimiter = None
                \<longrightarrow> e = errVolumeNotFound)"
    by blast
qed

theorem reserved_bucket_names_rejected_witness:
  "fst (MakeBucketWithLocation exFS quietEnv (exState []) ''..'' []) = Some (BucketNameInvalid ''..'')
   \<and> fst (GetBucketInfo exFS quietEnv (exState []) ''..'') = Inl (BucketNotFound ''..'')
   \<and> fst (DeleteBucket exFS quietEnv (exState []) ''..'') = Some (BucketNotFound ''..'')
   \<and> fst (PutObject exFS quietEnv (exState []) ''..'' ''k'' exData None) = Inl (BucketNotFound ''..'')
   \<and> fst (DeleteObject exFS quietEnv (exState []) ''..'' ''k'') = Some (BucketNotFound ''..'')
   \<and> fst (GetObjectInfo exFS quietEnv (exState []) ''..'' ''k'') = Inl (BucketNotFound ''..'')
   \<and> fst (fst (GetObject exFS quietEnv (exState []) ''..'' ''k'' 0 (- 1) True [] emptyObjectInfo))
       = Some (BucketNotFound ''..'')
   \<and> ListObjects exFS quietEnv (exState []) ''..'' [] [] [] 10
       = ((emptyListObjectsInfo, Some errVolumeNotFound), exState [])
   \<and> untouched (exState []) (snd (PutObject exFS quietEnv (exState []) ''..'' ''k'' exData None))"
  using reserved_bucket_names_rejected
          [where bucket = "''..''" and fs = exFS and env = quietEnv and s = "exState []"
             and location = "[]" and object = "''k''" and data = exData and metadata = None
             and objInfo = emptyObjectInfo and offset = 0 and len = "- 1" and hasWriter = True
             and etag = "[]" and marker = "[]" and pre = "[]" and delimiter = "[]"
             and maxKeys = 10]
  by (auto simp: quietEnv_def emptyObjectInfo_def)

text \<open>
  Claim C9 as stated covers every call of the operations it lists, and names the error.
  \<^verbatim>\<open>MakeBucketWithLocation\<close> rejects the name \<open>..\<close> as an invalid bucket name, not with the
  volume-not-found error. With the bucket name empty, a listing whose marker lies
  outside the prefix returns the empty result and a nil error, before \<^verbatim>\<open>statBucketDir\<close> is
  reached. And \<^verbatim>\<open>GetObject\<close> for an object marked compressed, with the bucket name \<open>..\<close>,
  reads the object's metadata first: it opens a sidecar path and stats \<open>/k\<close>, outside the
  export, and reports a missing file.
\<close>

theorem reserved_bucket_names_counterexample:
  "fst (MakeBucketWithLocation exFS quietEnv (exState []) ''..'' [])
     = Some (BucketNameInvalid ''..'')
   \<and> ListObjects exFS quietEnv (exState []) [] ''photos/'' ''docs/a'' ''/'' 10
     = ((emptyListObjectsInfo, None), exState [])
   \<and> fst (GetObject exFS (quietEnv \<lparr> isCompressed := (\<lambda>m. True) \<rparr>) (exState []) ''..'' ''k'' 0 (- 1)
            True [] emptyObjectInfo)
     = (Some errFileNotFound, [])
   \<and> fsTrace (snd (GetObject exFS (quietEnv \<lparr> isCompressed := (\<lambda>m. True) \<rparr>) (exState []) ''..''
                     ''k'' 0 (- 1) True [] emptyObjectInfo))
     = [EvRLock ''..'' ''k'', EvFs PoolOpen ''/export/.minio.sys/k/fs.json'',
        EvFs StatFile ''/k'', EvRUnlock ''..'' ''k'']"
  by (simp add: MakeBucketWithLocation_def IsValidBucketName_def ListObjects_def GetObject_def
      getObjectInfo_def defaultFsJSON_def withContentType_def pathExt_def newFSMetaV1_def
      path_eval prim_eval ex_eval)

section \<open>Lock events of the calls\<close>

text \<open>The file-system primitives, and the functions that take no namespace lock, leave the
  lock events of the trace as they are.\<close>

lemma locks_logEv [simp]:
  "locks (logEv (EvFs p x) s) = locks s"
  "locks (logEv (EvLock b ob) s) = locks s @ [EvLock b ob]"
  "locks (logEv (EvRLock b ob) s) = locks s @ [EvRLock b ob]"
  "locks (logEv (EvUnlock b ob) s) = locks s @ [EvUnlock b ob]"
  "locks (logEv (EvRUnlock b ob) s) = locks s @ [EvRUnlock b ob]"
  by (simp_all add: locks_def logEv_def)

lemma locks_upd [simp]:
  "locks (s \<lparr> fsFiles := fl \<rparr>) = locks s"
  "locks (s \<lparr> fsDirs := ds \<rparr>) = locks s"
  "locks (s \<lparr> fsListPool := lp \<rparr>) = locks s"
  "locks (putFile q c s) = locks s"
  "locks (dropFile q s) = locks s"
  "locks (addDirs qs s) = locks s"
  by (simp_all add: locks_def putFile_def dropFile_def addDirs_def)

lemma locks_simple [simp]:
  "locks (fsRemoveFile s p) = locks s"
  "locks (fsRemoveMeta s b p t) = locks s"
  "locks (rwPoolClose s p) = locks s"
  by (simp_all add: fsRemoveFile_def fsRemoveMeta_def rwPoolClose_def)

lemma prims_locks:
  "fsStatVolume env s p = (r1, s') \<Longrightarrow> locks s' = locks s"
  "fsMkdir env s p = (r2, s') \<Longrightarrow> locks s' = locks s"
  "mkdirAll env s p = (r3, s') \<Longrightarrow> locks s' = locks s"
  "fsStatDir env s p = (r4, s') \<Longrightarrow> locks s' = locks s"
  "fsStatFile env s p = (r5, s') \<Longrightarrow> locks s' = locks s"
  "fsIsDir env s p = (r6, s') \<Longrightarrow> locks s' = locks s"
  "fsIsFile env s p = (r7, s') \<Longrightarrow> locks s' = locks s"
  "readDirN env s p n = (r8, s') \<Longrightarrow> locks s' = locks s"
  "rwPoolCreate env s p = (r9, s') \<Longrightarrow> locks s' = locks s"
  "rwPoolWrite env s p = (r10, s') \<Longrightarrow> locks s' = locks s"
  "rwPoolOpen env s p = (r11, s') \<Longrightarrow> locks s' = locks s"
  "ReadFrom env s m p = (r12, s') \<Longrightarrow> locks s' = locks s"
  "WriteTo env s m p = (r13, s') \<Longrightarrow> locks s' = locks s"
  "fsCreateFile env s p rd n' = (r14, s') \<Longrightarrow> locks s' = locks s"
  "fsRenameFile env s p q = (r15, s') \<Longrightarrow> locks s' = locks s"
  "fsDeleteFile env s p q = (r16, s') \<Longrightarrow> locks s' = locks s"
  "fsOpenFile env s p off = (r17, s') \<Longrightarrow> locks s' = locks s"
  by (auto simp: fsStatVolume_def fsMkdir_def mkdirAll_def fsStatDir_def fsStatFile_def
      fsIsDir_def fsIsFile_def readDirN_def rwPoolCreate_def rwPoolWrite_def rwPoolOpen_def
      ReadFrom_def WriteTo_def fsCreateFile_def fsRenameFile_def fsDeleteFile_def fsOpenFile_def
      Let_def split: option.splits if_splits fcontent.splits)

lemma statBucketDir_locks:
  "statBucketDir fs env s bucket = (r, s') \<Longrightarrow> locks s' = locks s"
  by (auto simp: statBucketDir_def split: sum.splits prod.splits dest: prims_locks)

lemma isParentDirObject_locks:
  "isParentDirObject fs env bucket s p = (r, s') \<Longrightarrow> locks s' = locks s"
proof (induction fs env bucket s p arbitrary: r s' rule: isParentDirObject.induct)
  case (1 fs env bucket s p)
  show ?case
  proof (cases "p = ''.'' \<or> p = ''/''")
    case True
    with 1 show ?thesis by (simp add: isParentDirObject.simps)
  next
    case False
    obtain isf s1 where f: "fsIsFile env s (pathJoin [fsPath fs, bucket, p]) = (isf, s1)"
      by (cases "fsIsFile env s (pathJoin [fsPath fs, bucket, p])") auto
    from prims_locks(7)[OF f] have s1: "locks s1 = locks s" .
    show ?thesis
    proof (cases isf)
      case True
      with "1.prems" False f s1 show ?thesis
        by (simp add: isParentDirObject.simps[of fs env bucket s p])
    next
      case isf: False
      with "1.prems" False f have "isParentDirObject fs env bucket s1 (pathDir p) = (r, s')"
        by (simp add: isParentDirObject.simps[of fs env bucket s p])
      from "1.IH"[OF False refl f[symmetric] isf this] s1 show ?thesis by simp
    qed
  qed
qed

lemma parentDirIsObject_locks:
  "parentDirIsObject fs env s bucket p = (r, s') \<Longrightarrow> locks s' = locks s"
  by (simp add: parentDirIsObject_def isParentDirObject_locks)

lemmas step_locks = prims_locks statBucketDir_locks parentDirIsObject_locks

lemma putObjectDir_locks:
  "putObjectDir fs env s bucket object fsMeta = (r, s') \<Longrightarrow> locks s' = locks s"
  by (auto simp: putObjectDir_def split: prod.splits sum.splits option.splits bool.splits
      dest!: step_locks)

lemma putObjectCommit_locks:
  "putObjectCommit fs env s bucket object fsMeta wlk tmp = (r, s') \<Longrightarrow> locks s' = locks s"
  by (auto simp: putObjectCommit_def Let_def
      split: prod.splits sum.splits option.splits bool.splits if_splits dest!: step_locks)

lemma putObjectBody_locks:
  "putObjectBody fs env s bucket object data fsMeta wlk = (r, s') \<Longrightarrow> locks s' = locks s"
  by (auto simp: putObjectBody_def Let_def
      split: prod.splits sum.splits option.splits bool.splits if_splits
      dest!: step_locks putObjectCommit_locks)

lemma putObject_locks:
  "putObject fs env s bucket object data metadata = (r, s') \<Longrightarrow> locks s' = locks s"
  by (auto simp: putObject_def Let_def
      split: prod.splits sum.splits option.splits bool.splits if_splits
      dest!: step_locks putObjectDir_locks putObjectBody_locks)

lemma getObjectETag_locks:
  "getObjectETag fs env s bucket entry lock = (r, s') \<Longrightarrow> locks s' = locks s"
  by (auto simp: getObjectETag_def Let_def
      split: prod.splits sum.splits option.splits bool.splits if_splits dest!: step_locks)

lemma getObjectData_locks:
  "getObjectData fs env s bucket object offset len etag lock = (r, s') \<Longrightarrow> locks s' = locks s"
  by (auto simp: getObjectData_def Let_def
      split: prod.splits sum.splits option.splits bool.splits if_splits
      dest!: step_locks getObjectETag_locks)

lemma getObject_locks:
  "getObject fs env s bucket object offset len hasWriter etag lock = (r, s')
   \<Longrightarrow> locks s' = locks s"
  by (auto simp: getObject_def Let_def
      split: prod.splits sum.splits option.splits bool.splits if_splits
      dest!: step_locks getObjectData_locks)

lemma copyMetadataOnly_locks:
  "copyMetadataOnly fs env s srcBucket srcObject srcInfo = (r, s') \<Longrightarrow> locks s' = locks s"
  by (auto simp: copyMetadataOnly_def Let_def
      split: prod.splits sum.splits option.splits bool.splits if_splits dest!: step_locks)

lemma copyData_locks:
  "copyData fs env s srcBucket srcObject dstBucket dstObject srcInfo hasWriter same = (r, s')
   \<Longrightarrow> locks s' = locks s"
  by (auto simp: copyData_def Let_def
      split: prod.splits sum.splits option.splits bool.splits if_splits
      dest!: getObject_locks putObject_locks)

section \<open>Theorems: CopyObject\<close>

lemma now_logEv [simp]: "now (logEv e s) = Suc (now s)"
  by (simp add: now_def logEv_def)

lemma getObject_locks_snd:
  "locks (snd (getObject fs env s bucket object offset len hasWriter etag lock)) = locks s"
  using getObject_locks[of fs env s bucket object offset len hasWriter etag lock]
  by (cases "getObject fs env s bucket object offset len hasWriter etag lock") simp

lemma locks_copyUnlock [simp]:
  "locks (copyUnlock same srcBucket srcObject dstBucket dstObject s)
     = locks s @ (if same then [] else [EvRUnlock srcBucket srcObject])
         @ [EvUnlock dstBucket dstObject]"
  by (simp add: copyUnlock_def Unlock_def RUnlock_def)

text \<open>The lock events of a copy between two different objects. With a nil writer and
  the source bucket there, the call ends in the goroutine and releases nothing.\<close>

lemma CopyObject_locks:
  assumes "pathJoin [srcBucket, srcObject] \<noteq> pathJoin [dstBucket, dstObject]"
  shows "locks (snd (CopyObject fs env s srcBucket srcObject dstBucket dstObject srcInfo hasWriter))
     = locks s @
        (if lockTimesOut env (now s) WriteLock dstBucket dstObject then []
         else if lockTimesOut env (Suc (now s)) ReadLock srcBucket srcObject
           then [EvLock dstBucket dstObject, EvUnlock dstBucket dstObject]
         else [EvLock dstBucket dstObject, EvRLock srcBucket srcObject]
              @ (if \<not> hasWriter
                    \<and> \<not> isErr (fst (statBucketDir fs env
                                       (logEv (EvRLock srcBucket srcObject)
                                          (logEv (EvLock dstBucket dstObject) s)) srcBucket))
                 then []
                 else [EvRUnlock srcBucket srcObject, EvUnlock dstBucket dstObject]))"
  using assms
  by (auto simp: CopyObject_def lock_defs Let_def isErr_def getObject_locks_snd
      split: prod.splits sum.splits if_splits
      dest!: statBucketDir_locks copyMetadataOnly_locks copyData_locks)

lemma CopyObject_timeout:
  "lockTimesOut env (now s) WriteLock dstBucket dstObject \<Longrightarrow>
   CopyObject fs env s srcBucket srcObject dstBucket dstObject srcInfo hasWriter
     = (Inl OperationTimedOut, s)"
  by (simp add: CopyObject_def lock_defs)

lemma CopyObject_acquisitions:
  assumes "pathJoin [srcBucket, srcObject] \<noteq> pathJoin [dstBucket, dstObject]"
  shows "acquisitions (drop (length (locks s))
           (locks (snd (CopyObject fs env s srcBucket srcObject dstBucket dstObject srcInfo
                          hasWriter))))
     = (if lockTimesOut env (now s) WriteLock dstBucket dstObject then []
        else if lockTimesOut env (Suc (now s)) ReadLock srcBucket srcObject
          then [(dstBucket, dstObject)]
        else [(dstBucket, dstObject), (srcBucket, srcObject)])"
  by (simp add: CopyObject_locks[OF assms] acquisitions_def)

text \<open>
  Claim C3, as the code has it. When the source and the destination of a copy differ
  (as joined paths, the test of the code), the locks that the call acquires are, in
  order: the write lock of the destination, then the read lock of the source. If the
  destination lock times out nothing is acquired, and if the source lock times out only
  the destination lock is. With a writer that is not nil, the lock events of the call
  are these acquisitions and then the releases in the opposite order. The order is by
  role, the destination first, and not by key: of two copies with swapped endpoints,
  none of whose locks times out, one acquires the two keys in the order in which the
  other acquires them reversed.
\<close>

theorem CopyObject_lock_order:
  assumes "pathJoin [srcBucket, srcObject] \<noteq> pathJoin [dstBucket, dstObject]"
  shows "acquisitions (drop (length (locks s))
           (locks (snd (CopyObject fs env s srcBucket srcObject dstBucket dstObject srcInfo
                          hasWriter))))
       = (if lockTimesOut env (now s) WriteLock dstBucket dstObject then []
          else if lockTimesOut env (Suc (now s)) ReadLock srcBucket srcObject
            then [(dstBucket, dstObject)]
          else [(dstBucket, dstObject), (srcBucket, srcObject)])
     \<and> (hasWriter \<longrightarrow>
          locks (snd (CopyObject fs env s srcBucket srcObject dstBucket dstObject srcInfo
                        hasWriter))
            = locks s @
               (if lockTimesOut env (now s) WriteLock dstBucket dstObject then []
                else if lockTimesOut env (Suc (now s)) ReadLock srcBucket srcObject
                  then [EvLock dstBucket dstObject, EvUnlock dstBucket dstObject]
                else [EvLock dstBucket dstObject, EvRLock srcBucket srcObject,
                      EvRUnlock srcBucket srcObject, EvUnlock dstBucket dstObject]))
     \<and> (\<not> lockTimesOut env (now s) WriteLock dstBucket dstObject
        \<and> \<not> lockTimesOut env (Suc (now s)) ReadLock srcBucket srcObject
        \<and> \<not> lockTimesOut env (now t) WriteLock srcBucket srcObject
        \<and> \<not> lockTimesOut env (Suc (now t)) ReadLock dstBucket dstObject \<longrightarrow>
          acquisitions (drop (length (locks t))
            (locks (snd (CopyObject fs env t dstBucket dstObject srcBucket srcObject dstInfo
                           hasWriter'))))
          = rev (acquisitions (drop (length (locks s))
              (locks (snd (CopyObject fs env s srcBucket srcObject dstBucket dstObject srcInfo
                             hasWriter))))))"
proof -
  from assms have sw: "pathJoin [dstBucket, dstObject] \<noteq> pathJoin [srcBucket, srcObject]"
    by simp
  note a = CopyObject_acquisitions[OF assms] and b = CopyObject_acquisitions[OF sw]
  show ?thesis
  proof (intro conjI impI)
    assume hasWriter
    then show "locks (snd (CopyObject fs env s srcBucket srcObject dstBucket dstObject srcInfo
                        hasWriter))
            = locks s @
               (if lockTimesOut env (now s) WriteLock dstBucket dstObject then []
                else if lockTimesOut env (Suc (now s)) ReadLock srcBucket srcObject
                  then [EvLock dstBucket dstObject, EvUnlock dstBucket dstObject]
                else [EvLock dstBucket dstObject, EvRLock srcBucket srcObject,
                      EvRUnlock srcBucket srcObject, EvUnlock dstBucket dstObject])"
      by (simp add: CopyObject_locks[OF assms])
  qed (simp_all add: a b)
qed

lemmas copy_eval = path_eval ex_eval locks_def acquisitions_def

theorem CopyObject_lock_order_witness:
  "acquisitions (drop (length (locks (exState [])))
     (locks (snd (CopyObject exFS quietEnv (exState []) ''b'' ''x'' ''b'' ''y'' emptyObjectInfo
                    True))))
     = [(''b'', ''y''), (''b'', ''x'')]
   \<and> locks (snd (CopyObject exFS quietEnv (exState []) ''b'' ''x'' ''b'' ''y'' emptyObjectInfo
                   True))
     = [EvLock ''b'' ''y'', EvRLock ''b'' ''x'', EvRUnlock ''b'' ''x'', EvUnlock ''b'' ''y'']
   \<and> acquisitions (drop (length (locks (exState [])))
       (locks (snd (CopyObject exFS quietEnv (exState []) ''b'' ''y'' ''b'' ''x''
                      emptyObjectInfo True))))
     = [(''b'', ''x''), (''b'', ''y'')]"
  using CopyObject_lock_order
          [where srcBucket = "''b''" and srcObject = "''x''" and dstBucket = "''b''"
             and dstObject = "''y''" and fs = exFS and env = quietEnv and s = "exState []"
             and t = "exState []" and srcInfo = emptyObjectInfo and dstInfo = emptyObjectInfo
             and hasWriter = True and hasWriter' = True]
  by (simp add: copy_eval)

text \<open>
  Claim C3 as stated concludes that the acquisitions of any two copies follow a single
  total order on keys. Two copies with swapped endpoints acquire the same two keys in
  opposite orders.
\<close>

theorem CopyObject_swapped_endpoints_counterexample:
  "acquisitions (locks (snd (CopyObject exFS quietEnv (exState []) ''b'' ''x'' ''b'' ''y''
                              emptyObjectInfo True)))
     = [(''b'', ''y''), (''b'', ''x'')]
   \<and> acquisitions (locks (snd (CopyObject exFS quietEnv (exState []) ''b'' ''y'' ''b'' ''x''
                                emptyObjectInfo True)))
     = [(''b'', ''x''), (''b'', ''y'')]"
  using CopyObject_locks
          [where srcBucket = "''b''" and srcObject = "''x''" and dstBucket = "''b''"
             and dstObject = "''y''" and fs = exFS and env = quietEnv and s = "exState []"
             and srcInfo = emptyObjectInfo and hasWriter = True]
        CopyObject_locks
          [where srcBucket = "''b''" and srcObject = "''y''" and dstBucket = "''b''"
             and dstObject = "''x''" and fs = exFS and env = quietEnv and s = "exState []"
             and srcInfo = emptyObjectInfo and hasWriter = True]
  by (simp add: copy_eval)

lemma fileAt_logEv [simp]: "fileAt (logEv e s) p = fileAt s p"
  by (simp add: fileAt_def logEv_def)

lemma fileAt_putFile [simp]: "fileAt (putFile q c s) p = (if p = q then Some c else fileAt s p)"
  by (simp add: fileAt_def putFile_def update_conv')

lemma fileAt_dropFile [simp]: "fileAt (dropFile q s) p = (if p = q then None else fileAt s p)"
  by (simp add: fileAt_def dropFile_def delete_conv')

lemma fileAt_addDirs [simp]: "fileAt (addDirs ds s) p = fileAt s p"
  by (simp add: fileAt_def addDirs_def)

lemma fsDirs_simps [simp]:
  "fsDirs (logEv e s) = fsDirs s"
  "fsDirs (putFile q c s) = fsDirs s"
  "fsDirs (dropFile q s) = fsDirs s"
  by (simp_all add: logEv_def putFile_def dropFile_def)

lemma fsTrace_simps [simp]:
  "fsTrace (logEv e s) = fsTrace s @ [e]"
  "fsTrace (putFile q c s) = fsTrace s"
  "fsTrace (dropFile q s) = fsTrace s"
  "fsTrace (addDirs ds s) = fsTrace s"
  by (simp_all add: logEv_def putFile_def dropFile_def addDirs_def)

lemma mapIndex_update [simp]: "mapIndex (Some (AList.update k v al)) k = v"
  by (simp add: mapIndex_def mapGet_def update_conv')

lemma mapGet_update_other:
  "k' \<noteq> k \<Longrightarrow> mapGet (Some (AList.update k v al)) k' = mapGet (Some al) k'"
  by (simp add: mapGet_def update_conv')

lemma copyMetadataOnly_success:
  assumes "copyMetadataOnly fs env s srcBucket srcObject srcInfo = (Inr oi, s')"
  shows "\<exists>ud d. oiUserDefined srcInfo = Some ud
     \<and> fileAt s (sidecarPath fs srcBucket srcObject) = Some (FsJSON d)
     \<and> fileAt s' (sidecarPath fs srcBucket srcObject)
         = Some (FsJSON \<lparr> fmVersion = fmVersion d, fmFormat = ''fs'',
                          fmMeta = Some (AList.update ''etag'' (oiETag srcInfo) ud),
                          fmParts = fmParts d \<rparr>)
     \<and> (\<forall>p. p \<noteq> sidecarPath fs srcBucket srcObject \<longrightarrow> fileAt s' p = fileAt s p)
     \<and> fsDirs s' = fsDirs s
     \<and> fsTrace s' = fsTrace s @
          [EvFs PoolWrite (sidecarPath fs srcBucket srcObject),
           EvFs MetaRead (sidecarPath fs srcBucket srcObject),
           EvFs MetaWrite (sidecarPath fs srcBucket srcObject),
           EvFs StatFile (dataPath fs srcBucket srcObject),
           EvFs PoolClose (sidecarPath fs srcBucket srcObject)]
     \<and> oiETag oi = oiETag srcInfo"
  using assms
  by (auto simp: copyMetadataOnly_def sidecarPath_def dataPath_def Let_def rwPoolWrite_def
      ReadFrom_def WriteTo_def fsStatFile_def rwPoolClose_def mapSet_def ToObjectInfo_def
      newFSMetaV1_def mapGet_def update_conv'
      split: prod.splits sum.splits option.splits if_splits fcontent.splits)


lemma statBucketDir_Inr:
  "statBucketDir fs env s bucket = (Inr st, s1) \<Longrightarrow>
   s1 = logEv (EvFs StatVolume (pathJoin [fsPath fs, bucket])) s"
  by (auto simp: statBucketDir_def getBucketDir_def fsStatVolume_def Let_def
      split: if_splits option.splits)

text \<open>
  Claim C2, as the code has it. Let a copy of an object onto itself with \<^verbatim>\<open>metadataOnly\<close>
  set succeed. Then the caller's user metadata is an allocated map and the sidecar was
  there and valid; afterwards the sidecar holds the caller's user metadata with the
  entry \<open>etag\<close> set to \<^verbatim>\<open>srcInfo.ETag\<close>, and the version and parts it had; every other
  file, the data file among them, and every directory is as before; the only primitive
  applied to the data file is a stat; and the etag returned is \<^verbatim>\<open>srcInfo.ETag\<close>. The
  etag that was stored is therefore kept exactly when the caller passes it in
  \<^verbatim>\<open>srcInfo.ETag\<close>.
\<close>

theorem CopyObject_metadataOnly:
  assumes "pathJoin [srcBucket, srcObject] = pathJoin [dstBucket, dstObject]"
    and "metadataOnly srcInfo"
    and "CopyObject fs env s srcBucket srcObject dstBucket dstObject srcInfo hasWriter = (Inr oi, s')"
  shows "\<exists>ud d. oiUserDefined srcInfo = Some ud
     \<and> fileAt s (sidecarPath fs srcBucket srcObject) = Some (FsJSON d)
     \<and> fileAt s' (sidecarPath fs srcBucket srcObject)
         = Some (FsJSON \<lparr> fmVersion = fmVersion d, fmFormat = ''fs'',
                          fmMeta = Some (AList.update ''etag'' (oiETag srcInfo) ud),
                          fmParts = fmParts d \<rparr>)
     \<and> (\<forall>p. p \<noteq> sidecarPath fs srcBucket srcObject \<longrightarrow> fileAt s' p = fileAt s p)
     \<and> fsDirs s' = fsDirs s
     \<and> fsTrace s' = fsTrace s @
          [EvLock dstBucket dstObject,
           EvFs StatVolume (pathJoin [fsPath fs, srcBucket]),
           EvFs PoolWrite (sidecarPath fs srcBucket srcObject),
           EvFs MetaRead (sidecarPath fs srcBucket srcObject),
           EvFs MetaWrite (sidecarPath fs srcBucket srcObject),
           EvFs StatFile (dataPath fs srcBucket srcObject),
           EvFs PoolClose (sidecarPath fs srcBucket srcObject),
           EvUnlock dstBucket dstObject]
     \<and> oiETag oi = oiETag srcInfo"
proof -
  from assms obtain s1 st s3 s4 where
    l: "GetLock env s dstBucket dstObject = Inr s1"
    and b: "statBucketDir fs env s1 srcBucket = (Inr st, s3)"
    and c: "copyMetadataOnly fs env s3 srcBucket srcObject srcInfo = (Inr oi, s4)"
    and e: "s' = Unlock s4 dstBucket dstObject"
    by (auto simp: CopyObject_def copyUnlock_def Let_def
        split: sum.splits prod.splits if_splits)
  from l have s1: "s1 = logEv (EvLock dstBucket dstObject) s"
    by (auto simp: GetLock_def split: if_splits)
  from statBucketDir_Inr[OF b] have s3: "s3 = logEv (EvFs StatVolume (pathJoin [fsPath fs, srcBucket])) s1" .
  from copyMetadataOnly_success[OF c] show ?thesis
    by (simp add: e s3 s1 Unlock_def)
qed


lemmas obj_eval = exSidecarDoc_def exObjectFiles_def exSrcInfo_def emptyObjectInfo_def
  newFSMetaV1_def fsMetaVersion_def isFSMetaValid_def mapSet_def mapEntries_def mapIndex_def
  mapGet_def ToObjectInfo_def fileInfo_def contentBytes_def dirInfo_def sidecarPath_def
  dataPath_def

lemma exCopy:
  "CopyObject exFS quietEnv (exState (exObjectFiles (FsJSON (exSidecarDoc ''aaa'')))) ''b''
     ''hello.txt'' ''b'' ''hello.txt'' (exSrcInfo etag) True
   = (Inr (emptyObjectInfo \<lparr> oiBucket := ''b'', oiName := ''hello.txt'', oiSize := 3,
             oiETag := etag, oiContentType := ''application/octet-stream'',
             oiUserDefined := Some [(''x-amz-meta-foo'', ''bar'')] \<rparr>),
      \<lparr> fsFiles = exObjectFiles (FsJSON (newFSMetaV1
                    \<lparr> fmMeta := Some [(''x-amz-meta-foo'', ''bar''), (''etag'', etag)] \<rparr>)),
        fsDirs = [''/export'', ''/export/b''], fsListPool = [],
        fsTrace = [EvLock ''b'' ''hello.txt'', EvFs StatVolume ''/export/b'',
          EvFs PoolWrite ''/export/.minio.sys/buckets/b/hello.txt/fs.json'',
          EvFs MetaRead ''/export/.minio.sys/buckets/b/hello.txt/fs.json'',
          EvFs MetaWrite ''/export/.minio.sys/buckets/b/hello.txt/fs.json'',
          EvFs StatFile ''/export/b/hello.txt'',
          EvFs PoolClose ''/export/.minio.sys/buckets/b/hello.txt/fs.json'',
          EvUnlock ''b'' ''hello.txt''] \<rparr>)"
  by (simp add: CopyObject_def copyMetadataOnly_def copyUnlock_def path_eval prim_eval ex_eval
      obj_eval Let_def)

theorem CopyObject_metadataOnly_witness:
  "fileAt (snd (CopyObject exFS quietEnv (exState (exObjectFiles (FsJSON (exSidecarDoc ''aaa''))))
                  ''b'' ''hello.txt'' ''b'' ''hello.txt'' (exSrcInfo ''aaa'') True))
          ''/export/b/hello.txt''
     = Some (Data ''old'')
   \<and> fileAt (snd (CopyObject exFS quietEnv (exState (exObjectFiles (FsJSON (exSidecarDoc ''aaa''))))
                    ''b'' ''hello.txt'' ''b'' ''hello.txt'' (exSrcInfo ''aaa'') True))
            ''/export/.minio.sys/buckets/b/hello.txt/fs.json''
     = Some (FsJSON \<lparr> fmVersion = ''1.0.1'', fmFormat = ''fs'',
                      fmMeta = Some [(''x-amz-meta-foo'', ''bar''), (''etag'', ''aaa'')],
                      fmParts = [] \<rparr>)"
proof -
  have m: "metadataOnly (exSrcInfo ''aaa'')"
    by (simp add: exSrcInfo_def)
  from CopyObject_metadataOnly[OF refl m exCopy[of "''aaa''"]]
  show ?thesis
    unfolding exCopy snd_conv
    by (auto simp: path_eval ex_eval obj_eval fileAt_def)
qed

text \<open>
  Claim C2 as stated says that the stored etag is preserved. With \<open>aaa\<close> stored and a
  call whose \<^verbatim>\<open>srcInfo.ETag\<close> is \<open>bbb\<close>, the sidecar holds \<open>bbb\<close> afterwards.
\<close>

theorem CopyObject_etag_counterexample:
  "mapIndex (fmMeta (exSidecarDoc ''aaa'')) ''etag'' = ''aaa''
   \<and> fileAt (exState (exObjectFiles (FsJSON (exSidecarDoc ''aaa''))))
        ''/export/.minio.sys/buckets/b/hello.txt/fs.json'' = Some (FsJSON (exSidecarDoc ''aaa''))
   \<and> CopyObject exFS quietEnv (exState (exObjectFiles (FsJSON (exSidecarDoc ''aaa'')))) ''b''
        ''hello.txt'' ''b'' ''hello.txt'' (exSrcInfo ''bbb'') True
      = (Inr (emptyObjectInfo \<lparr> oiBucket := ''b'', oiName := ''hello.txt'', oiSize := 3,
                oiETag := ''bbb'', oiContentType := ''application/octet-stream'',
                oiUserDefined := Some [(''x-amz-meta-foo'', ''bar'')] \<rparr>),
         \<lparr> fsFiles = exObjectFiles (FsJSON (newFSMetaV1
                    \<lparr> fmMeta := Some [(''x-amz-meta-foo'', ''bar''), (''etag'', ''bbb'')] \<rparr>)),
           fsDirs = [''/export'', ''/export/b''], fsListPool = [],
           fsTrace = [EvLock ''b'' ''hello.txt'', EvFs StatVolume ''/export/b'',
             EvFs PoolWrite ''/export/.minio.sys/buckets/b/hello.txt/fs.json'',
             EvFs MetaRead ''/export/.minio.sys/buckets/b/hello.txt/fs.json'',
             EvFs MetaWrite ''/export/.minio.sys/buckets/b/hello.txt/fs.json'',
             EvFs StatFile ''/export/b/hello.txt'',
             EvFs PoolClose ''/export/.minio.sys/buckets/b/hello.txt/fs.json'',
             EvUnlock ''b'' ''hello.txt''] \<rparr>)"
  using exCopy[of "''bbb''"]
  by (simp add: ex_eval obj_eval fileAt_def)

section \<open>Theorems: GetObjectInfo\<close>

lemma faultErr_neq [simp]:
  "faultErr f \<noteq> errFileNotFound" "faultErr f \<noteq> errCorruptedFormat" "faultErr f \<noteq> ioEOF"
  "faultErr f \<noteq> errVolumeNotFound"
  by (cases f; simp add: faultErr_def)+

lemma faultAt_neq [simp]:
  "faultAt env s p x \<noteq> Some errFileNotFound"
  "faultAt env s p x \<noteq> Some errCorruptedFormat"
  "faultAt env s p x \<noteq> Some ioEOF"
  by (auto simp: faultAt_def)

lemma fileAt_upd [simp]:
  "fileAt (s \<lparr> fsTrace := tr \<rparr>) p = fileAt s p"
  "fileAt (s \<lparr> fsDirs := ds \<rparr>) p = fileAt s p"
  "fileAt (s \<lparr> fsListPool := lp \<rparr>) p = fileAt s p"
  by (simp_all add: fileAt_def)

lemma fileAt_simple [simp]:
  "fileAt (rwPoolClose s q) p = fileAt s p"
  "fileAt (Unlock s b ob) p = fileAt s p"
  "fileAt (RUnlock s b ob) p = fileAt s p"
  by (simp_all add: rwPoolClose_def Unlock_def RUnlock_def)






lemma locks_Nil_simps [simp]:
  "locks (s \<lparr> fsTrace := fsTrace s @ [EvFs p x] \<rparr>) = locks s"
  by (simp add: locks_def)

lemma mapGet_mapEntries [simp]: "mapGet (Some (mapEntries m)) k = mapGet m k"
  by (simp add: mapGet_def mapEntries_def split: option.splits)









section \<open>Theorems: configuration validator\<close>

lemma map_of_without:
  "map_of (filter (\<lambda>kv. fst kv \<noteq> k) kvs) k' = (if k' = k then None else map_of kvs k')"
  by (induction kvs) auto

lemma member_without:
  "member (without k doc) k' = (if k' = k then None else member doc k')"
  by (cases doc) (auto simp: member_def without_def map_of_without)

lemma noDuplicateKeysMembers_filter:
  "noDuplicateKeysMembers kvs \<Longrightarrow> noDuplicateKeysMembers (filter P kvs)"
  by (induction kvs) auto

lemma noDuplicateKeys_without: "noDuplicateKeys doc \<Longrightarrow> noDuplicateKeys (without k doc)"
  by (cases doc) (auto simp: without_def distinct_map_filter noDuplicateKeysMembers_filter)

lemma validateConfig_Inr:
  assumes "validateConfig v fmts text = Inr cfg"
  obtains doc where "text = Some doc" "noDuplicateKeys doc"
    "member doc ''version'' = Some (JStr v)" "validBrowser doc" "validCredential doc"
    "validateNotify fmts doc" "cfgRegion cfg = regionOf doc" "cfgBrowser cfg = browserOf doc"
  using assms by (auto simp: validateConfig_def split: option.splits if_splits)

lemma validCredential_iff:
  "validCredential doc \<longleftrightarrow>
     (\<exists>cred a b. member doc ''credential'' = Some (JObj cred)
        \<and> map_of cred ''accessKey'' = Some (JStr a) \<and> a \<noteq> []
        \<and> map_of cred ''secretKey'' = Some (JStr b) \<and> b \<noteq> [])"
  by (auto simp: validCredential_def stringField_def member_def split: option.splits json.splits)

lemma validBrowser_iff:
  "validBrowser doc \<longleftrightarrow>
     (member doc ''browser'' = None \<or> member doc ''browser'' = Some (JStr ''on'')
        \<or> member doc ''browser'' = Some (JStr ''off''))"
  by (auto simp: validBrowser_def split: option.splits json.splits)

text \<open>
  Claim C8. A document the validator accepts is well-formed, has the current schema
  version, has no \<open>browser\<close> member or one that is \<open>on\<close> or \<open>off\<close>, and has a credential
  with a non-empty \<open>accessKey\<close> and a non-empty \<open>secretKey\<close>. Its region is \<open>us-east-1\<close>
  when the document has none, its browser setting \<open>on\<close> when the document has none;
  and the same document without its \<open>region\<close>, or without its \<open>browser\<close>, is accepted
  too, with these defaults.
\<close>

theorem validateConfig_accepts:
  assumes "validateConfig v fmts text = Inr cfg"
  shows "\<exists>doc. text = Some doc
           \<and> member doc ''version'' = Some (JStr v)
           \<and> (member doc ''browser'' = None \<or> member doc ''browser'' = Some (JStr ''on'')
                \<or> member doc ''browser'' = Some (JStr ''off''))
           \<and> (\<exists>cred a b. member doc ''credential'' = Some (JObj cred)
                 \<and> map_of cred ''accessKey'' = Some (JStr a) \<and> a \<noteq> []
                 \<and> map_of cred ''secretKey'' = Some (JStr b) \<and> b \<noteq> [])
           \<and> (member doc ''region'' = None \<longrightarrow> cfgRegion cfg = ''us-east-1'')
           \<and> (member doc ''browser'' = None \<longrightarrow> cfgBrowser cfg = ''on'')
           \<and> validateConfig v fmts (Some (without ''region'' doc))
                = Inr (cfg \<lparr> cfgRegion := ''us-east-1'' \<rparr>)
           \<and> validateConfig v fmts (Some (without ''browser'' doc))
                = Inr (cfg \<lparr> cfgBrowser := ''on'' \<rparr>)"
proof -
  from assms obtain doc where d: "text = Some doc" "noDuplicateKeys doc"
    "member doc ''version'' = Some (JStr v)" "validBrowser doc" "validCredential doc"
    "validateNotify fmts doc" "cfgRegion cfg = regionOf doc" "cfgBrowser cfg = browserOf doc"
    by (rule validateConfig_Inr)
  have cfg: "cfg = \<lparr> cfgVersion = v, cfgRegion = regionOf doc, cfgBrowser = browserOf doc,
                    cfgAccessKey = (case member doc ''credential'' of
                                      Some cred \<Rightarrow> stringField cred ''accessKey'' | None \<Rightarrow> []),
                    cfgSecretKey = (case member doc ''credential'' of
                                      Some cred \<Rightarrow> stringField cred ''secretKey'' | None \<Rightarrow> []) \<rparr>"
    using assms d by (simp add: validateConfig_def)
  have r: "validateConfig v fmts (Some (without ''region'' doc)) = Inr (cfg \<lparr> cfgRegion := ''us-east-1'' \<rparr>)"
    using d
    by (simp add: cfg validateConfig_def noDuplicateKeys_without member_without validBrowser_def
        validCredential_def validateNotify_def regionOf_def browserOf_def globalMinioDefaultRegion_def)
  have b: "validateConfig v fmts (Some (without ''browser'' doc)) = Inr (cfg \<lparr> cfgBrowser := ''on'' \<rparr>)"
    using d
    by (simp add: cfg validateConfig_def noDuplicateKeys_without member_without validBrowser_def
        validCredential_def validateNotify_def regionOf_def browserOf_def)
  show ?thesis
    using d r b validCredential_iff[of doc] validBrowser_iff[of doc]
    by (intro exI[of _ doc]) (simp add: regionOf_def browserOf_def globalMinioDefaultRegion_def)
qed

lemmas cfg_eval = validateConfig_def exConfig_def exCredential_def exFormats_def member_def
  validBrowser_def validCredential_def validateNotify_def stringField_def regionOf_def
  browserOf_def globalMinioDefaultRegion_def without_def

theorem validateConfig_accepts_witness:
  "validateConfig ''33'' exFormats (Some (exConfig ''33'' 9))
     = Inr \<lparr> cfgVersion = ''33'', cfgRegion = ''us-east-1'', cfgBrowser = ''on'',
             cfgAccessKey = ''minio'', cfgSecretKey = ''minio123'' \<rparr>
   \<and> validateConfig ''33'' exFormats (Some (without ''region'' (exConfig ''33'' 9)))
     = Inr \<lparr> cfgVersion = ''33'', cfgRegion = ''us-east-1'', cfgBrowser = ''on'',
             cfgAccessKey = ''minio'', cfgSecretKey = ''minio123'' \<rparr>
   \<and> validateConfig ''33'' exFormats (Some (without ''browser'' (exConfig ''33'' 9)))
     = Inr \<lparr> cfgVersion = ''33'', cfgRegion = ''us-east-1'', cfgBrowser = ''on'',
             cfgAccessKey = ''minio'', cfgSecretKey = ''minio123'' \<rparr>"
proof -
  have a: "validateConfig ''33'' exFormats (Some (exConfig ''33'' 9))
     = Inr \<lparr> cfgVersion = ''33'', cfgRegion = ''us-east-1'', cfgBrowser = ''on'',
             cfgAccessKey = ''minio'', cfgSecretKey = ''minio123'' \<rparr>"
    by (simp add: cfg_eval)
  from validateConfig_accepts[OF a] show ?thesis using a by auto
qed

text \<open>The validator of this section decides the cases 2 to 10 of \<^verbatim>\<open>TestValidateConfig\<close> as
  the test expects: only 7, 8 and 9 pass.\<close>

lemma TestValidateConfig_cases:
  "map (\<lambda>n. isErr (validateConfig ''33'' exFormats (Some (exConfig ''33'' n))))
       [2, 3, 4, 5, 6, 7, 8, 9, 10]
     = [True, True, True, True, True, False, False, False, True]"
  by (simp add: cfg_eval isErr_def)

section \<open>Theorems: PutObject\<close>

lemma prims_files:
  "fsStatVolume env s p = (r1, s') \<Longrightarrow> fsFiles s' = fsFiles s"
  "mkdirAll env s p = (r3, s') \<Longrightarrow> fsFiles s' = fsFiles s"
  "fsStatDir env s p = (r4, s') \<Longrightarrow> fsFiles s' = fsFiles s"
  "fsStatFile env s p = (r5, s') \<Longrightarrow> fsFiles s' = fsFiles s"
  "fsIsFile env s p = (r7, s') \<Longrightarrow> fsFiles s' = fsFiles s"
  by (auto simp: fsStatVolume_def mkdirAll_def fsStatDir_def fsStatFile_def
      fsIsFile_def logEv_def addDirs_def Let_def split: option.splits if_splits)

lemma statBucketDir_files:
  "statBucketDir fs env s bucket = (r, s') \<Longrightarrow> fsFiles s' = fsFiles s"
  by (auto simp: statBucketDir_def split: sum.splits prod.splits dest: prims_files)





lemma fileAt_files: "fsFiles s' = fsFiles s \<Longrightarrow> fileAt s' q = fileAt s q"
  by (simp add: fileAt_def)












section \<open>Theorems: the page of a listing\<close>

lemma plainEntry_files:
  "fsFiles s' = fsFiles s \<Longrightarrow> plainEntry fs s' bucket w = plainEntry fs s bucket w"
  by (simp add: plainEntry_def fileAt_def)

text \<open>On a disk without faults and with free locks, the listing resolves a plain entry.\<close>

lemma entryToObjectInfo_plain:
  assumes q: "\<forall>t p x. fault env t p x = None" "\<forall>t m b ob. \<not> lockTimesOut env t m b ob"
    and p: "plainEntry fs s bucket w"
  shows "\<exists>oi s'. entryToObjectInfo fs env s bucket (wrEntry w) = (Inr oi, s')
           \<and> oiName oi = wrEntry w \<and> \<not> oiIsDir oi \<and> fsFiles s' = fsFiles s"
proof -
  let ?m = "pathJoin [fsPath fs, minioMetaBucket, bucketMetaPrefix, bucket, wrEntry w,
                      metaJSONFile fs]"
  let ?d = "pathJoin [fsPath fs, bucket, wrEntry w]"
  from p have nd: "\<not> hasSuffix (wrEntry w) slashSeparator"
    and m: "fileAt s ?m = None" and d: "fileAt s ?d \<noteq> None"
    by (simp_all add: plainEntry_def sidecarPath_def dataPath_def)
  from d obtain c where c: "fileAt s ?d = Some c" by auto
  from q have f: "\<And>s p x. faultAt env s p x = None" by (simp add: faultAt_def)
  show ?thesis
    using q(2) nd m c
    by (simp add: entryToObjectInfo_def GetRLock_def getObjectInfo_def rwPoolOpen_def f
        fsStatFile_def Let_def ToObjectInfo_def fileInfo_def RUnlock_def logEv_def)
qed

lemma listLoop_plain:
  assumes q: "\<forall>t p x. fault env t p x = None" "\<forall>t m b ob. \<not> lockTimesOut env t m b ob"
  shows "\<lbrakk> \<forall>w \<in> set ch. plainEntry fs s bucket w; \<forall>w \<in> set (butlast ch). \<not> wrEnd w \<rbrakk> \<Longrightarrow>
     \<exists>objs s'. listLoop fs env s bucket pre n ch acc
         = (Inr (acc @ objs,
                 length ch < n \<or> (length ch = n \<and> ch \<noteq> [] \<and> wrEnd (last ch)),
                 drop n ch), s')
       \<and> map oiName objs = map wrEntry (take n ch)
       \<and> (\<forall>oi \<in> set objs. \<not> oiIsDir oi)
       \<and> fsFiles s' = fsFiles s"
proof (induction ch arbitrary: s n acc)
  case Nil
  then show ?case by (cases n) auto
next
  case (Cons w ch)
  show ?case
  proof (cases n)
    case 0
    then show ?thesis by simp
  next
    case (Suc k)
    from Cons.prems(1) have pw: "plainEntry fs s bucket w" by simp
    then have e: "wrErr w = None" by (simp add: plainEntry_def)
    from entryToObjectInfo_plain[OF q pw] obtain oi s1 where
      r: "entryToObjectInfo fs env s bucket (wrEntry w) = (Inr oi, s1)"
      and o: "oiName oi = wrEntry w" "\<not> oiIsDir oi" and f: "fsFiles s1 = fsFiles s"
      by blast
    show ?thesis
    proof (cases "ch = []")
      case True
      have ll: "listLoop fs env s bucket pre (Suc k) [w] acc
                  = (Inr (acc @ [oi], wrEnd w \<or> k \<noteq> 0, []), s1)"
        using e r by simp
      have ef: "(wrEnd w \<or> k \<noteq> 0)
                  = (length [w] < Suc k \<or> (length [w] = Suc k \<and> [w] \<noteq> [] \<and> wrEnd (last [w])))"
        by auto
      show ?thesis
        unfolding True Suc ll ef
        using o f by (intro exI[of _ "[oi]"] exI[of _ s1]) simp
    next
      case False
      with Cons.prems(2) have nw: "\<not> wrEnd w" and bl: "\<forall>w \<in> set (butlast ch). \<not> wrEnd w"
        by auto
      from Cons.prems(1) have pl: "\<forall>w \<in> set ch. plainEntry fs s1 bucket w"
        by (simp add: plainEntry_files[OF f])
      from Cons.IH[OF pl bl, of k "acc @ [oi]"] obtain objs s' where
        l: "listLoop fs env s1 bucket pre k ch (acc @ [oi])
              = (Inr ((acc @ [oi]) @ objs,
                      length ch < k \<or> (length ch = k \<and> ch \<noteq> [] \<and> wrEnd (last ch)),
                      drop k ch), s')"
        and n: "map oiName objs = map wrEntry (take k ch)"
        and d: "\<forall>oi \<in> set objs. \<not> oiIsDir oi" and f': "fsFiles s' = fsFiles s1"
        by blast
      have u: "listLoop fs env s bucket pre (Suc k) (w # ch) acc
                 = listLoop fs env s1 bucket pre k ch (acc @ [oi])"
        using e r nw by simp
      have ef: "(length (w # ch) < Suc k
                  \<or> (length (w # ch) = Suc k \<and> w # ch \<noteq> [] \<and> wrEnd (last (w # ch))))
                = (length ch < k \<or> (length ch = k \<and> ch \<noteq> [] \<and> wrEnd (last ch)))"
        using False by simp
      have "listLoop fs env s bucket pre (Suc k) (w # ch) acc
              = (Inr (acc @ (oi # objs),
                   length (w # ch) < Suc k
                   \<or> (length (w # ch) = Suc k \<and> w # ch \<noteq> [] \<and> wrEnd (last (w # ch))),
                   drop (Suc k) (w # ch)), s')"
        unfolding u l ef by simp
      moreover have "map oiName (oi # objs) = map wrEntry (take (Suc k) (w # ch))"
        using n o by simp
      moreover have "\<forall>x \<in> set (oi # objs). \<not> oiIsDir x" using d o by simp
      moreover have "fsFiles s' = fsFiles s" using f f' by simp
      ultimately show ?thesis unfolding Suc by blast
    qed
  qed
qed

lemma fillResult_plain:
  "\<forall>oi \<in> set objs. \<not> oiIsDir oi \<Longrightarrow>
   fillResult d objs r
     = r \<lparr> NextMarker := (if objs = [] then NextMarker r else oiName (last objs)),
           Objects := Objects r @ objs \<rparr>"
  by (induction objs arbitrary: r) (auto simp: Let_def)


lemma claimWalker_files:
  "claimWalker fs env s params = (ch, s') \<Longrightarrow> fsFiles s' = fsFiles s"
  by (auto simp: claimWalker_def logEv_def split: prod.splits option.splits)

text \<open>The page of a listing whose walker sends plain entries, on a disk without faults
  and with free locks: the first \<open>n\<close> entries, \<open>n\<close> the number of keys after the overflow
  check.\<close>

lemma ListObjects_exact:
  assumes q: "\<forall>t p x. fault env t p x = None" "\<forall>t m b ob. \<not> lockTimesOut env t m b ob"
    and chk: "checkListObjsArgs env s bucket pre marker delimiter = None"
    and mk: "marker = [] \<or> hasPrefix marker pre"
    and sb: "statBucketDir fs env s bucket = (Inr st, s1)"
    and nz: "maxKeys \<noteq> 0"
    and nd: "\<not> (delimiter = slashSeparator \<and> pre = slashSeparator)"
    and cw: "claimWalker fs env s1 \<lparr> lpBucket = bucket, lpRecursive = (delimiter \<noteq> slashSeparator),
                 lpMarker = marker, lpPrefix = pre, lpHeal = False \<rparr> = (ch, s2)"
    and pl: "\<forall>w \<in> set ch. plainEntry fs s bucket w"
    and en: "\<forall>w \<in> set (butlast ch). \<not> wrEnd w"
    and n: "n = (if maxKeys < 0 \<or> maxKeys > 1000 then 1000 else nat maxKeys)"
  shows "snd (fst (ListObjects fs env s bucket pre marker delimiter maxKeys)) = None
     \<and> map oiName (Objects (fst (fst (ListObjects fs env s bucket pre marker delimiter maxKeys))))
         = map wrEntry (take n ch)
     \<and> Prefixes (fst (fst (ListObjects fs env s bucket pre marker delimiter maxKeys))) = []
     \<and> IsTruncated (fst (fst (ListObjects fs env s bucket pre marker delimiter maxKeys)))
         = (n < length ch \<or> (length ch = n \<and> \<not> wrEnd (last ch)))"
proof -
  from statBucketDir_files[OF sb] claimWalker_files[OF cw] have "fsFiles s2 = fsFiles s"
    by simp
  with pl have pl2: "\<forall>w \<in> set ch. plainEntry fs s2 bucket w"
    by (simp add: plainEntry_files[of s2 s])
  from listLoop_plain[OF q pl2 en, of pre n "[]"] obtain objs s3 where
    l: "listLoop fs env s2 bucket pre n ch []
          = (Inr (objs, length ch < n \<or> (length ch = n \<and> ch \<noteq> [] \<and> wrEnd (last ch)),
                  drop n ch), s3)"
    and nm: "map oiName objs = map wrEntry (take n ch)"
    and dr: "\<forall>oi \<in> set objs. \<not> oiIsDir oi"
    by auto
  have n0: "0 < n" using n nz by auto
  have nn: "nat (if maxKeys < 0 \<or> maxKeys > maxObjectList then maxObjectList else maxKeys) = n"
    using n by (simp add: maxObjectList_def)
  have lo: "ListObjects fs env s bucket pre marker delimiter maxKeys
        = listWalk fs env s1 bucket pre marker delimiter
            (if maxKeys < 0 \<or> maxKeys > maxObjectList then maxObjectList else maxKeys)"
    using chk mk sb nz nd by (auto simp: ListObjects_def)
  have ef: "(\<not> (length ch < n \<or> (length ch = n \<and> ch \<noteq> [] \<and> wrEnd (last ch))))
              = (n < length ch \<or> (length ch = n \<and> \<not> wrEnd (last ch)))"
    using n0 by auto
  show ?thesis
    unfolding lo
    using ef nm
    by (simp add: listWalk_def Let_def cw nn l fillResult_plain[OF dr] emptyListObjectsInfo_def
        del: not_less)
qed

text \<open>
  Claim C4. A listing with \<open>maxKeys = 0\<close>, and a listing with delimiter and prefix both
  \<open>/\<close>, return the empty \<^verbatim>\<open>ListObjectsInfo\<close> (no objects, no prefixes, \<open>IsTruncated\<close>
  false), with a nil error when the argument check passes, the marker is empty or
  starts with the prefix, and the bucket directory is there. A \<open>maxKeys\<close> below 0 or
  above 1000 gives the listing of \<open>maxKeys = 1000\<close>. In every case the page holds at
  most 1000 entries, and at most \<open>maxKeys\<close> of them when \<open>maxKeys\<close> is in range. And the
  bound is reached: on a disk without faults and with free locks, when the results that
  the listing reads all name files of the bucket without sidecar and only the last of
  them is marked as the end of the walk, the page holds the first \<open>n\<close> of them, in
  order, where \<open>n\<close> is 1000 for a \<open>maxKeys\<close> below 0 or above 1000, and \<open>maxKeys\<close>
  otherwise; and it is truncated when there are more than \<open>n\<close> results, or exactly \<open>n\<close>
  with the last one not marked as the end.
\<close>

theorem ListObjects_maxKeys:
  "(maxKeys = 0 \<longrightarrow>
      fst (fst (ListObjects fs env s bucket pre marker delimiter maxKeys)) = emptyListObjectsInfo)
   \<and> (delimiter = slashSeparator \<and> pre = slashSeparator \<longrightarrow>
      fst (fst (ListObjects fs env s bucket pre marker delimiter maxKeys)) = emptyListObjectsInfo)
   \<and> ((maxKeys = 0 \<or> delimiter = slashSeparator \<and> pre = slashSeparator)
        \<and> checkListObjsArgs env s bucket pre marker delimiter = None
        \<and> (marker = [] \<or> hasPrefix marker pre)
        \<and> statBucketDir fs env s bucket = (Inr st, s1) \<longrightarrow>
      ListObjects fs env s bucket pre marker delimiter maxKeys = ((emptyListObjectsInfo, None), s1))
   \<and> (maxKeys < 0 \<or> maxKeys > 1000 \<longrightarrow>
      ListObjects fs env s bucket pre marker delimiter maxKeys
        = ListObjects fs env s bucket pre marker delimiter 1000)
   \<and> length (Objects (fst (fst (ListObjects fs env s bucket pre marker delimiter maxKeys))))
       + length (Prefixes (fst (fst (ListObjects fs env s bucket pre marker delimiter maxKeys))))
      \<le> (if maxKeys < 0 \<or> maxKeys > 1000 then 1000 else nat maxKeys)
   \<and> ((\<forall>t p x. fault env t p x = None) \<and> (\<forall>t m b ob. \<not> lockTimesOut env t m b ob)
        \<and> checkListObjsArgs env s bucket pre marker delimiter = None
        \<and> (marker = [] \<or> hasPrefix marker pre)
        \<and> statBucketDir fs env s bucket = (Inr st, s1)
        \<and> maxKeys \<noteq> 0 \<and> \<not> (delimiter = slashSeparator \<and> pre = slashSeparator)
        \<and> claimWalker fs env s1
             \<lparr> lpBucket = bucket, lpRecursive = (delimiter \<noteq> slashSeparator),
               lpMarker = marker, lpPrefix = pre, lpHeal = False \<rparr> = (ch, s2)
        \<and> (\<forall>w \<in> set ch. plainEntry fs s bucket w)
        \<and> (\<forall>w \<in> set (butlast ch). \<not> wrEnd w)
        \<and> n = (if maxKeys < 0 \<or> maxKeys > 1000 then 1000 else nat maxKeys) \<longrightarrow>
      snd (fst (ListObjects fs env s bucket pre marker delimiter maxKeys)) = None
      \<and> map oiName (Objects (fst (fst (ListObjects fs env s bucket pre marker delimiter maxKeys))))
          = map wrEntry (take n ch)
      \<and> Prefixes (fst (fst (ListObjects fs env s bucket pre marker delimiter maxKeys))) = []
      \<and> IsTruncated (fst (fst (ListObjects fs env s bucket pre marker delimiter maxKeys)))
          = (n < length ch \<or> (length ch = n \<and> \<not> wrEnd (last ch))))"
proof (intro conjI)
  show "length (Objects (fst (fst (ListObjects fs env s bucket pre marker delimiter maxKeys))))
       + length (Prefixes (fst (fst (ListObjects fs env s bucket pre marker delimiter maxKeys))))
      \<le> (if maxKeys < 0 \<or> maxKeys > 1000 then 1000 else nat maxKeys)"
    by (rule ListObjects_bound)
  show "(\<forall>t p x. fault env t p x = None) \<and> (\<forall>t m b ob. \<not> lockTimesOut env t m b ob)
        \<and> checkListObjsArgs env s bucket pre marker delimiter = None
        \<and> (marker = [] \<or> hasPrefix marker pre)
        \<and> statBucketDir fs env s bucket = (Inr st, s1)
        \<and> maxKeys \<noteq> 0 \<and> \<not> (delimiter = slashSeparator \<and> pre = slashSeparator)
        \<and> claimWalker fs env s1
             \<lparr> lpBucket = bucket, lpRecursive = (delimiter \<noteq> slashSeparator),
               lpMarker = marker, lpPrefix = pre, lpHeal = False \<rparr> = (ch, s2)
        \<and> (\<forall>w \<in> set ch. plainEntry fs s bucket w)
        \<and> (\<forall>w \<in> set (butlast ch). \<not> wrEnd w)
        \<and> n = (if maxKeys < 0 \<or> maxKeys > 1000 then 1000 else nat maxKeys) \<longrightarrow>
      snd (fst (ListObjects fs env s bucket pre marker delimiter maxKeys)) = None
      \<and> map oiName (Objects (fst (fst (ListObjects fs env s bucket pre marker delimiter maxKeys))))
          = map wrEntry (take n ch)
      \<and> Prefixes (fst (fst (ListObjects fs env s bucket pre marker delimiter maxKeys))) = []
      \<and> IsTruncated (fst (fst (ListObjects fs env s bucket pre marker delimiter maxKeys)))
          = (n < length ch \<or> (length ch = n \<and> \<not> wrEnd (last ch)))"
    using ListObjects_exact[of env s bucket pre marker delimiter fs st s1 maxKeys ch s2 n]
    by blast
qed (auto simp: ListObjects_def maxObjectList_def split: option.splits sum.splits prod.splits)

lemma exList_hyps:
  "\<forall>t p x. fault (walkEnv ch) t p x = None"
  "\<forall>t m b ob. \<not> lockTimesOut (walkEnv ch) t m b ob"
  "checkListObjsArgs (walkEnv ch) (exState exListFiles) ''b'' [] [] [] = None"
  "statBucketDir exFS (walkEnv ch) (exState exListFiles) ''b''
     = (Inr dirInfo, logEv (EvFs StatVolume ''/export/b'') (exState exListFiles))"
  "claimWalker exFS (walkEnv ch) (logEv (EvFs StatVolume ''/export/b'') (exState exListFiles))
     \<lparr> lpBucket = ''b'', lpRecursive = ([] \<noteq> slashSeparator), lpMarker = [], lpPrefix = [],
       lpHeal = False \<rparr>
     = (ch, logEv (EvFs TreeWalk ''/export/b'')
              (logEv (EvFs StatVolume ''/export/b'') (exState exListFiles)))"
  by (simp_all add: walkEnv_def claimWalker_def path_eval prim_eval ex_eval)

lemma exList_plain:
  "plainEntry exFS (exState exListFiles) ''b'' \<lparr> wrEntry = ''a'', wrErr = None, wrEnd = e \<rparr>"
  "plainEntry exFS (exState exListFiles) ''b'' \<lparr> wrEntry = ''b'', wrErr = None, wrEnd = e \<rparr>"
  "plainEntry exFS (exState exListFiles) ''b'' \<lparr> wrEntry = ''c'', wrErr = None, wrEnd = e \<rparr>"
  by (simp_all add: plainEntry_def exListFiles_def sidecarPath_def dataPath_def path_eval
      ex_eval fileAt_def)

theorem ListObjects_maxKeys_witness:
  "map oiName (Objects (fst (fst (ListObjects exFS (walkEnv exWalk) (exState exListFiles)
                                      ''b'' [] [] [] 2)))) = [''a'', ''b'']
   \<and> IsTruncated (fst (fst (ListObjects exFS (walkEnv exWalk) (exState exListFiles)
                               ''b'' [] [] [] 2)))
   \<and> map oiName (Objects (fst (fst (ListObjects exFS (walkEnv exWalk) (exState exListFiles)
                                        ''b'' [] [] [] (- 1))))) = [''a'', ''b'', ''c'']
   \<and> \<not> IsTruncated (fst (fst (ListObjects exFS (walkEnv exWalk) (exState exListFiles)
                                 ''b'' [] [] [] (- 1))))
   \<and> map oiName (Objects (fst (fst (ListObjects exFS
          (walkEnv (replicate 1001 \<lparr> wrEntry = ''a'', wrErr = None, wrEnd = False \<rparr>))
          (exState exListFiles) ''b'' [] [] [] 5000)))) = replicate 1000 ''a''
   \<and> IsTruncated (fst (fst (ListObjects exFS
          (walkEnv (replicate 1001 \<lparr> wrEntry = ''a'', wrErr = None, wrEnd = False \<rparr>))
          (exState exListFiles) ''b'' [] [] [] 5000)))
   \<and> ListObjects exFS (walkEnv exWalk) (exState exListFiles) ''b'' [] [] [] 0
       = ((emptyListObjectsInfo, None),
          logEv (EvFs StatVolume ''/export/b'') (exState exListFiles))"
proof -
  let ?s1 = "logEv (EvFs StatVolume ''/export/b'') (exState exListFiles)"
  let ?s2 = "logEv (EvFs TreeWalk ''/export/b'') ?s1"
  let ?fl = "replicate 1001 \<lparr> wrEntry = ''a'', wrErr = None, wrEnd = False \<rparr>"
  have p3: "\<forall>w \<in> set exWalk. plainEntry exFS (exState exListFiles) ''b'' w"
    "\<forall>w \<in> set (butlast exWalk). \<not> wrEnd w"
    by (simp_all add: exWalk_def exList_plain)
  have pf: "\<forall>w \<in> set ?fl. plainEntry exFS (exState exListFiles) ''b'' w"
    "\<forall>w \<in> set (butlast ?fl). \<not> wrEnd w"
    by (auto simp: exList_plain dest: in_set_butlastD)
  have sl: "\<not> ([] = slashSeparator \<and> [] = slashSeparator)" by (simp add: slashSeparator_def)
  note a = ListObjects_maxKeys
          [where maxKeys = 2 and fs = exFS and env = "walkEnv exWalk"
             and s = "exState exListFiles" and bucket = "''b''" and pre = "[]"
             and marker = "[]" and delimiter = "[]" and st = dirInfo and ?s1.0 = ?s1
             and ch = exWalk and ?s2.0 = ?s2 and n = 2,
           THEN conjunct2, THEN conjunct2, THEN conjunct2, THEN conjunct2, THEN conjunct2]
  note b = ListObjects_maxKeys
          [where maxKeys = "- 1" and fs = exFS and env = "walkEnv exWalk"
             and s = "exState exListFiles" and bucket = "''b''" and pre = "[]"
             and marker = "[]" and delimiter = "[]" and st = dirInfo and ?s1.0 = ?s1
             and ch = exWalk and ?s2.0 = ?s2 and n = 1000,
           THEN conjunct2, THEN conjunct2, THEN conjunct2, THEN conjunct2, THEN conjunct2]
  note c = ListObjects_maxKeys
          [where maxKeys = 5000 and fs = exFS and env = "walkEnv ?fl"
             and s = "exState exListFiles" and bucket = "''b''" and pre = "[]"
             and marker = "[]" and delimiter = "[]" and st = dirInfo and ?s1.0 = ?s1
             and ch = ?fl and ?s2.0 = ?s2 and n = 1000,
           THEN conjunct2, THEN conjunct2, THEN conjunct2, THEN conjunct2, THEN conjunct2]
  note d = ListObjects_maxKeys
          [where maxKeys = 0 and fs = exFS and env = "walkEnv exWalk"
             and s = "exState exListFiles" and bucket = "''b''" and pre = "[]"
             and marker = "[]" and delimiter = "[]" and st = dirInfo and ?s1.0 = ?s1,
           THEN conjunct2, THEN conjunct2, THEN conjunct1]
  have A: "map oiName (Objects (fst (fst (ListObjects exFS (walkEnv exWalk) (exState exListFiles)
                                      ''b'' [] [] [] 2)))) = [''a'', ''b'']"
    "IsTruncated (fst (fst (ListObjects exFS (walkEnv exWalk) (exState exListFiles)
                               ''b'' [] [] [] 2)))"
    using a exList_hyps[of exWalk] p3 sl by (simp_all add: exWalk_def)
  have B: "map oiName (Objects (fst (fst (ListObjects exFS (walkEnv exWalk) (exState exListFiles)
                                        ''b'' [] [] [] (- 1))))) = [''a'', ''b'', ''c'']"
    "\<not> IsTruncated (fst (fst (ListObjects exFS (walkEnv exWalk) (exState exListFiles)
                                 ''b'' [] [] [] (- 1))))"
    using b exList_hyps[of exWalk] p3 sl by (simp_all add: exWalk_def)
  have C: "map oiName (Objects (fst (fst (ListObjects exFS (walkEnv ?fl)
          (exState exListFiles) ''b'' [] [] [] 5000)))) = replicate 1000 ''a''"
    "IsTruncated (fst (fst (ListObjects exFS (walkEnv ?fl)
          (exState exListFiles) ''b'' [] [] [] 5000)))"
    using c exList_hyps[of ?fl] pf sl by simp_all
  have D: "ListObjects exFS (walkEnv exWalk) (exState exListFiles) ''b'' [] [] [] 0
       = ((emptyListObjectsInfo, None), ?s1)"
    using d exList_hyps[of exWalk] by simp
  from A B C D show ?thesis by blast
qed
end
